theory Spec2Isabelle
  imports Complex_Main "HOL-Library.Sublist" "HOL-Library.Char_ord" "HOL-Library.List_Lexorder"
begin

section \<open>Strings as the services use them\<close>

text \<open>
  Strings are lists of characters. Case conversion follows \<^verbatim>\<open>String.prototype.toLowerCase\<close>
  and \<^verbatim>\<open>toUpperCase\<close> on the ASCII letters and leaves every other character alone.
\<close>

definition lower_letters :: string where
  "lower_letters = ''abcdefghijklmnopqrstuvwxyz''"

definition upper_letters :: string where
  "upper_letters = ''ABCDEFGHIJKLMNOPQRSTUVWXYZ''"

definition toLowerCase_char :: "char \<Rightarrow> char" where
  "toLowerCase_char c =
     (case map_of (zip upper_letters lower_letters) c of Some d \<Rightarrow> d | None \<Rightarrow> c)"

definition toUpperCase_char :: "char \<Rightarrow> char" where
  "toUpperCase_char c =
     (case map_of (zip lower_letters upper_letters) c of Some d \<Rightarrow> d | None \<Rightarrow> c)"

definition toLowerCase :: "string \<Rightarrow> string" where
  "toLowerCase s = map toLowerCase_char s"

definition toUpperCase :: "string \<Rightarrow> string" where
  "toUpperCase s = map toUpperCase_char s"

text \<open>\<^verbatim>\<open>text.includes(keyword)\<close>: the keyword occurs at some position of the text.\<close>

fun starts_with :: "string \<Rightarrow> string \<Rightarrow> bool" where
  "starts_with s [] = True"
| "starts_with [] (k # ks) = False"
| "starts_with (c # cs) (k # ks) = (c = k \<and> starts_with cs ks)"

fun str_includes :: "string \<Rightarrow> string \<Rightarrow> bool" where
  "str_includes [] k = (k = [])"
| "str_includes (c # cs) k = (starts_with (c # cs) k \<or> str_includes cs k)"

text \<open>JavaScript truthiness of an optional string: \<^verbatim>\<open>undefined\<close> and \<^verbatim>\<open>''\<close> are falsy.\<close>

definition truthy :: "string option \<Rightarrow> bool" where
  "truthy v = (case v of None \<Rightarrow> False | Some s \<Rightarrow> s \<noteq> [])"

definition str_of :: "string option \<Rightarrow> string" where
  "str_of v = (case v of None \<Rightarrow> [] | Some s \<Rightarrow> s)"

section \<open>News categorisation (newsService.ts)\<close>

datatype category = Market | Company | Policy | Economy

definition categorizeNews :: "string \<Rightarrow> string \<Rightarrow> category" where
  "categorizeNews title description =
     (let text = toLowerCase (title @ '' '' @ description) in
      if str_includes text ''rbi'' \<or> str_includes text ''policy'' \<or>
         str_includes text ''regulation'' \<or> str_includes text ''government''
      then Policy
      else if str_includes text ''gdp'' \<or> str_includes text ''inflation'' \<or>
         str_includes text ''economy'' \<or> str_includes text ''economic''
      then Economy
      else if str_includes text ''nifty'' \<or> str_includes text ''sensex'' \<or>
         str_includes text ''market'' \<or> str_includes text ''index''
      then Market
      else Company)"

text \<open>
  The rule as the specification words it: an ordered list of keyword groups, the first group
  with a keyword that occurs somewhere in the text decides, and \<open>Company\<close> is what remains.
\<close>

definition keyword_groups :: "(category \<times> string list) list" where
  "keyword_groups =
     [(Policy, [''rbi'', ''policy'', ''regulation'', ''government'']),
      (Economy, [''gdp'', ''inflation'', ''economy'', ''economic'']),
      (Market, [''nifty'', ''sensex'', ''market'', ''index''])]"

fun first_group :: "(category \<times> string list) list \<Rightarrow> string \<Rightarrow> category" where
  "first_group [] text = Company"
| "first_group ((c, ks) # gs) text =
     (if list_ex (\<lambda>k. sublist k text) ks then c else first_group gs text)"

section \<open>The news service: articles, items and the provider (newsService.ts)\<close>

text \<open>
  A date string is represented by the instant it parses to (\<^verbatim>\<open>new Date(s).getTime()\<close>),
  \<open>None\<close> when it does not parse.
\<close>

record entity =
  en_symbol :: string
  en_type :: string
  en_country :: string

record article =
  a_uuid :: string
  a_title :: string
  a_description :: string
  a_snippet :: string
  a_url :: string
  a_published_at :: "int option"
  a_source :: string
  a_entities :: "entity list option"

record news_item =
  n_id :: string
  n_headline :: string
  n_summary :: string
  n_source :: string
  n_timestamp :: "int option"
  n_url :: string
  n_relevantStocks :: "string list"
  n_category :: category
  n_isRecent :: bool

record news_cache =
  c_data :: "news_item list"
  c_timestamp :: int

text \<open>
  What is kept between calls: the module variable \<^verbatim>\<open>newsCache\<close> and the
  \<^verbatim>\<open>localStorage\<close> entry of the same name. The entry is absent, or holds something that
  \<^verbatim>\<open>JSON.parse\<close> or the read of its timestamp rejects, or holds a cache object.
\<close>

datatype stored = Unparsable | Stored news_cache

record news_state =
  newsCache :: "news_cache option"
  localStorage_newsCache :: "stored option"

text \<open>
  The requests \<open>fetchNews\<close> sends and what can come back: \<^verbatim>\<open>fetch\<close> throws, or the
  response is not \<^verbatim>\<open>ok\<close>, or it is and \<^verbatim>\<open>response.json()\<close> throws or yields an object
  whose \<^verbatim>\<open>data\<close> is missing or a list of articles.
\<close>

datatype query = QGlobal | QIndia | QKeyword string

datatype json_outcome = JsonThrows | JsonData "article list option"

datatype fetch_outcome = FetchThrows | FetchNotOk | FetchOk json_outcome

text \<open>The places where \<^verbatim>\<open>Date.now()\<close> is read; the clock gives a value at each.\<close>

datatype reading = AtCacheCheck | AtStorageCheck | AtDayThreshold | AtThreeDayThreshold
  | AtCacheStore | AtFallback

record news_env =
  VITE_MARKETAUX_API_KEY :: "string option"
  provider :: "query \<Rightarrow> fetch_outcome"
  clock :: "reading \<Rightarrow> int"
  storage_writable :: bool

definition CACHE_DURATION :: int where
  "CACHE_DURATION = 20 * 60 * 1000"

text \<open>\<^verbatim>\<open>newsCache && Date.now() - newsCache.timestamp < CACHE_DURATION\<close>\<close>

definition cache_fresh :: "int \<Rightarrow> news_cache option \<Rightarrow> bool" where
  "cache_fresh t c = (case c of None \<Rightarrow> False | Some x \<Rightarrow> t - c_timestamp x < CACHE_DURATION)"

section \<open>Relevance heuristics\<close>

definition marketKeywords :: "string list" where
  "marketKeywords =
     [''nifty'', ''sensex'', ''bse'', ''nse'', ''market'', ''stock'', ''share'',
      ''equity'', ''trading'', ''investor'', ''investment'', ''portfolio'',
      ''mutual fund'', ''ipo'', ''listing'', ''earnings'', ''quarterly'', ''results'',
      ''profit'', ''revenue'', ''dividend'', ''bonus'', ''split'', ''merger'',
      ''acquisition'', ''bank'', ''financial'', ''sector'', ''industry'',
      ''corporate'']"

definition indianKeywords :: "string list" where
  "indianKeywords =
     [''india'', ''indian'', ''mumbai'', ''delhi'', ''bangalore'', ''hyderabad'',
      ''rupee'', ''inr'', ''rbi'', ''sebi'', ''modi'', ''budget'', ''gst'',
      ''reliance'', ''tata'', ''adani'', ''ambani'', ''infosys'', ''wipro'', ''hdfc'',
      ''icici'', ''sbi'', ''axis'', ''kotak'', ''bharti'', ''airtel'', ''coal india'',
      ''ongc'', ''ntpc'', ''power grid'', ''oil india'', ''larsen'', ''toubro'',
      ''mahindra'', ''maruti'', ''hero motocorp'']"

definition businessKeywords :: "string list" where
  "businessKeywords =
     [''merger'', ''acquisition'', ''joint venture'', ''partnership'',
      ''collaboration'', ''investment'', ''funding'', ''startup'', ''ceo'',
      ''founder'', ''launch'', ''product'', ''service'', ''technology'',
      ''innovation'', ''research'', ''development'', ''patent'', ''trademark'',
      ''copyright'', ''licensing'', ''regulation'', ''compliance'', ''audit'',
      ''financial'', ''report'', ''statement'', ''forecast'', ''guidance'', ''risk'',
      ''challenge'', ''opportunity'']"

definition irrelevantKeywords :: "string list" where
  "irrelevantKeywords =
     [''sports'', ''entertainment'', ''celebrity'', ''gossip'', ''reality show'',
      ''movie'', ''film'', ''music'', ''concert'', ''theater'', ''art'', ''fashion'',
      ''beauty'', ''lifestyle'', ''food'', ''recipe'', ''travel'', ''vacation'',
      ''holiday'', ''leisure'', ''hobby'', ''pets'', ''animal'', ''nature'',
      ''environment'', ''weather'', ''science'', ''health'', ''fitness'', ''wellness'',
      ''meditation'', ''yoga'', ''spirituality'', ''philosophy'', ''religion'',
      ''mythology'']"

definition some_keyword :: "string list \<Rightarrow> string \<Rightarrow> string \<Rightarrow> bool" where
  "some_keyword keywords headline summary =
     (let text = toLowerCase (headline @ '' '' @ summary) in
      list_ex (\<lambda>keyword. str_includes text keyword) keywords)"

definition checkMarketRelevance :: "string \<Rightarrow> string \<Rightarrow> bool" where
  "checkMarketRelevance headline summary = some_keyword marketKeywords headline summary"

definition checkIndianMarketRelevance :: "string \<Rightarrow> string \<Rightarrow> bool" where
  "checkIndianMarketRelevance headline summary = some_keyword indianKeywords headline summary"

definition checkBusinessRelevance :: "string \<Rightarrow> string \<Rightarrow> bool" where
  "checkBusinessRelevance headline summary = some_keyword businessKeywords headline summary"

definition isCompletelyIrrelevant :: "string \<Rightarrow> string \<Rightarrow> bool" where
  "isCompletelyIrrelevant headline summary = some_keyword irrelevantKeywords headline summary"

text \<open>
  The test \<^verbatim>\<open>/\b(money|finance|...)\b/i\<close>: one of the words occurs, ignoring case, with
  no word character (letter, digit, underscore) right before it and none right after.
\<close>

definition financialWords :: "string list" where
  "financialWords =
     [''money'', ''finance'', ''business'', ''company'', ''corporate'', ''industry'',
      ''sector'', ''economic'', ''growth'', ''profit'', ''revenue'', ''earnings'',
      ''investment'', ''trade'', ''commercial'']"

definition word_char :: "char \<Rightarrow> bool" where
  "word_char c =
     (c \<in> set (lower_letters @ upper_letters @ ''0123456789_''))"

definition boundary_after :: "string \<Rightarrow> bool" where
  "boundary_after rest = (case rest of [] \<Rightarrow> True | c # cs \<Rightarrow> \<not> word_char c)"

fun test_words :: "string list \<Rightarrow> bool \<Rightarrow> string \<Rightarrow> bool" where
  "test_words ws after_word [] = False"
| "test_words ws after_word (c # cs) =
     ((\<not> after_word \<and>
       list_ex (\<lambda>w. starts_with (c # cs) w \<and> boundary_after (drop (length w) (c # cs))) ws)
      \<or> test_words ws (word_char c) cs)"

definition hasFinancialWords :: "string \<Rightarrow> bool" where
  "hasFinancialWords text = test_words financialWords False (toLowerCase text)"

section \<open>Placeholder news\<close>

definition getFallbackNews :: "int \<Rightarrow> news_item list" where
  "getFallbackNews currentTime =
     [
      \<lparr>n_id = ''fallback-1'',
       n_headline = ''Indian Markets Show Resilience Amid Global Uncertainty'',
       n_summary = ''Nifty 50 and Sensex maintain steady performance as investors '' @
                   ''focus on domestic fundamentals and upcoming earnings season. '' @
                   ''Market participants remain cautiously optimistic.'',
       n_source = ''Market News'',
       n_timestamp = Some (currentTime - 1000 * 60 * 30),
       n_url = ''#'',
       n_relevantStocks = [''NIFTY50''],
       n_category = Market,
       n_isRecent = True\<rparr>,
      \<lparr>n_id = ''fallback-2'',
       n_headline = ''RBI Monetary Policy Decision Awaited by Market Participants'',
       n_summary = ''Investors and analysts closely watching for any changes in '' @
                   ''repo rate and policy stance in the upcoming RBI meeting. '' @
                   ''Banking sector stocks show mixed performance.'',
       n_source = ''Economic News'',
       n_timestamp = Some (currentTime - 1000 * 60 * 60),
       n_url = ''#'',
       n_relevantStocks = [''HDFCBANK'', ''ICICIBANK''],
       n_category = Policy,
       n_isRecent = True\<rparr>,
      \<lparr>n_id = ''fallback-3'',
       n_headline = ''Technology Sector Leads Market Rally'',
       n_summary = ''IT stocks show strong performance driven by digital '' @
                   ''transformation demand and favorable currency movements. '' @
                   ''Major players report strong quarterly results.'',
       n_source = ''Tech News'',
       n_timestamp = Some (currentTime - 1000 * 60 * 90),
       n_url = ''#'',
       n_relevantStocks = [''TCS'', ''INFY'', ''WIPRO''],
       n_category = Company,
       n_isRecent = True\<rparr>,
      \<lparr>n_id = ''fallback-4'',
       n_headline = ''Reliance Industries Reports Strong Q4 Earnings'',
       n_summary = ''Oil-to-chemicals giant Reliance Industries posted robust '' @
                   ''quarterly earnings, beating analyst estimates. Retail and '' @
                   ''telecom segments show continued growth.'',
       n_source = ''Business News'',
       n_timestamp = Some (currentTime - 1000 * 60 * 120),
       n_url = ''#'',
       n_relevantStocks = [''RELIANCE''],
       n_category = Company,
       n_isRecent = True\<rparr>,
      \<lparr>n_id = ''fallback-5'',
       n_headline = ''HDFC Bank Maintains Leadership in Digital Banking'',
       n_summary = ''Private sector lender continues to expand its digital '' @
                   ''footprint with new fintech partnerships and innovative '' @
                   ''banking solutions for retail customers.'',
       n_source = ''Banking News'',
       n_timestamp = Some (currentTime - 1000 * 60 * 150),
       n_url = ''#'',
       n_relevantStocks = [''HDFCBANK''],
       n_category = Company,
       n_isRecent = True\<rparr>,
      \<lparr>n_id = ''fallback-6'',
       n_headline = ''FII Flows Show Recovery After Recent Volatility'',
       n_summary = ''Foreign institutional investors return to Indian markets '' @
                   ''with net inflows recorded this week, signaling renewed '' @
                   ''confidence in domestic growth prospects.'',
       n_source = ''Investment News'',
       n_timestamp = Some (currentTime - 1000 * 60 * 180),
       n_url = ''#'',
       n_relevantStocks = [''NIFTY50''],
       n_category = Market,
       n_isRecent = True\<rparr>,
      \<lparr>n_id = ''fallback-7'',
       n_headline = ''Adani Group Stocks Rebound on Infrastructure Push'',
       n_summary = ''Adani portfolio companies see strong investor interest as '' @
                   ''the group announces major infrastructure projects across '' @
                   ''renewable energy and logistics.'',
       n_source = ''Infrastructure News'',
       n_timestamp = Some (currentTime - 1000 * 60 * 210),
       n_url = ''#'',
       n_relevantStocks = [''ADANIGREEN''],
       n_category = Company,
       n_isRecent = True\<rparr>,
      \<lparr>n_id = ''fallback-8'',
       n_headline = ''Government Announces New Manufacturing Incentives'',
       n_summary = ''Centre unveils fresh policy measures to boost domestic '' @
                   ''manufacturing, with focus on electronics, textiles, and '' @
                   ''automotive sectors.'',
       n_source = ''Policy News'',
       n_timestamp = Some (currentTime - 1000 * 60 * 240),
       n_url = ''#'',
       n_relevantStocks = [''MARUTI'', ''MAHINDRA''],
       n_category = Policy,
       n_isRecent = True\<rparr>,
      \<lparr>n_id = ''fallback-9'',
       n_headline = ''Pharmaceutical Sector Gains on Export Demand'',
       n_summary = ''Indian pharma companies report increased export orders, '' @
                   ''particularly in generic drugs and active pharmaceutical '' @
                   ''ingredients (APIs).'',
       n_source = ''Pharma News'',
       n_timestamp = Some (currentTime - 1000 * 60 * 270),
       n_url = ''#'',
       n_relevantStocks = [''SUNPHARMA'', ''DRREDDY''],
       n_category = Company,
       n_isRecent = True\<rparr>,
      \<lparr>n_id = ''fallback-10'',
       n_headline = ''Steel Industry Outlook Remains Positive'',
       n_summary = ''Domestic steel demand continues to grow driven by '' @
                   ''infrastructure projects and construction activity. Major '' @
                   ''steel producers report capacity expansion plans.'',
       n_source = ''Steel News'',
       n_timestamp = Some (currentTime - 1000 * 60 * 300),
       n_url = ''#'',
       n_relevantStocks = [''TATASTEEL'', ''JSWSTEEL''],
       n_category = Company,
       n_isRecent = True\<rparr>,
      \<lparr>n_id = ''fallback-11'',
       n_headline = ''Auto Sector Shows Signs of Recovery'',
       n_summary = ''Vehicle sales data indicates improving consumer demand, with '' @
                   ''both passenger and commercial vehicle segments showing '' @
                   ''growth momentum.'',
       n_source = ''Auto News'',
       n_timestamp = Some (currentTime - 1000 * 60 * 330),
       n_url = ''#'',
       n_relevantStocks = [''MARUTI'', ''TATAMOTORS''],
       n_category = Company,
       n_isRecent = True\<rparr>,
      \<lparr>n_id = ''fallback-12'',
       n_headline = ''Renewable Energy Investments Surge'',
       n_summary = ''India attracts record investments in renewable energy sector '' @
                   ''as the country accelerates towards its clean energy targets.'',
       n_source = ''Energy News'',
       n_timestamp = Some (currentTime - 1000 * 60 * 360),
       n_url = ''#'',
       n_relevantStocks = [''ADANIGREEN'', ''TATAPOWER''],
       n_category = Economy,
       n_isRecent = True\<rparr>,
      \<lparr>n_id = ''fallback-13'',
       n_headline = ''Digital Payment Adoption Continues Growth'',
       n_summary = ''UPI transactions hit new records as digital payment adoption '' @
                   ''accelerates across urban and rural markets.'',
       n_source = ''Fintech News'',
       n_timestamp = Some (currentTime - 1000 * 60 * 390),
       n_url = ''#'',
       n_relevantStocks = [''PAYTM'', ''HDFCBANK''],
       n_category = Company,
       n_isRecent = True\<rparr>,
      \<lparr>n_id = ''fallback-14'',
       n_headline = ''Startup Ecosystem Attracts Global Attention'',
       n_summary = ''Indian startups continue to attract significant venture '' @
                   ''capital funding, with several new unicorns emerging across '' @
                   ''different sectors.'',
       n_source = ''Startup News'',
       n_timestamp = Some (currentTime - 1000 * 60 * 420),
       n_url = ''#'',
       n_relevantStocks = [''NYKAA'', ''ZOMATO''],
       n_category = Company,
       n_isRecent = False\<rparr>,
      \<lparr>n_id = ''fallback-15'',
       n_headline = ''Monsoon Forecast Positive for Agricultural Sector'',
       n_summary = ''Weather department predicts normal monsoon, raising hopes '' @
                   ''for good agricultural output and rural demand recovery.'',
       n_source = ''Agriculture News'',
       n_timestamp = Some (currentTime - 1000 * 60 * 450),
       n_url = ''#'',
       n_relevantStocks = [''ITC'', ''UBL''],
       n_category = Economy,
       n_isRecent = False\<rparr>]"


section \<open>Collecting articles from the provider\<close>

text \<open>\<open>getApiKey\<close> throws when the key is not configured: \<open>None\<close> stands for the throw.\<close>

definition getApiKey :: "news_env \<Rightarrow> string option" where
  "getApiKey env =
     (if truthy (VITE_MARKETAUX_API_KEY env) then VITE_MARKETAUX_API_KEY env else None)"

text \<open>
  One request as the code consumes it: an exception (from \<^verbatim>\<open>fetch\<close> or from
  \<^verbatim>\<open>response.json()\<close>), nothing to add (response not \<^verbatim>\<open>ok\<close>, or no \<^verbatim>\<open>data\<close>), or
  the articles.
\<close>

datatype fetched = Thrown | Skipped | Got "article list"

definition fetch_data :: "news_env \<Rightarrow> query \<Rightarrow> fetched" where
  "fetch_data env q =
     (case provider env q of
        FetchThrows \<Rightarrow> Thrown
      | FetchNotOk \<Rightarrow> Skipped
      | FetchOk JsonThrows \<Rightarrow> Thrown
      | FetchOk (JsonData None) \<Rightarrow> Skipped
      | FetchOk (JsonData (Some ds)) \<Rightarrow> Got ds)"

text \<open>\<^verbatim>\<open>data.filter(article => !allArticles.some(existing => existing.uuid === article.uuid))\<close>\<close>

definition new_articles :: "article list \<Rightarrow> article list \<Rightarrow> article list" where
  "new_articles allArticles ds =
     filter (\<lambda>article. \<not> list_ex (\<lambda>existing. a_uuid existing = a_uuid article) allArticles) ds"

definition keywords3 :: "string list" where
  "keywords3 = [''stock'', ''market'', ''investment'', ''financial'', ''economy'']"

text \<open>
  The loop of strategy 3. It has its own \<^verbatim>\<open>try\<close>/\<^verbatim>\<open>catch\<close>: a request that throws is
  logged and the loop goes on with the next keyword. The second component lists the
  requests made so far.
\<close>

fun keyword_loop ::
  "news_env \<Rightarrow> string list \<Rightarrow> article list \<times> query list \<Rightarrow> article list \<times> query list" where
  "keyword_loop env [] (allArticles, calls) = (allArticles, calls)"
| "keyword_loop env (keyword # rest) (allArticles, calls) =
     (if 20 \<le> length allArticles then (allArticles, calls)
      else
        (case fetch_data env (QKeyword keyword) of
           Got ds \<Rightarrow>
             keyword_loop env rest
               (allArticles @ take 5 (new_articles allArticles ds), calls @ [QKeyword keyword])
         | Skipped \<Rightarrow> keyword_loop env rest (allArticles, calls @ [QKeyword keyword])
         | Thrown \<Rightarrow> keyword_loop env rest (allArticles, calls @ [QKeyword keyword])))"

definition strategy3 ::
  "news_env \<Rightarrow> article list \<times> query list \<Rightarrow> article list option \<times> query list" where
  "strategy3 env state =
     (if length (fst state) < 15
      then (case keyword_loop env keywords3 state of (allArticles, calls) \<Rightarrow> (Some allArticles, calls))
      else (Some (fst state), snd state))"

definition strategy2 ::
  "news_env \<Rightarrow> article list \<times> query list \<Rightarrow> article list option \<times> query list" where
  "strategy2 env state =
     (if length (fst state) < 10
      then
        (case fetch_data env QIndia of
           Thrown \<Rightarrow> (None, snd state @ [QIndia])
         | Skipped \<Rightarrow> strategy3 env (fst state, snd state @ [QIndia])
         | Got ds \<Rightarrow>
             strategy3 env (fst state @ new_articles (fst state) ds, snd state @ [QIndia]))
      else strategy3 env state)"

text \<open>
  The three strategies in sequence. \<open>None\<close> in the first component is an exception that
  leaves the strategies and reaches the \<^verbatim>\<open>catch\<close> of \<open>fetchNews\<close>.
\<close>

definition collect_articles :: "news_env \<Rightarrow> article list option \<times> query list" where
  "collect_articles env =
     (case fetch_data env QGlobal of
        Thrown \<Rightarrow> (None, [QGlobal])
      | Skipped \<Rightarrow> strategy2 env ([], [QGlobal])
      | Got ds \<Rightarrow> strategy2 env (ds, [QGlobal]))"

section \<open>From articles to the news list\<close>

text \<open>\<^verbatim>\<open>index === self.findIndex(a => a.uuid === article.uuid)\<close>: the first article of each uuid.\<close>

fun first_occurrences :: "string list \<Rightarrow> article list \<Rightarrow> article list" where
  "first_occurrences seen [] = []"
| "first_occurrences seen (article # rest) =
     (if a_uuid article \<in> set seen then first_occurrences seen rest
      else article # first_occurrences (a_uuid article # seen) rest)"

text \<open>\<^verbatim>\<open>articleTime >= bound\<close>, false for an unparsable date (\<^verbatim>\<open>NaN\<close>).\<close>

definition ge_time :: "int option \<Rightarrow> int \<Rightarrow> bool" where
  "ge_time t bound = (case t of None \<Rightarrow> False | Some x \<Rightarrow> bound \<le> x)"

definition or_else :: "string \<Rightarrow> string \<Rightarrow> string" where
  "or_else a b = (if a \<noteq> [] then a else b)"

definition relevantStocks_of :: "article \<Rightarrow> string list" where
  "relevantStocks_of article =
     (case a_entities article of
        None \<Rightarrow> []
      | Some entities \<Rightarrow>
          filter (\<lambda>symbol. symbol \<noteq> [])
            (map en_symbol
              (filter (\<lambda>entity. en_type entity = ''equity'' \<and> en_country entity = ''in'')
                 entities)))"

definition to_item :: "int \<Rightarrow> article \<Rightarrow> news_item" where
  "to_item twentyFourHoursAgoTimestamp article =
     \<lparr>n_id = a_uuid article,
      n_headline = a_title article,
      n_summary = or_else (a_description article) (or_else (a_snippet article) []),
      n_source = a_source article,
      n_timestamp = a_published_at article,
      n_url = a_url article,
      n_relevantStocks = relevantStocks_of article,
      n_category = categorizeNews (a_title article)
                     (or_else (a_description article) (or_else (a_snippet article) [])),
      n_isRecent = ge_time (a_published_at article) twentyFourHoursAgoTimestamp\<rparr>"

definition market_relevant :: "nat \<Rightarrow> news_item \<Rightarrow> bool" where
  "market_relevant count item =
     (let hasStocks = n_relevantStocks item \<noteq> [];
          isMarketRelevant = checkMarketRelevance (n_headline item) (n_summary item);
          isIndianRelevant = checkIndianMarketRelevance (n_headline item) (n_summary item);
          isBusinessRelevant = checkBusinessRelevance (n_headline item) (n_summary item);
          isRelevant = (hasStocks \<or> isMarketRelevant \<or> isIndianRelevant \<or> isBusinessRelevant)
      in if \<not> isRelevant \<and> count < 15
         then hasFinancialWords (n_headline item @ '' '' @ n_summary item)
         else isRelevant)"

text \<open>
  The comparator of \<^verbatim>\<open>finalNews.sort\<close>; a difference with an unparsable date is
  \<^verbatim>\<open>NaN\<close>, which the sort reads as 0. The sort is stable.
\<close>

definition compare_items :: "news_item \<Rightarrow> news_item \<Rightarrow> int" where
  "compare_items a b =
     (if n_isRecent a \<and> \<not> n_isRecent b then - 1
      else if \<not> n_isRecent a \<and> n_isRecent b then 1
      else (case n_timestamp b of
              None \<Rightarrow> 0
            | Some bTime \<Rightarrow> (case n_timestamp a of None \<Rightarrow> 0 | Some aTime \<Rightarrow> bTime - aTime)))"

fun insert_item :: "news_item \<Rightarrow> news_item list \<Rightarrow> news_item list" where
  "insert_item x [] = [x]"
| "insert_item x (y # ys) =
     (if compare_items x y \<le> 0 then x # y # ys else y # insert_item x ys)"

definition sort_items :: "news_item list \<Rightarrow> news_item list" where
  "sort_items xs = foldr insert_item xs []"

definition select_news :: "news_env \<Rightarrow> article list \<Rightarrow> news_item list" where
  "select_news env allArticles =
     (let uniqueArticles = first_occurrences [] allArticles;
          twentyFourHoursAgoTimestamp = clock env AtDayThreshold - 24 * 60 * 60 * 1000;
          threeDaysAgoTimestamp = clock env AtThreeDayThreshold - 3 * 24 * 60 * 60 * 1000;
          recentArticles =
            filter (\<lambda>article. ge_time (a_published_at article) threeDaysAgoTimestamp)
              uniqueArticles;
          newsItems = map (to_item twentyFourHoursAgoTimestamp) recentArticles;
          marketRelevantNews = filter (market_relevant (length newsItems)) newsItems;
          finalNews =
            (if length marketRelevantNews < 10
             then marketRelevantNews @
                  take (15 - length marketRelevantNews)
                    (filter (\<lambda>item. \<not> isCompletelyIrrelevant (n_headline item) (n_summary item))
                       (filter (\<lambda>item. item \<notin> set marketRelevantNews) newsItems))
             else marketRelevantNews)
      in sort_items finalNews)"

section \<open>fetchNews and the cache\<close>

text \<open>
  The result of a call: the list returned, the provider requests made, and the state
  left behind. \<^verbatim>\<open>localStorage.setItem\<close> may throw; the throw is caught and logged.
\<close>

definition store_cache :: "news_env \<Rightarrow> news_cache \<Rightarrow> news_state \<Rightarrow> news_state" where
  "store_cache env c st =
     st\<lparr>newsCache := Some c,
        localStorage_newsCache :=
          (if storage_writable env then Some (Stored c) else localStorage_newsCache st)\<rparr>"

definition fetch_fresh ::
  "news_env \<Rightarrow> news_state \<Rightarrow> news_item list \<times> query list \<times> news_state" where
  "fetch_fresh env st =
     (case getApiKey env of
        None \<Rightarrow> (getFallbackNews (clock env AtFallback), [], st)
      | Some apiKey \<Rightarrow>
          (case collect_articles env of
             (None, calls) \<Rightarrow> (getFallbackNews (clock env AtFallback), calls, st)
           | (Some allArticles, calls) \<Rightarrow>
               let finalNews = select_news env allArticles in
               if finalNews = [] then (getFallbackNews (clock env AtFallback), calls, st)
               else (finalNews, calls,
                     store_cache env
                       \<lparr>c_data = finalNews, c_timestamp = clock env AtCacheStore\<rparr> st)))"

definition fetchNews ::
  "news_env \<Rightarrow> news_state \<Rightarrow> news_item list \<times> query list \<times> news_state" where
  "fetchNews env st =
     (case newsCache st of
        None \<Rightarrow> fetch_fresh env st
      | Some c \<Rightarrow>
          if clock env AtCacheCheck - c_timestamp c < CACHE_DURATION
          then (c_data c, [], st)
          else fetch_fresh env st)"

definition getCachedNews :: "news_env \<Rightarrow> news_state \<Rightarrow> news_item list \<times> news_state" where
  "getCachedNews env st =
     (if cache_fresh (clock env AtCacheCheck) (newsCache st)
      then (case newsCache st of Some c \<Rightarrow> (c_data c, st) | None \<Rightarrow> ([], st))
      else
        (case localStorage_newsCache st of
           None \<Rightarrow> ([], st)
         | Some Unparsable \<Rightarrow> ([], st)
         | Some (Stored parsedCache) \<Rightarrow>
             if clock env AtStorageCheck - c_timestamp parsedCache < CACHE_DURATION
             then (c_data parsedCache, st\<lparr>newsCache := Some parsedCache\<rparr>)
             else ([], st)))"

text \<open>What the module does when it is loaded, and its two small exports.\<close>

definition init_module :: "news_env \<Rightarrow> stored option \<Rightarrow> news_state" where
  "init_module env entry =
     \<lparr>newsCache =
        (case entry of
           Some (Stored parsedCache) \<Rightarrow>
             if clock env AtStorageCheck - c_timestamp parsedCache < CACHE_DURATION
             then Some parsedCache else None
         | _ \<Rightarrow> None),
      localStorage_newsCache = entry\<rparr>"

definition clearNewsCache :: "news_state \<Rightarrow> news_state" where
  "clearNewsCache st = st\<lparr>newsCache := None\<rparr>"

definition isCacheActive :: "news_env \<Rightarrow> news_state \<Rightarrow> bool" where
  "isCacheActive env st = cache_fresh (clock env AtCacheCheck) (newsCache st)"

section \<open>Provider outcomes\<close>

text \<open>
  \<open>quiet_keywords env\<close> is \<open>env\<close> with every keyword-search request that throws
  replaced by a response that is not \<^verbatim>\<open>ok\<close>. \<open>no_articles\<close> holds of a request that
  brings no article, \<open>got\<close> gives the articles a request brings.
\<close>

definition quiet_keywords :: "news_env \<Rightarrow> news_env" where
  "quiet_keywords env =
     env\<lparr>provider :=
       (\<lambda>q. case q of
               QKeyword k \<Rightarrow>
                 (case provider env q of
                    FetchThrows \<Rightarrow> FetchNotOk
                  | FetchOk JsonThrows \<Rightarrow> FetchNotOk
                  | r \<Rightarrow> r)
             | _ \<Rightarrow> provider env q)\<rparr>"

definition no_articles :: "fetched \<Rightarrow> bool" where
  "no_articles r = (case r of Got ds \<Rightarrow> ds = [] | _ \<Rightarrow> True)"

definition got :: "fetched \<Rightarrow> article list" where
  "got r = (case r of Got ds \<Rightarrow> ds | _ \<Rightarrow> [])"

section \<open>JSON values and HTTP responses (backend/index.js)\<close>

text \<open>
  A response is a status code and a JSON body (\<^verbatim>\<open>res.status(c).json(b)\<close>). Numbers are exact
  rationals, a \<^verbatim>\<open>Date\<close> is its instant in milliseconds, and request fields are typed: a
  string field is absent (\<open>None\<close>) or a string, a numeric field is absent or a number.
\<close>

datatype json = JNull | JBool bool | JNum rat | JStr string | JDate int
  | JArr "json list" | JObj "(string \<times> json) list"

record response =
  status :: nat
  body :: json

definition respond :: "nat \<Rightarrow> (string \<times> json) list \<Rightarrow> response" where
  "respond code kvs = \<lparr>status = code, body = JObj kvs\<rparr>"

definition error_body :: "string \<Rightarrow> (string \<times> json) list" where
  "error_body msg = [(''error'', JStr msg)]"

definition field :: "string \<Rightarrow> json \<Rightarrow> json option" where
  "field k j = (case j of JObj kvs \<Rightarrow> map_of kvs k | _ \<Rightarrow> None)"

definition opt_json :: "('a \<Rightarrow> json) \<Rightarrow> 'a option \<Rightarrow> json" where
  "opt_json f v = (case v of None \<Rightarrow> JNull | Some x \<Rightarrow> f x)"

section \<open>The collaborators: token library, password hashing, clock, store\<close>

datatype role = RoleUser | RoleAdmin

definition role_json :: "role \<Rightarrow> json" where
  "role_json r = (case r of RoleUser \<Rightarrow> JStr ''user'' | RoleAdmin \<Rightarrow> JStr ''admin'')"

record jwt_payload =
  jp_id :: nat
  jp_email :: string
  jp_role :: role

text \<open>What \<^verbatim>\<open>jwt.verify\<close> does: it returns the payload or throws an error with a name.\<close>

datatype verify_result = Verified jwt_payload
  | TokenExpiredError | JsonWebTokenError | NotBeforeError

text \<open>
  The environment of one request. \<open>jwt_sign payload secret expiresIn\<close> and
  \<open>jwt_verify token secret\<close> stand for the jsonwebtoken calls, \<open>bcrypt_hash\<close> and
  \<open>bcrypt_compare\<close> for bcryptjs, \<open>isEmail\<close> for the ORM's e-mail validator,
  \<open>now\<close> for \<^verbatim>\<open>new Date()\<close>, \<open>random\<close> for the successive values of
  \<^verbatim>\<open>Math.random()\<close>. \<open>db_fault = Some k\<close> says that the store stops answering at the
  \<open>k\<close>-th query of the request (counted from 0): that query and the later ones throw.
\<close>

record env =
  JWT_SECRET :: "string option"
  jwt_sign :: "jwt_payload \<Rightarrow> string \<Rightarrow> string \<Rightarrow> string"
  jwt_verify :: "string \<Rightarrow> string \<Rightarrow> verify_result"
  bcrypt_hash :: "string \<Rightarrow> nat \<Rightarrow> string"
  bcrypt_compare :: "string \<Rightarrow> string \<Rightarrow> bool"
  isEmail :: "string \<Rightarrow> bool"
  now :: int
  db_fault :: "nat option"
  ALPHA_VANTAGE_API_KEY :: "string option"
  random :: "nat \<Rightarrow> rat"

definition db_ok :: "env \<Rightarrow> nat \<Rightarrow> bool" where
  "db_ok e k = (case db_fault e of None \<Rightarrow> True | Some j \<Rightarrow> k < j)"

text \<open>\<^verbatim>\<open>JWT_SECRET || 'changeme'\<close>\<close>

definition secret :: "env \<Rightarrow> string" where
  "secret e =
     (case JWT_SECRET e of None \<Rightarrow> ''changeme''
      | Some s \<Rightarrow> if s = [] then ''changeme'' else s)"

datatype db_error = SequelizeValidationError "string list"
  | SequelizeUniqueConstraintError
  | SequelizeForeignKeyConstraintError
  | SequelizeConnectionError

section \<open>The two tables\<close>

record user =
  u_id :: nat
  u_name :: string
  u_email :: string
  u_password :: string
  u_role :: role
  u_lastLogin :: "int option"
  u_passwordResetToken :: "string option"
  u_passwordResetExpires :: "int option"
  u_createdAt :: int
  u_updatedAt :: int

record portfolio =
  p_id :: nat
  p_userId :: nat
  p_symbol :: string
  p_quantity :: rat
  p_purchasePrice :: "rat option"
  p_purchaseDate :: "int option"
  p_notes :: "string option"
  p_createdAt :: int
  p_updatedAt :: int

record db =
  users :: "user list"
  portfolios :: "portfolio list"
  next_user_id :: nat
  next_portfolio_id :: nat

section \<open>Declarative validators (models/user.js, models/portfolio.js)\<close>

text \<open>
  The validators as the ORM reads them: \<^verbatim>\<open>notEmpty\<close> refuses a string of white space
  only, \<^verbatim>\<open>len: [lo, hi]\<close> bounds the number of characters, \<^verbatim>\<open>min: [b]\<close> bounds a number
  from below, \<^verbatim>\<open>isInt\<close> asks for a whole number. Messages are listed in the order of the
  declarations.
\<close>

definition whitespace :: "char \<Rightarrow> bool" where
  "whitespace c = (c \<in> set [CHR '' '', CHR 0x09, CHR 0x0A, CHR 0x0B, CHR 0x0C, CHR 0x0D])"

definition notEmpty :: "string \<Rightarrow> bool" where
  "notEmpty s = (\<not> list_all whitespace s)"

definition len :: "nat \<Rightarrow> nat \<Rightarrow> string \<Rightarrow> bool" where
  "len lo hi s = (lo \<le> length s \<and> length s \<le> hi)"

definition min_value :: "rat \<Rightarrow> rat \<Rightarrow> bool" where
  "min_value bound v = (bound \<le> v)"

definition isInt :: "rat \<Rightarrow> bool" where
  "isInt v = (of_int \<lfloor>v\<rfloor> = v)"

definition isUppercase :: "string \<Rightarrow> bool" where
  "isUppercase v = (v = toUpperCase v)"

definition check :: "bool \<Rightarrow> string \<Rightarrow> string list" where
  "check ok msg = (if ok then [] else [msg])"

definition validate_user :: "env \<Rightarrow> string \<Rightarrow> string \<Rightarrow> string \<Rightarrow> string list" where
  "validate_user e name email password =
     check (notEmpty name) ''Name cannot be empty'' @
     check (len 2 100 name) ''Name must be between 2 and 100 characters'' @
     check (isEmail e email) ''Please provide a valid email address'' @
     check (notEmpty email) ''Email cannot be empty'' @
     check (notEmpty password) ''Password cannot be empty'' @
     check (len 8 100 password) ''Password must be at least 8 characters long''"

definition validate_symbol :: "string \<Rightarrow> string list" where
  "validate_symbol s =
     check (notEmpty s) ''Stock symbol is required'' @
     check (len 1 20 s) ''Stock symbol must be between 1 and 20 characters'' @
     check (isUppercase s) ''Stock symbol must be uppercase''"

definition validate_quantity :: "rat \<Rightarrow> string list" where
  "validate_quantity q =
     check (min_value 0 q) ''Quantity cannot be negative'' @
     check (isInt q) ''Quantity must be an integer''"

definition validate_purchasePrice :: "rat option \<Rightarrow> string list" where
  "validate_purchasePrice v =
     (case v of None \<Rightarrow> []
      | Some x \<Rightarrow> check (min_value 0 x) ''Purchase price cannot be negative'')"

text \<open>The \<^verbatim>\<open>beforeValidate\<close> hook of the Portfolio model.\<close>

definition beforeValidate :: "portfolio \<Rightarrow> portfolio" where
  "beforeValidate row =
     (if p_symbol row \<noteq> [] then row\<lparr>p_symbol := toUpperCase (p_symbol row)\<rparr> else row)"

section \<open>The User model and its serialisation\<close>

text \<open>
  \<^verbatim>\<open>User.create\<close>: validation of the submitted values, then the \<^verbatim>\<open>beforeCreate\<close> hook
  (the password is replaced by its hash), then the INSERT, which the unique index on
  \<^verbatim>\<open>email\<close> can refuse.
\<close>

definition User_create ::
  "env \<Rightarrow> nat \<Rightarrow> string \<Rightarrow> string \<Rightarrow> string \<Rightarrow> db \<Rightarrow> db_error + (user \<times> db)" where
  "User_create e call name email password d =
     (let msgs = validate_user e name email password in
      if msgs \<noteq> [] then Inl (SequelizeValidationError msgs)
      else
        let hashed = (if password \<noteq> [] then bcrypt_hash e password 12 else password);
            row = \<lparr>u_id = next_user_id d, u_name = name, u_email = email,
                   u_password = hashed, u_role = RoleUser, u_lastLogin = None,
                   u_passwordResetToken = None, u_passwordResetExpires = None,
                   u_createdAt = now e, u_updatedAt = now e\<rparr>
        in if \<not> db_ok e call then Inl SequelizeConnectionError
           else if list_ex (\<lambda>u. u_email u = email) (users d)
           then Inl SequelizeUniqueConstraintError
           else Inr (row, d\<lparr>users := users d @ [row],
                              next_user_id := Suc (next_user_id d)\<rparr>))"

definition User_findOne_email :: "env \<Rightarrow> nat \<Rightarrow> string \<Rightarrow> db \<Rightarrow> db_error + user option" where
  "User_findOne_email e call email d =
     (if \<not> db_ok e call then Inl SequelizeConnectionError
      else Inr (find (\<lambda>u. u_email u = email) (users d)))"

definition User_findByPk :: "env \<Rightarrow> nat \<Rightarrow> nat \<Rightarrow> db \<Rightarrow> db_error + user option" where
  "User_findByPk e call pk d =
     (if \<not> db_ok e call then Inl SequelizeConnectionError
      else Inr (find (\<lambda>u. u_id u = pk) (users d)))"

definition User_save :: "env \<Rightarrow> nat \<Rightarrow> user \<Rightarrow> db \<Rightarrow> db_error + (user \<times> db)" where
  "User_save e call u d =
     (if \<not> db_ok e call then Inl SequelizeConnectionError
      else let u' = u\<lparr>u_updatedAt := now e\<rparr> in
           Inr (u', d\<lparr>users := map (\<lambda>r. if u_id r = u_id u then u' else r) (users d)\<rparr>))"

definition validPassword :: "env \<Rightarrow> user \<Rightarrow> string \<Rightarrow> bool" where
  "validPassword e u password = bcrypt_compare e password (u_password u)"

definition user_get :: "user \<Rightarrow> (string \<times> json) list" where
  "user_get u =
     [(''id'', JNum (of_nat (u_id u))),
      (''name'', JStr (u_name u)),
      (''email'', JStr (u_email u)),
      (''password'', JStr (u_password u)),
      (''role'', role_json (u_role u)),
      (''lastLogin'', opt_json JDate (u_lastLogin u)),
      (''passwordResetToken'', opt_json JStr (u_passwordResetToken u)),
      (''passwordResetExpires'', opt_json JDate (u_passwordResetExpires u)),
      (''createdAt'', JDate (u_createdAt u)),
      (''updatedAt'', JDate (u_updatedAt u))]"

definition delete_key :: "string \<Rightarrow> (string \<times> json) list \<Rightarrow> (string \<times> json) list" where
  "delete_key k kvs = filter (\<lambda>kv. fst kv \<noteq> k) kvs"

definition user_toJSON :: "user \<Rightarrow> json" where
  "user_toJSON u =
     JObj (delete_key ''passwordResetExpires''
            (delete_key ''passwordResetToken''
              (delete_key ''password'' (user_get u))))"

definition payload_of :: "user \<Rightarrow> jwt_payload" where
  "payload_of u = \<lparr>jp_id = u_id u, jp_email = u_email u, jp_role = u_role u\<rparr>"

section \<open>The bearer-token middleware\<close>

text \<open>\<^verbatim>\<open>authHeader.split(' ')\<close>\<close>

fun split_on :: "char \<Rightarrow> string \<Rightarrow> string list" where
  "split_on sep [] = [[]]"
| "split_on sep (c # cs) =
     (if c = sep then [] # split_on sep cs
      else (case split_on sep cs of [] \<Rightarrow> [[c]] | w # ws \<Rightarrow> (c # w) # ws))"

definition nth_opt :: "'a list \<Rightarrow> nat \<Rightarrow> 'a option" where
  "nth_opt xs i = (if i < length xs then Some (xs ! i) else None)"

text \<open>\<^verbatim>\<open>authHeader && authHeader.split(' ')[1]\<close>\<close>

definition extract_token :: "string option \<Rightarrow> string option" where
  "extract_token authHeader =
     (case authHeader of None \<Rightarrow> None
      | Some h \<Rightarrow> if h = [] then Some [] else nth_opt (split_on CHR '' '' h) 1)"

datatype auth_outcome = Next jwt_payload | Reject response

definition authenticateToken :: "env \<Rightarrow> string option \<Rightarrow> auth_outcome" where
  "authenticateToken e authHeader =
     (let token = extract_token authHeader in
      if \<not> truthy token
      then Reject (respond 401 (error_body ''Authentication required''))
      else case jwt_verify e (str_of token) (secret e) of
          Verified user \<Rightarrow> Next user
        | TokenExpiredError \<Rightarrow> Reject (respond 401 (error_body ''Token expired''))
        | JsonWebTokenError \<Rightarrow> Reject (respond 403 (error_body ''Invalid token''))
        | NotBeforeError \<Rightarrow> Reject (respond 403 (error_body ''Invalid token'')))"

text \<open>
  A route declared as \<^verbatim>\<open>app.get(path, authenticateToken, handler)\<close>: the handler runs when
  the middleware calls \<^verbatim>\<open>next()\<close>, with the verified payload as \<^verbatim>\<open>req.user\<close>.
\<close>

definition protected ::
  "env \<Rightarrow> (jwt_payload \<Rightarrow> db \<Rightarrow> response \<times> db) \<Rightarrow> string option \<Rightarrow> db \<Rightarrow> response \<times> db" where
  "protected e handler authHeader d =
     (case authenticateToken e authHeader of
        Reject r \<Rightarrow> (r, d)
      | Next user \<Rightarrow> handler user d)"

section \<open>Account handlers\<close>

record signup_body =
  sb_name :: "string option"
  sb_email :: "string option"
  sb_password :: "string option"

record login_body =
  lb_email :: "string option"
  lb_password :: "string option"

definition signup :: "env \<Rightarrow> signup_body \<Rightarrow> db \<Rightarrow> response \<times> db" where
  "signup e req d =
     (if \<not> truthy (sb_name req) \<or> \<not> truthy (sb_email req) \<or> \<not> truthy (sb_password req)
      then (respond 400 (error_body ''Missing required fields''), d)
      else
        case User_create e 0 (str_of (sb_name req)) (str_of (sb_email req))
               (str_of (sb_password req)) d of
          Inr (u, d') \<Rightarrow>
            (respond 201
               [(''token'', JStr (jwt_sign e (payload_of u) (secret e) ''7d'')),
                (''user'', user_toJSON u)], d')
        | Inl (SequelizeValidationError messages) \<Rightarrow>
            (respond 400
               [(''error'', JStr ''Validation error''),
                (''messages'', JArr (map JStr messages))], d)
        | Inl SequelizeUniqueConstraintError \<Rightarrow>
            (respond 409 (error_body ''Email already exists''), d)
        | Inl _ \<Rightarrow> (respond 500 (error_body ''Server error''), d))"

definition login :: "env \<Rightarrow> login_body \<Rightarrow> db \<Rightarrow> response \<times> db" where
  "login e req d =
     (if \<not> truthy (lb_email req) \<or> \<not> truthy (lb_password req)
      then (respond 400 (error_body ''Email and password are required''), d)
      else
        case User_findOne_email e 0 (str_of (lb_email req)) d of
          Inl err \<Rightarrow> (respond 500 (error_body ''Server error''), d)
        | Inr None \<Rightarrow> (respond 401 (error_body ''Invalid credentials''), d)
        | Inr (Some u) \<Rightarrow>
            if \<not> validPassword e u (str_of (lb_password req))
            then (respond 401 (error_body ''Invalid credentials''), d)
            else
              (case User_save e 1 (u\<lparr>u_lastLogin := Some (now e)\<rparr>) d of
                 Inl err \<Rightarrow> (respond 500 (error_body ''Server error''), d)
               | Inr (u', d') \<Rightarrow>
                   (respond 200
                      [(''token'', JStr (jwt_sign e (payload_of u') (secret e) ''7d'')),
                       (''user'', user_toJSON u')], d')))"

definition profile :: "env \<Rightarrow> jwt_payload \<Rightarrow> db \<Rightarrow> response \<times> db" where
  "profile e req_user d =
     (case User_findByPk e 0 (jp_id req_user) d of
        Inl err \<Rightarrow> (respond 500 (error_body ''Server error''), d)
      | Inr None \<Rightarrow> (respond 404 (error_body ''User not found''), d)
      | Inr (Some u) \<Rightarrow> (respond 200 [(''user'', user_toJSON u)], d))"

section \<open>The Portfolio model\<close>

definition portfolio_toJSON :: "portfolio \<Rightarrow> json" where
  "portfolio_toJSON r =
     JObj [(''id'', JNum (of_nat (p_id r))),
           (''userId'', JNum (of_nat (p_userId r))),
           (''symbol'', JStr (p_symbol r)),
           (''quantity'', JNum (p_quantity r)),
           (''purchasePrice'', opt_json JNum (p_purchasePrice r)),
           (''purchaseDate'', opt_json JDate (p_purchaseDate r)),
           (''notes'', opt_json JStr (p_notes r)),
           (''createdAt'', JDate (p_createdAt r)),
           (''updatedAt'', JDate (p_updatedAt r))]"

text \<open>The \<^verbatim>\<open>where\<close> clause \<^verbatim>\<open>{ userId, symbol }\<close>.\<close>

definition holding :: "nat \<Rightarrow> string \<Rightarrow> portfolio \<Rightarrow> bool" where
  "holding uid symb r = (p_userId r = uid \<and> p_symbol r = symb)"

text \<open>
  \<^verbatim>\<open>Portfolio.findOrCreate({ where, defaults })\<close>: the row that matches \<^verbatim>\<open>where\<close> when
  there is one; otherwise a row built from \<^verbatim>\<open>where\<close> and \<^verbatim>\<open>defaults\<close>, passed through
  the hook and the validators, and inserted subject to the foreign key on \<^verbatim>\<open>userId\<close> and
  the unique index \<^verbatim>\<open>portfolio_user_symbol_unique\<close>.
\<close>

definition Portfolio_findOrCreate ::
  "env \<Rightarrow> nat \<Rightarrow> nat \<Rightarrow> string \<Rightarrow> rat \<Rightarrow> rat option \<Rightarrow> int option \<Rightarrow> string option \<Rightarrow> db
     \<Rightarrow> db_error + ((portfolio \<times> bool) \<times> db)" where
  "Portfolio_findOrCreate e call uid symb quantity purchasePrice purchaseDate notes d =
     (if \<not> db_ok e call then Inl SequelizeConnectionError
      else case find (holding uid symb) (portfolios d) of
          Some r \<Rightarrow> Inr ((r, False), d)
        | None \<Rightarrow>
            let row = beforeValidate
                  \<lparr>p_id = next_portfolio_id d, p_userId = uid, p_symbol = symb,
                   p_quantity = quantity, p_purchasePrice = purchasePrice,
                   p_purchaseDate = purchaseDate, p_notes = notes,
                   p_createdAt = now e, p_updatedAt = now e\<rparr>;
                msgs = validate_symbol (p_symbol row) @ validate_quantity (p_quantity row) @
                       validate_purchasePrice (p_purchasePrice row)
            in if msgs \<noteq> [] then Inl (SequelizeValidationError msgs)
               else if \<not> list_ex (\<lambda>u. u_id u = uid) (users d)
               then Inl SequelizeForeignKeyConstraintError
               else if list_ex (holding (p_userId row) (p_symbol row)) (portfolios d)
               then Inl SequelizeUniqueConstraintError
               else Inr ((row, True),
                         d\<lparr>portfolios := portfolios d @ [row],
                           next_portfolio_id := Suc (next_portfolio_id d)\<rparr>))"

text \<open>
  \<^verbatim>\<open>portfolioItem.update(values)\<close>: the new values are set on the instance, the hook runs,
  the validators of the fields whose value changed run, and the row with this primary key
  is rewritten.
\<close>

definition Portfolio_update ::
  "env \<Rightarrow> nat \<Rightarrow> portfolio \<Rightarrow> rat \<Rightarrow> rat option \<Rightarrow> int option \<Rightarrow> string option \<Rightarrow> db
     \<Rightarrow> db_error + (portfolio \<times> db)" where
  "Portfolio_update e call item quantity purchasePrice purchaseDate notes d =
     (let row = beforeValidate
            (item\<lparr>p_quantity := quantity, p_purchasePrice := purchasePrice,
                  p_purchaseDate := purchaseDate, p_notes := notes\<rparr>);
          msgs = (if quantity \<noteq> p_quantity item then validate_quantity quantity else []) @
                 (if purchasePrice \<noteq> p_purchasePrice item
                  then validate_purchasePrice purchasePrice else [])
      in if msgs \<noteq> [] then Inl (SequelizeValidationError msgs)
         else if \<not> db_ok e call then Inl SequelizeConnectionError
         else let row' = row\<lparr>p_updatedAt := now e\<rparr> in
              Inr (row', d\<lparr>portfolios :=
                     map (\<lambda>r. if p_id r = p_id item then row' else r) (portfolios d)\<rparr>))"

text \<open>\<^verbatim>\<open>Portfolio.destroy({ where })\<close> answers with the number of rows it removed.\<close>

definition Portfolio_destroy ::
  "env \<Rightarrow> nat \<Rightarrow> nat \<Rightarrow> string \<Rightarrow> db \<Rightarrow> db_error + (nat \<times> db)" where
  "Portfolio_destroy e call uid symb d =
     (if \<not> db_ok e call then Inl SequelizeConnectionError
      else Inr (length (filter (holding uid symb) (portfolios d)),
                d\<lparr>portfolios := filter (\<lambda>r. \<not> holding uid symb r) (portfolios d)\<rparr>))"

definition Portfolio_findAll :: "env \<Rightarrow> nat \<Rightarrow> nat \<Rightarrow> db \<Rightarrow> db_error + portfolio list" where
  "Portfolio_findAll e call uid d =
     (if \<not> db_ok e call then Inl SequelizeConnectionError
      else Inr (sort_key p_symbol (filter (\<lambda>r. p_userId r = uid) (portfolios d))))"

section \<open>Portfolio handlers\<close>

record portfolio_body =
  pb_symbol :: "string option"
  pb_quantity :: "rat option"
  pb_purchasePrice :: "rat option"
  pb_purchaseDate :: "int option"
  pb_notes :: "string option"

text \<open>\<^verbatim>\<open>a || b\<close> on optional values: a number is falsy when it is absent or 0, a date when it
  is absent, a string when it is absent or empty.\<close>

definition or_num :: "rat option \<Rightarrow> rat option \<Rightarrow> rat option" where
  "or_num a b = (case a of None \<Rightarrow> b | Some x \<Rightarrow> if x = 0 then b else Some x)"

definition or_date :: "int option \<Rightarrow> int option \<Rightarrow> int option" where
  "or_date a b = (case a of None \<Rightarrow> b | Some x \<Rightarrow> Some x)"

definition or_str :: "string option \<Rightarrow> string option \<Rightarrow> string option" where
  "or_str a b = (case a of None \<Rightarrow> b | Some x \<Rightarrow> if x = [] then b else Some x)"

definition validation_response :: "string list \<Rightarrow> response" where
  "validation_response messages =
     respond 400 [(''error'', JStr ''Validation error''), (''messages'', JArr (map JStr messages))]"

definition post_portfolio :: "env \<Rightarrow> portfolio_body \<Rightarrow> jwt_payload \<Rightarrow> db \<Rightarrow> response \<times> db" where
  "post_portfolio e req req_user d =
     (case pb_quantity req of
        None \<Rightarrow> (respond 400 (error_body ''Symbol and quantity are required''), d)
      | Some quantity \<Rightarrow>
          if \<not> truthy (pb_symbol req)
          then (respond 400 (error_body ''Symbol and quantity are required''), d)
          else
            (case Portfolio_findOrCreate e 0 (jp_id req_user)
                   (toUpperCase (str_of (pb_symbol req))) quantity (pb_purchasePrice req)
                   (or_date (pb_purchaseDate req) (Some (now e))) (pb_notes req) d of
              Inl (SequelizeValidationError messages) \<Rightarrow> (validation_response messages, d)
            | Inl _ \<Rightarrow> (respond 500 (error_body ''Server error''), d)
            | Inr ((portfolioItem, created), d1) \<Rightarrow>
                if created
                then (respond 201
                        [(''success'', JBool True),
                         (''portfolioItem'', portfolio_toJSON portfolioItem),
                         (''message'', JStr ''Stock added to portfolio'')], d1)
                else
                  (case Portfolio_update e 1 portfolioItem quantity
                          (or_num (pb_purchasePrice req) (p_purchasePrice portfolioItem))
                          (or_date (pb_purchaseDate req) (p_purchaseDate portfolioItem))
                          (or_str (pb_notes req) (p_notes portfolioItem)) d1 of
                     Inl (SequelizeValidationError messages) \<Rightarrow>
                       (validation_response messages, d1)
                   | Inl _ \<Rightarrow> (respond 500 (error_body ''Server error''), d1)
                   | Inr (updated, d2) \<Rightarrow>
                       (respond 200
                          [(''success'', JBool True),
                           (''portfolioItem'', portfolio_toJSON updated),
                           (''message'', JStr ''Stock updated in portfolio'')], d2))))"

definition delete_portfolio :: "env \<Rightarrow> string \<Rightarrow> jwt_payload \<Rightarrow> db \<Rightarrow> response \<times> db" where
  "delete_portfolio e symbol req_user d =
     (if symbol = [] then (respond 400 (error_body ''Symbol is required''), d)
      else
        case Portfolio_destroy e 0 (jp_id req_user) (toUpperCase symbol) d of
          Inl err \<Rightarrow> (respond 500 (error_body ''Server error''), d)
        | Inr (deleted, d') \<Rightarrow>
            if deleted = 0
            then (respond 404 (error_body ''Stock not found in portfolio''), d')
            else (respond 200
                    [(''success'', JBool True),
                     (''message'', JStr ''Stock removed from portfolio'')], d'))"

section \<open>Stock quotes for the portfolio listing\<close>

record stock_data =
  sd_symbol :: string
  sd_name :: string
  sd_price :: rat
  sd_change :: rat
  sd_changePercent :: rat

definition fallbackData :: "(string \<times> string \<times> rat \<times> rat \<times> rat) list" where
  "fallbackData =
     [(''RELIANCE'', ''Reliance Industries Ltd'', 289015 / 100, 3485 / 100, 122 / 100),
      (''TCS'', ''Tata Consultancy Services'', 415630 / 100, - (1845 / 100), - (44 / 100)),
      (''HDFCBANK'', ''HDFC Bank Ltd'', 172190 / 100, 1225 / 100, 72 / 100),
      (''INFY'', ''Infosys Ltd'', 183425 / 100, - (575 / 100), - (31 / 100)),
      (''ICICIBANK'', ''ICICI Bank Ltd'', 126780 / 100, 2360 / 100, 190 / 100),
      (''WIPRO'', ''Wipro Ltd'', 56745 / 100, - (320 / 100), - (56 / 100)),
      (''ADANIGREEN'', ''Adani Green Energy Ltd'', 145650 / 100, 8725 / 100, 637 / 100),
      (''BHARTIARTL'', ''Bharti Airtel Ltd'', 153470 / 100, 1530 / 100, 101 / 100),
      (''SBIN'', ''State Bank of India'', 82345 / 100, 875 / 100, 107 / 100),
      (''LT'', ''Larsen & Toubro Ltd'', 367890 / 100, - (2115 / 100), - (57 / 100))]"

text \<open>\<^verbatim>\<open>Number(x.toFixed(2))\<close> on exact rationals: two decimals, halves away from zero.\<close>

definition toFixed2 :: "rat \<Rightarrow> rat" where
  "toFixed2 x =
     (if x < 0 then - (of_int \<lfloor>- x * 100 + 1 / 2\<rfloor> / 100)
      else of_int \<lfloor>x * 100 + 1 / 2\<rfloor> / 100)"

text \<open>
  \<open>getFallbackStockData rnd i symbol\<close> reads \<^verbatim>\<open>Math.random()\<close> as \<open>rnd i\<close>,
  \<open>rnd (i + 1)\<close>, and answers with the quote and the index of the next unread value.
\<close>

definition getFallbackStockData :: "(nat \<Rightarrow> rat) \<Rightarrow> nat \<Rightarrow> string \<Rightarrow> stock_data \<times> nat" where
  "getFallbackStockData rnd i symbol =
     (case map_of fallbackData (toUpperCase symbol) of
        Some (name, price, change, changePercent) \<Rightarrow>
          let variation = (rnd i - 1 / 2) * (2 / 100) in
          (\<lparr>sd_symbol = toUpperCase symbol, sd_name = name,
            sd_price = toFixed2 (price * (1 + variation)),
            sd_change = toFixed2 (change * (1 + variation)),
            sd_changePercent = toFixed2 (changePercent * (1 + variation))\<rparr>, i + 1)
      | None \<Rightarrow>
          let basePrice = 500 + rnd i * 3000;
              changePercent = (rnd (i + 1) - 1 / 2) * 6;
              change = (basePrice * changePercent) / 100 in
          (\<lparr>sd_symbol = toUpperCase symbol,
            sd_name = toUpperCase (take 1 symbol) @ toLowerCase (drop 1 symbol) @ '' Ltd'',
            sd_price = toFixed2 basePrice,
            sd_change = toFixed2 change,
            sd_changePercent = toFixed2 changePercent\<rparr>, i + 2))"

text \<open>
  \<open>fetchStockDataForBackend\<close> makes no outbound call: with or without an API key it
  answers from \<open>getFallbackStockData\<close>, and nothing inside its \<^verbatim>\<open>try\<close> block throws for
  a string symbol.
\<close>

definition fetchStockDataForBackend :: "env \<Rightarrow> nat \<Rightarrow> string \<Rightarrow> stock_data \<times> nat" where
  "fetchStockDataForBackend e i symbol =
     (if \<not> truthy (ALPHA_VANTAGE_API_KEY e) then getFallbackStockData (random e) i symbol
      else let fallback = getFallbackStockData (random e) i symbol in fallback)"

definition or_zero :: "rat \<Rightarrow> rat \<Rightarrow> rat" where
  "or_zero a b = (if a \<noteq> 0 then a else b)"

definition enhance :: "portfolio \<Rightarrow> stock_data \<Rightarrow> json" where
  "enhance portfolioItem stockData =
     JObj [(''id'', JNum (of_nat (p_id portfolioItem))),
           (''symbol'', JStr (p_symbol portfolioItem)),
           (''quantity'', JNum (p_quantity portfolioItem)),
           (''purchasePrice'', opt_json JNum (p_purchasePrice portfolioItem)),
           (''purchaseDate'', opt_json JDate (p_purchaseDate portfolioItem)),
           (''notes'', opt_json JStr (p_notes portfolioItem)),
           (''name'', JStr (if sd_name stockData \<noteq> [] then sd_name stockData
                            else p_symbol portfolioItem)),
           (''price'', JNum (or_zero (sd_price stockData)
                              (case or_num (p_purchasePrice portfolioItem) None of
                                 None \<Rightarrow> 0 | Some x \<Rightarrow> x))),
           (''change'', JNum (or_zero (sd_change stockData) 0)),
           (''changePercent'', JNum (or_zero (sd_changePercent stockData) 0)),
           (''createdAt'', JDate (p_createdAt portfolioItem)),
           (''updatedAt'', JDate (p_updatedAt portfolioItem))]"

text \<open>
  The callback of \<^verbatim>\<open>portfolios.map\<close>, run over the rows in order. Its \<^verbatim>\<open>catch\<close> branch
  is never taken, since \<open>fetchStockDataForBackend\<close> always returns.
\<close>

fun enhance_all :: "env \<Rightarrow> nat \<Rightarrow> portfolio list \<Rightarrow> json list" where
  "enhance_all e i [] = []"
| "enhance_all e i (portfolioItem # rest) =
     (case fetchStockDataForBackend e i (p_symbol portfolioItem) of
        (stockData, i') \<Rightarrow> enhance portfolioItem stockData # enhance_all e i' rest)"

definition get_portfolio :: "env \<Rightarrow> jwt_payload \<Rightarrow> db \<Rightarrow> response \<times> db" where
  "get_portfolio e req_user d =
     (case Portfolio_findAll e 0 (jp_id req_user) d of
        Inl err \<Rightarrow> (respond 500 (error_body ''Server error''), d)
      | Inr rows \<Rightarrow>
          (respond 200 [(''portfolio'', JArr (enhance_all e 0 rows))], d))"

section \<open>The route table\<close>

datatype request =
    PostSignup signup_body
  | PostLogin login_body
  | GetProfile "string option"
  | GetPortfolio "string option"
  | PostPortfolio "string option" portfolio_body
  | DeletePortfolio "string option" string

fun handle :: "env \<Rightarrow> request \<Rightarrow> db \<Rightarrow> response \<times> db" where
  "handle e (PostSignup req) d = signup e req d"
| "handle e (PostLogin req) d = login e req d"
| "handle e (GetProfile auth) d = protected e (profile e) auth d"
| "handle e (GetPortfolio auth) d = protected e (get_portfolio e) auth d"
| "handle e (PostPortfolio auth req) d = protected e (post_portfolio e req) auth d"
| "handle e (DeletePortfolio auth symbol) d = protected e (delete_portfolio e symbol) auth d"

text \<open>
  The rate limiters, \<^verbatim>\<open>helmet\<close> and \<^verbatim>\<open>cors\<close> are library middleware in front of these
  routes; \<open>handle\<close> is what happens to a request that they let through.

  Serving a sequence of requests, each in its own environment:
\<close>

fun serve :: "(env \<times> request) list \<Rightarrow> db \<Rightarrow> db" where
  "serve [] d = d"
| "serve ((e, r) # rest) d = serve rest (snd (handle e r d))"

definition empty_db :: db where
  "empty_db = \<lparr>users = [], portfolios = [], next_user_id = 1, next_portfolio_id = 1\<rparr>"

section \<open>Properties of the stored rows\<close>

text \<open>The primary keys: distinct, and below the next value of the auto-increment counter.\<close>

definition primary_keys :: "db \<Rightarrow> bool" where
  "primary_keys d =
     (distinct (map p_id (portfolios d)) \<and>
      list_all (\<lambda>r. p_id r < next_portfolio_id d) (portfolios d))"

definition unique_holdings :: "db \<Rightarrow> bool" where
  "unique_holdings d = distinct (map (\<lambda>r. (p_userId r, p_symbol r)) (portfolios d))"

definition portfolio_in_bounds :: "portfolio \<Rightarrow> bool" where
  "portfolio_in_bounds r =
     (0 \<le> p_quantity r \<and> isInt (p_quantity r) \<and>
      (case p_purchasePrice r of None \<Rightarrow> True | Some v \<Rightarrow> 0 \<le> v) \<and>
      1 \<le> length (p_symbol r) \<and> length (p_symbol r) \<le> 20)"

definition user_in_bounds :: "user \<Rightarrow> bool" where
  "user_in_bounds u =
     (2 \<le> length (u_name u) \<and> length (u_name u) \<le> 100 \<and> 8 \<le> length (u_password u))"

definition rows_in_bounds :: "db \<Rightarrow> bool" where
  "rows_in_bounds d =
     (list_all portfolio_in_bounds (portfolios d) \<and> list_all user_in_bounds (users d))"

definition symbols_uppercase :: "db \<Rightarrow> bool" where
  "symbols_uppercase d = list_all (\<lambda>r. p_symbol r = toUpperCase (p_symbol r)) (portfolios d)"

section \<open>User records that differ only in their secrets\<close>

text \<open>
  Two user records are \<open>same_public\<close> when they agree on every field other than
  \<^verbatim>\<open>password\<close>, \<^verbatim>\<open>passwordResetToken\<close> and \<^verbatim>\<open>passwordResetExpires\<close>; two stores are
  \<open>same_public_db\<close> when their user rows are so related one by one and everything else
  is equal.
\<close>

definition same_public :: "user \<Rightarrow> user \<Rightarrow> bool" where
  "same_public a b =
     (u_id a = u_id b \<and> u_name a = u_name b \<and> u_email a = u_email b \<and>
      u_role a = u_role b \<and> u_lastLogin a = u_lastLogin b \<and>
      u_createdAt a = u_createdAt b \<and> u_updatedAt a = u_updatedAt b)"

definition same_public_db :: "db \<Rightarrow> db \<Rightarrow> bool" where
  "same_public_db d1 d2 =
     (list_all2 same_public (users d1) (users d2) \<and> portfolios d1 = portfolios d2 \<and>
      next_user_id d1 = next_user_id d2 \<and> next_portfolio_id d1 = next_portfolio_id d2)"

section \<open>A concrete environment and store\<close>

text \<open>
  Small stand-ins for the libraries, used where a result is instantiated: tokens that
  spell out what was signed, a hash that prefixes the password, a store with one user
  who holds one stock.
\<close>

definition demo_payload :: jwt_payload where
  "demo_payload = \<lparr>jp_id = 1, jp_email = ''asha@example.in'', jp_role = RoleUser\<rparr>"

definition demo_env :: env where
  "demo_env =
     \<lparr>JWT_SECRET = Some ''s3cret'',
      jwt_sign = (\<lambda>p k ttl. jp_email p @ ''|'' @ k @ ''|'' @ ttl),
      jwt_verify = (\<lambda>t k. if t = ''good'' then Verified demo_payload
                           else if t = ''old'' then TokenExpiredError
                           else JsonWebTokenError),
      bcrypt_hash = (\<lambda>p rounds. ''$2a$12$/'' @ p),
      bcrypt_compare = (\<lambda>p h. h = ''$2a$12$/'' @ p),
      isEmail = (\<lambda>s. CHR ''@'' \<in> set s),
      now = 5000,
      db_fault = None,
      ALPHA_VANTAGE_API_KEY = None,
      random = (\<lambda>i. 1 / 2)\<rparr>"

definition asha :: user where
  "asha = \<lparr>u_id = 1, u_name = ''Asha'', u_email = ''asha@example.in'',
            u_password = ''$2a$12$/correct horse'', u_role = RoleUser, u_lastLogin = None,
            u_passwordResetToken = None, u_passwordResetExpires = None,
            u_createdAt = 1000, u_updatedAt = 1000\<rparr>"

definition asha_tcs :: portfolio where
  "asha_tcs = \<lparr>p_id = 1, p_userId = 1, p_symbol = ''TCS'', p_quantity = 10,
                p_purchasePrice = Some 4100, p_purchaseDate = Some 2000, p_notes = None,
                p_createdAt = 2000, p_updatedAt = 2000\<rparr>"

definition demo_db :: db where
  "demo_db = \<lparr>users = [asha], portfolios = [asha_tcs],
               next_user_id = 2, next_portfolio_id = 2\<rparr>"

definition add_tcs :: portfolio_body where
  "add_tcs = \<lparr>pb_symbol = Some ''tcs'', pb_quantity = Some 12, pb_purchasePrice = None,
              pb_purchaseDate = None, pb_notes = None\<rparr>"

definition add_infy :: portfolio_body where
  "add_infy = \<lparr>pb_symbol = Some ''infy'', pb_quantity = Some 3, pb_purchasePrice = Some 1800,
               pb_purchaseDate = None, pb_notes = Some ''first lot''\<rparr>"

definition add_negative :: portfolio_body where
  "add_negative = \<lparr>pb_symbol = Some ''TCS'', pb_quantity = Some (- 1), pb_purchasePrice = None,
                   pb_purchaseDate = None, pb_notes = None\<rparr>"

definition signup_short :: signup_body where
  "signup_short = \<lparr>sb_name = Some ''Ravi'', sb_email = Some ''ravi@example.in'',
                   sb_password = Some ''short''\<rparr>"

definition signup_ravi :: signup_body where
  "signup_ravi = \<lparr>sb_name = Some ''Ravi'', sb_email = Some ''ravi@example.in'',
                  sb_password = Some ''long enough''\<rparr>"

definition asha_rehashed :: user where
  "asha_rehashed = asha\<lparr>u_password := ''$2a$12$/another phrase''\<rparr>"

definition demo_db_rehashed :: db where
  "demo_db_rehashed = demo_db\<lparr>users := [asha_rehashed]\<rparr>"

definition asha_reset :: user where
  "asha_reset = asha\<lparr>u_passwordResetToken := Some ''r3s3t'', u_passwordResetExpires := Some 9000\<rparr>"

definition demo_db_reset :: db where
  "demo_db_reset = demo_db\<lparr>users := [asha_reset]\<rparr>"

definition signup_ravi_other :: signup_body where
  "signup_ravi_other = signup_ravi\<lparr>sb_password := Some ''another long one''\<rparr>"

definition login_asha :: login_body where
  "login_asha = \<lparr>lb_email = Some ''asha@example.in'', lb_password = Some ''correct horse''\<rparr>"

definition tcs_article :: article where
  "tcs_article =
     \<lparr>a_uuid = ''a-1'', a_title = ''TCS wins a large order'', a_description = ''Multi-year deal'',
      a_snippet = [], a_url = ''https://example.in/a-1'', a_published_at = Some 999000000,
      a_source = ''example.in'',
      a_entities = Some [\<lparr>en_symbol = ''TCS'', en_type = ''equity'', en_country = ''in''\<rparr>]\<rparr>"

definition news_env_down :: news_env where
  "news_env_down =
     \<lparr>VITE_MARKETAUX_API_KEY = Some ''key'', provider = (\<lambda>q. FetchThrows),
      clock = (\<lambda>r. 1000000000), storage_writable = True\<rparr>"

definition news_env_keywords_down :: news_env where
  "news_env_keywords_down =
     \<lparr>VITE_MARKETAUX_API_KEY = Some ''key'',
      provider = (\<lambda>q. case q of
                        QGlobal \<Rightarrow> FetchOk (JsonData (Some [tcs_article]))
                      | QIndia \<Rightarrow> FetchNotOk
                      | QKeyword k \<Rightarrow> FetchThrows),
      clock = (\<lambda>r. 1000000000), storage_writable = True\<rparr>"

definition no_cache :: news_state where
  "no_cache = \<lparr>newsCache = None, localStorage_newsCache = None\<rparr>"

definition tcs_item :: news_item where
  "tcs_item = to_item 913600000 tcs_article"

definition recent_cache :: news_state where
  "recent_cache =
     \<lparr>newsCache = Some \<lparr>c_data = [tcs_item], c_timestamp = 999500000\<rparr>,
      localStorage_newsCache = None\<rparr>"

definition stale_cache :: news_state where
  "stale_cache =
     \<lparr>newsCache = Some \<lparr>c_data = [tcs_item], c_timestamp = 900000000\<rparr>,
      localStorage_newsCache = Some (Stored \<lparr>c_data = [tcs_item], c_timestamp = 999500000\<rparr>)\<rparr>"

definition signup_no_email :: signup_body where
  "signup_no_email = \<lparr>sb_name = Some ''Ravi'', sb_email = None, sb_password = Some ''long enough''\<rparr>"

definition add_no_quantity :: portfolio_body where
  "add_no_quantity = \<lparr>pb_symbol = Some ''INFY'', pb_quantity = None, pb_purchasePrice = None,
                      pb_purchaseDate = None, pb_notes = None\<rparr>"

definition add_empty_symbol :: portfolio_body where
  "add_empty_symbol = \<lparr>pb_symbol = Some [], pb_quantity = Some 5, pb_purchasePrice = None,
                       pb_purchaseDate = None, pb_notes = None\<rparr>"

definition news_env_no_key :: news_env where
  "news_env_no_key =
     \<lparr>VITE_MARKETAUX_API_KEY = None, provider = (\<lambda>q. FetchNotOk),
      clock = (\<lambda>r. 1000000000), storage_writable = True\<rparr>"

definition news_env_silent :: news_env where
  "news_env_silent =
     \<lparr>VITE_MARKETAUX_API_KEY = Some ''key'', provider = (\<lambda>q. FetchNotOk),
      clock = (\<lambda>r. 1000000000), storage_writable = True\<rparr>"

section \<open>Facts about strings\<close>

lemma starts_with_prefix: "starts_with s k \<longleftrightarrow> prefix k s"
  by (induction s k rule: starts_with.induct) auto

lemma str_includes_sublist: "str_includes t k \<longleftrightarrow> sublist k t"
proof (induction t)
  case Nil
  then show ?case by auto
next
  case (Cons c cs)
  then show ?case
    by (simp add: starts_with_prefix sublist_Cons_right del: starts_with.simps)
qed

lemma toUpperCase_char_idem: "toUpperCase_char (toUpperCase_char c) = toUpperCase_char c"
  by (auto simp: toUpperCase_char_def lower_letters_def upper_letters_def split: option.splits if_splits)

lemma toUpperCase_idem: "toUpperCase (toUpperCase s) = toUpperCase s"
  by (simp add: toUpperCase_def toUpperCase_char_idem)

lemma length_toUpperCase: "length (toUpperCase s) = length s"
  by (simp add: toUpperCase_def)

lemma toUpperCase_Nil: "toUpperCase s = [] \<longleftrightarrow> s = []"
  by (simp add: toUpperCase_def)

section \<open>News categorisation\<close>

text \<open>
  C7. For every title and description, \<open>categorizeNews\<close> lowercases their concatenation
  (joined by one space) and answers with the category of the first keyword group, in the
  order policy, economy, market, one of whose keywords occurs as a substring of that text;
  when no keyword of any group occurs the answer is \<open>Company\<close>. The answer is therefore one
  of the four categories, and an earlier group wins over a later one.
\<close>

theorem categorizeNews_first_group:
  "categorizeNews title description
     = first_group keyword_groups (toLowerCase (title @ '' '' @ description))
   \<and> categorizeNews title description \<in> {Policy, Economy, Market, Company}"
proof -
  have "categorizeNews title description
     = first_group keyword_groups (toLowerCase (title @ '' '' @ description))"
    by (simp add: categorizeNews_def keyword_groups_def Let_def str_includes_sublist)
  moreover have "categorizeNews title description \<in> {Policy, Economy, Market, Company}"
    by (cases "categorizeNews title description") simp_all
  ultimately show ?thesis by simp
qed

section \<open>Facts about the store\<close>

lemma db_ok_no_fault: "db_fault e = None \<Longrightarrow> db_ok e k"
  by (simp add: db_ok_def)

lemmas demo = demo_env_def demo_db_def asha_def asha_tcs_def demo_payload_def

lemma filter_none_removed:
  "length (filter P xs) = 0 \<Longrightarrow> filter (\<lambda>r. \<not> P r) xs = xs"
  by (induction xs) (auto split: if_splits)

lemma destroy_zero:
  "Portfolio_destroy e k uid s d = Inr (0, d') \<Longrightarrow> d' = d"
  by (auto simp: Portfolio_destroy_def filter_none_removed split: if_splits)

lemma destroy_absent:
  "db_ok e k \<Longrightarrow> \<not> list_ex (holding uid s) (portfolios d) \<Longrightarrow>
   Portfolio_destroy e k uid s d = Inr (0, d)"
proof -
  assume ok: "db_ok e k" and no: "\<not> list_ex (holding uid s) (portfolios d)"
  from no have "filter (holding uid s) (portfolios d) = []"
    by (simp add: list_ex_iff filter_empty_conv)
  then have "length (filter (holding uid s) (portfolios d)) = 0" by simp
  with ok show ?thesis
    by (simp add: Portfolio_destroy_def filter_none_removed)
qed

lemma find_holding:
  "find (holding uid s) rows = Some item \<Longrightarrow> item \<in> set rows \<and> p_userId item = uid \<and> p_symbol item = s"
  by (auto simp: find_Some_iff holding_def)

lemma find_holding_None:
  "find (holding uid s) rows = None \<Longrightarrow> \<not> list_ex (holding uid s) rows"
  by (auto simp: find_None_iff list_ex_iff)

lemma beforeValidate_fields:
  "p_id (beforeValidate r) = p_id r" "p_userId (beforeValidate r) = p_userId r"
  "p_quantity (beforeValidate r) = p_quantity r" "p_purchasePrice (beforeValidate r) = p_purchasePrice r"
  "p_symbol (beforeValidate r) = toUpperCase (p_symbol r)"
  by (auto simp: beforeValidate_def toUpperCase_def)

lemma findOrCreate_effect:
  assumes "Portfolio_findOrCreate e k uid s q pp pd n d = Inr ((item, created), d1)"
  shows "(\<not> created \<and> d1 = d \<and> item \<in> set (portfolios d) \<and> p_userId item = uid \<and> p_symbol item = s)
       \<or> (created \<and> d1 = d\<lparr>portfolios := portfolios d @ [item],
                               next_portfolio_id := Suc (next_portfolio_id d)\<rparr> \<and>
           p_id item = next_portfolio_id d \<and> p_userId item = uid \<and>
           p_symbol item = toUpperCase s \<and> p_quantity item = q \<and> p_purchasePrice item = pp \<and>
           validate_symbol (p_symbol item) = [] \<and> validate_quantity q = [] \<and>
           validate_purchasePrice pp = [] \<and>
           \<not> list_ex (holding uid (toUpperCase s)) (portfolios d))"
  using assms
  by (auto simp: Portfolio_findOrCreate_def Let_def beforeValidate_fields
      dest: find_holding split: if_splits option.splits)

lemma update_effect:
  assumes "Portfolio_update e k item q pp pd n d = Inr (row, d2)"
  shows "d2 = d\<lparr>portfolios := map (\<lambda>r. if p_id r = p_id item then row else r) (portfolios d)\<rparr> \<and>
         p_id row = p_id item \<and> p_userId row = p_userId item \<and>
         p_symbol row = toUpperCase (p_symbol item) \<and> 
         p_quantity row = q \<and> p_purchasePrice row = pp \<and>
         (q = p_quantity item \<or> validate_quantity q = []) \<and>
         (pp = p_purchasePrice item \<or> validate_purchasePrice pp = [])"
  using assms
  by (auto simp: Portfolio_update_def Let_def beforeValidate_fields split: if_splits)

lemma post_portfolio_effect:
  obtains (same) "snd (post_portfolio e req u d) = d"
  | (added) row where
      "snd (post_portfolio e req u d)
         = d\<lparr>portfolios := portfolios d @ [row],
              next_portfolio_id := Suc (next_portfolio_id d)\<rparr>"
      "p_id row = next_portfolio_id d" "p_symbol row = toUpperCase (p_symbol row)"
      "validate_symbol (p_symbol row) = []" "validate_quantity (p_quantity row) = []"
      "validate_purchasePrice (p_purchasePrice row) = []"
      "\<not> list_ex (holding (p_userId row) (p_symbol row)) (portfolios d)"
      "p_userId row = jp_id u" "p_symbol row = toUpperCase (str_of (pb_symbol req))"
  | (updated) item row where
      "item \<in> set (portfolios d)"
      "snd (post_portfolio e req u d)
         = d\<lparr>portfolios := map (\<lambda>r. if p_id r = p_id item then row else r) (portfolios d)\<rparr>"
      "p_id row = p_id item" "p_userId row = p_userId item" "p_symbol row = p_symbol item"
      "p_quantity row = p_quantity item \<or> validate_quantity (p_quantity row) = []"
      "p_purchasePrice row = p_purchasePrice item \<or>
       validate_purchasePrice (p_purchasePrice row) = []"
proof (cases "pb_quantity req")
  case None
  then have "snd (post_portfolio e req u d) = d" by (simp add: post_portfolio_def)
  then show ?thesis by (rule same)
next
  case (Some q)
  show ?thesis
  proof (cases "truthy (pb_symbol req)")
    case False
    with Some have "snd (post_portfolio e req u d) = d" by (simp add: post_portfolio_def)
    then show ?thesis by (rule same)
  next
    case True
    let ?s = "toUpperCase (str_of (pb_symbol req))"
    let ?foc = "Portfolio_findOrCreate e 0 (jp_id u) ?s q (pb_purchasePrice req)
                  (or_date (pb_purchaseDate req) (Some (now e))) (pb_notes req) d"
    show ?thesis
    proof (cases ?foc)
      case (Inl err)
      with Some True have "snd (post_portfolio e req u d) = d"
        by (cases err) (simp_all add: post_portfolio_def)
      then show ?thesis by (rule same)
    next
      case (Inr res)
      obtain item created d1 where res: "res = ((item, created), d1)"
        by (cases res) auto
      note foc = Inr [unfolded res]
      from findOrCreate_effect [OF foc] show ?thesis
      proof (elim disjE conjE)
        assume c: "created" and d1: "d1 = d\<lparr>portfolios := portfolios d @ [item],
                               next_portfolio_id := Suc (next_portfolio_id d)\<rparr>"
          and rest: "p_id item = next_portfolio_id d" "p_userId item = jp_id u"
            "p_symbol item = toUpperCase ?s"
            "validate_symbol (p_symbol item) = []" "validate_quantity q = []"
            "validate_purchasePrice (pb_purchasePrice req) = []"
            "\<not> list_ex (holding (jp_id u) (toUpperCase ?s)) (portfolios d)"
          and vals: "p_quantity item = q" "p_purchasePrice item = pb_purchasePrice req"
        from Some True foc c d1 have "snd (post_portfolio e req u d)
           = d\<lparr>portfolios := portfolios d @ [item],
                next_portfolio_id := Suc (next_portfolio_id d)\<rparr>"
          by (simp add: post_portfolio_def)
        then show ?thesis
          using rest vals by (intro added [of item]) (simp_all add: toUpperCase_idem)
      next
        assume nc: "\<not> created" and d1: "d1 = d" and mem: "item \<in> set (portfolios d)"
          and key: "p_userId item = jp_id u" "p_symbol item = ?s"
        let ?upd = "Portfolio_update e 1 item q
                      (or_num (pb_purchasePrice req) (p_purchasePrice item))
                      (or_date (pb_purchaseDate req) (p_purchaseDate item))
                      (or_str (pb_notes req) (p_notes item)) d"
        show ?thesis
        proof (cases ?upd)
          case (Inl err)
          with Some True foc nc d1 have "snd (post_portfolio e req u d) = d"
            by (cases err) (simp_all add: post_portfolio_def)
          then show ?thesis by (rule same)
        next
          case (Inr r2)
          obtain row d2 where r2: "r2 = (row, d2)" by (cases r2) auto
          note upd = Inr [unfolded r2]
          note eff = update_effect [OF upd]
          from Some True foc nc d1 upd have "snd (post_portfolio e req u d) = d2"
            by (simp add: post_portfolio_def)
          with eff have "snd (post_portfolio e req u d)
             = d\<lparr>portfolios := map (\<lambda>r. if p_id r = p_id item then row else r) (portfolios d)\<rparr>"
            by simp
          moreover from eff key have "p_symbol row = p_symbol item"
            by (simp add: toUpperCase_idem)
          ultimately show ?thesis
            using mem eff by (intro updated [of item row]) auto
        qed
      qed
    qed
  qed
qed

lemma add_held_keeps_rows:
  assumes "list_ex (holding (jp_id u) (toUpperCase (str_of (pb_symbol req)))) (portfolios d)"
  shows "length (portfolios (snd (post_portfolio e req u d))) = length (portfolios d)"
proof (cases rule: post_portfolio_effect [of e req u d])
  case same
  then show ?thesis by simp
next
  case (added row)
  with assms show ?thesis by simp
next
  case (updated item row)
  then show ?thesis by simp
qed

lemma check_Nil: "check ok msg = [] \<longleftrightarrow> ok"
  by (simp add: check_def)

lemma signup_effect:
  obtains (same) "snd (signup e req d) = d"
  | (registered) u p where
      "snd (signup e req d)
         = d\<lparr>users := users d @ [u], next_user_id := Suc (next_user_id d)\<rparr>"
      "len 2 100 (u_name u)" "u_password u = bcrypt_hash e p 12"
proof (cases "\<not> truthy (sb_name req) \<or> \<not> truthy (sb_email req) \<or> \<not> truthy (sb_password req)")
  case True
  then have "snd (signup e req d) = d" by (simp add: signup_def)
  then show ?thesis by (rule same)
next
  case False
  let ?uc = "User_create e 0 (str_of (sb_name req)) (str_of (sb_email req))
               (str_of (sb_password req)) d"
  show ?thesis
  proof (cases ?uc)
    case (Inl err)
    with False have "snd (signup e req d) = d"
      by (cases err) (simp_all add: signup_def)
    then show ?thesis by (rule same)
  next
    case (Inr res)
    obtain u d' where res: "res = (u, d')" by (cases res) auto
    note uc = Inr [unfolded res]
    from False have pw: "str_of (sb_password req) \<noteq> []"
      by (auto simp: truthy_def str_of_def split: option.splits)
    from uc pw have "d' = d\<lparr>users := users d @ [u], next_user_id := Suc (next_user_id d)\<rparr>"
      and "len 2 100 (u_name u)"
      and "u_password u = bcrypt_hash e (str_of (sb_password req)) 12"
      by (auto simp: User_create_def Let_def validate_user_def check_Nil split: if_splits)
    moreover from False uc have "snd (signup e req d) = d'"
      by (simp add: signup_def)
    ultimately show ?thesis by (intro registered [of u]) auto
  qed
qed

lemma login_effect:
  obtains (same) "snd (login e req d) = d"
  | (stamped) u u' where
      "u \<in> set (users d)"
      "snd (login e req d)
         = d\<lparr>users := map (\<lambda>r. if u_id r = u_id u then u' else r) (users d)\<rparr>"
      "u_name u' = u_name u" "u_password u' = u_password u"
proof (cases "snd (login e req d) = d")
  case True
  then show ?thesis by (rule same)
next
  case False
  then obtain u where f: "find (\<lambda>u. u_email u = str_of (lb_email req)) (users d) = Some u"
    and eq: "snd (login e req d)
       = d\<lparr>users := map (\<lambda>r. if u_id r = u_id u
                                then u\<lparr>u_lastLogin := Some (now e), u_updatedAt := now e\<rparr>
                                else r) (users d)\<rparr>"
    by (auto simp: login_def User_findOne_email_def User_save_def Let_def
        split: if_splits option.splits sum.splits)
  from f have "u \<in> set (users d)" by (auto simp: find_Some_iff)
  then show ?thesis using eq
    by (intro stamped [of u "u\<lparr>u_lastLogin := Some (now e), u_updatedAt := now e\<rparr>"]) auto
qed

lemma delete_effect:
  "\<exists>P. snd (delete_portfolio e s u d) = d\<lparr>portfolios := filter P (portfolios d)\<rparr>"
proof (cases "snd (delete_portfolio e s u d) = d")
  case True
  then have "snd (delete_portfolio e s u d) = d\<lparr>portfolios := filter (\<lambda>r. True) (portfolios d)\<rparr>"
    by simp
  then show ?thesis by blast
next
  case False
  then have "snd (delete_portfolio e s u d)
      = d\<lparr>portfolios := filter (\<lambda>r. \<not> holding (jp_id u) (toUpperCase s) r) (portfolios d)\<rparr>"
    by (auto simp: delete_portfolio_def Portfolio_destroy_def split: if_splits)
  then show ?thesis by blast
qed

lemma profile_db: "snd (profile e u d) = d"
  by (auto simp: profile_def split: sum.splits option.splits)

lemma get_portfolio_db: "snd (get_portfolio e u d) = d"
  by (auto simp: get_portfolio_def split: sum.splits)

lemma protected_db:
  "snd (protected e h a d) = d \<or> (\<exists>u. snd (protected e h a d) = snd (h u d))"
  by (auto simp: protected_def split: auth_outcome.splits)

lemma handle_effect:
  obtains (same) "snd (handle e r d) = d"
  | (registered) u p where
      "snd (handle e r d)
         = d\<lparr>users := users d @ [u], next_user_id := Suc (next_user_id d)\<rparr>"
      "len 2 100 (u_name u)" "u_password u = bcrypt_hash e p 12"
  | (stamped) u u' where
      "u \<in> set (users d)"
      "snd (handle e r d)
         = d\<lparr>users := map (\<lambda>r. if u_id r = u_id u then u' else r) (users d)\<rparr>"
      "u_name u' = u_name u" "u_password u' = u_password u"
  | (added) row where
      "snd (handle e r d)
         = d\<lparr>portfolios := portfolios d @ [row],
              next_portfolio_id := Suc (next_portfolio_id d)\<rparr>"
      "p_id row = next_portfolio_id d" "p_symbol row = toUpperCase (p_symbol row)"
      "validate_symbol (p_symbol row) = []" "validate_quantity (p_quantity row) = []"
      "validate_purchasePrice (p_purchasePrice row) = []"
      "\<not> list_ex (holding (p_userId row) (p_symbol row)) (portfolios d)"
  | (updated) item row where
      "item \<in> set (portfolios d)"
      "snd (handle e r d)
         = d\<lparr>portfolios := map (\<lambda>r. if p_id r = p_id item then row else r) (portfolios d)\<rparr>"
      "p_id row = p_id item" "p_userId row = p_userId item" "p_symbol row = p_symbol item"
      "p_quantity row = p_quantity item \<or> validate_quantity (p_quantity row) = []"
      "p_purchasePrice row = p_purchasePrice item \<or>
       validate_purchasePrice (p_purchasePrice row) = []"
  | (removed) P where
      "snd (handle e r d) = d\<lparr>portfolios := filter P (portfolios d)\<rparr>"
proof (cases r)
  case (PostSignup req)
  show ?thesis
    by (rule signup_effect [of e req d]) (auto simp: PostSignup intro: same registered)
next
  case (PostLogin req)
  show ?thesis
    by (rule login_effect [of e req d]) (auto simp: PostLogin intro: same stamped)
next
  case (GetProfile a)
  then have "snd (handle e r d) = d"
    using protected_db [of e "profile e" a d] by (auto simp: profile_db)
  then show ?thesis by (rule same)
next
  case (GetPortfolio a)
  then have "snd (handle e r d) = d"
    using protected_db [of e "get_portfolio e" a d] by (auto simp: get_portfolio_db)
  then show ?thesis by (rule same)
next
  case (PostPortfolio a req)
  from protected_db [of e "post_portfolio e req" a d] show ?thesis
  proof
    assume "snd (protected e (post_portfolio e req) a d) = d"
    then show ?thesis using PostPortfolio by (auto intro: same)
  next
    assume "\<exists>u. snd (protected e (post_portfolio e req) a d) = snd (post_portfolio e req u d)"
    then obtain u where u: "snd (handle e r d) = snd (post_portfolio e req u d)"
      using PostPortfolio by auto
    show ?thesis
      by (rule post_portfolio_effect [of e req u d])
         (auto simp: u [symmetric] intro: same added updated)
  qed
next
  case (DeletePortfolio a s)
  from protected_db [of e "delete_portfolio e s" a d] show ?thesis
  proof
    assume "snd (protected e (delete_portfolio e s) a d) = d"
    then show ?thesis using DeletePortfolio by (auto intro: same)
  next
    assume "\<exists>u. snd (protected e (delete_portfolio e s) a d) = snd (delete_portfolio e s u d)"
    then obtain u where u: "snd (handle e r d) = snd (delete_portfolio e s u d)"
      using DeletePortfolio by auto
    from delete_effect [of e s u d] obtain P where
      "snd (delete_portfolio e s u d) = d\<lparr>portfolios := filter P (portfolios d)\<rparr>" by blast
    with u show ?thesis by (auto intro: removed)
  qed
qed

lemma map_replace_same:
  assumes "distinct (map p_id rows)" and "item \<in> set rows" and "p_id row = p_id item"
    and "f row = f item"
  shows "map f (map (\<lambda>r. if p_id r = p_id item then row else r) rows) = map f rows"
proof -
  have "\<And>r. r \<in> set rows \<Longrightarrow> p_id r = p_id item \<Longrightarrow> r = item"
    using assms(1,2) by (meson distinct_map inj_onD)
  then show ?thesis using assms(4) by auto
qed

lemma primary_keys_step:
  assumes "primary_keys d"
  shows "primary_keys (snd (handle e r d))"
proof (cases rule: handle_effect [of e r d])
  case same
  then show ?thesis using assms by simp
next
  case (registered u p)
  then show ?thesis using assms by (simp add: primary_keys_def)
next
  case (stamped u u')
  then show ?thesis using assms by (simp add: primary_keys_def)
next
  case (added row)
  then show ?thesis using assms
    by (auto simp: primary_keys_def list_all_iff less_Suc_eq)
next
  case (updated item row)
  have "map p_id (map (\<lambda>r. if p_id r = p_id item then row else r) (portfolios d))
      = map p_id (portfolios d)"
    using updated(3) by auto
  moreover have "list_all (\<lambda>r. p_id r < next_portfolio_id d)
      (map (\<lambda>r. if p_id r = p_id item then row else r) (portfolios d))"
    using assms updated(1,3) by (auto simp: primary_keys_def list_all_iff)
  ultimately show ?thesis using assms updated(2)
    by (simp add: primary_keys_def del: map_map)
next
  case (removed P)
  then show ?thesis using assms
    by (auto simp: primary_keys_def list_all_iff distinct_map_filter)
qed

lemma unique_holdings_step:
  assumes "primary_keys d" and "unique_holdings d"
  shows "unique_holdings (snd (handle e r d))"
proof (cases rule: handle_effect [of e r d])
  case same
  then show ?thesis using assms by simp
next
  case (registered u p)
  then show ?thesis using assms by (simp add: unique_holdings_def)
next
  case (stamped u u')
  then show ?thesis using assms by (simp add: unique_holdings_def)
next
  case (added row)
  from added(7) have "(p_userId row, p_symbol row)
      \<notin> set (map (\<lambda>r. (p_userId r, p_symbol r)) (portfolios d))"
    by (auto simp: list_ex_iff holding_def)
  then show ?thesis using assms added(1) by (simp add: unique_holdings_def)
next
  case (updated item row)
  have "map (\<lambda>r. (p_userId r, p_symbol r))
          (map (\<lambda>r. if p_id r = p_id item then row else r) (portfolios d))
      = map (\<lambda>r. (p_userId r, p_symbol r)) (portfolios d)"
    using assms(1) updated(1,3,4,5)
    by (intro map_replace_same) (simp_all add: primary_keys_def)
  then show ?thesis using assms updated(2)
    by (simp add: unique_holdings_def del: map_map)
next
  case (removed P)
  then show ?thesis using assms by (simp add: unique_holdings_def distinct_map_filter)
qed

lemma validated_in_bounds:
  assumes "validate_symbol (p_symbol row) = []" and "validate_quantity (p_quantity row) = []"
    and "validate_purchasePrice (p_purchasePrice row) = []"
  shows "portfolio_in_bounds row"
  using assms
  by (auto simp: portfolio_in_bounds_def validate_symbol_def validate_quantity_def
      validate_purchasePrice_def check_Nil len_def min_value_def split: option.splits)

lemma rows_in_bounds_step:
  assumes "\<forall>p. 8 \<le> length (bcrypt_hash e p 12)" and "rows_in_bounds d"
  shows "rows_in_bounds (snd (handle e r d))"
proof (cases rule: handle_effect [of e r d])
  case same
  then show ?thesis using assms by simp
next
  case (registered u p)
  then have "user_in_bounds u" using assms(1) by (simp add: user_in_bounds_def len_def)
  then show ?thesis using assms(2) registered(1) by (simp add: rows_in_bounds_def)
next
  case (stamped u u')
  from assms(2) stamped(1) have "user_in_bounds u"
    by (auto simp: rows_in_bounds_def list_all_iff)
  then have "user_in_bounds u'" using stamped(3,4) by (simp add: user_in_bounds_def)
  then show ?thesis using assms(2) stamped(2)
    by (auto simp: rows_in_bounds_def list_all_iff)
next
  case (added row)
  then have "portfolio_in_bounds row" by (simp add: validated_in_bounds)
  then show ?thesis using assms(2) added(1) by (simp add: rows_in_bounds_def)
next
  case (updated item row)
  from assms(2) updated(1) have item: "portfolio_in_bounds item"
    by (auto simp: rows_in_bounds_def list_all_iff)
  have "portfolio_in_bounds row"
    using item updated(5,6,7)
    by (auto simp: portfolio_in_bounds_def validate_quantity_def validate_purchasePrice_def
        check_Nil min_value_def split: option.splits)
  then show ?thesis using assms(2) updated(2)
    by (auto simp: rows_in_bounds_def list_all_iff)
next
  case (removed P)
  then show ?thesis using assms(2) by (auto simp: rows_in_bounds_def list_all_iff)
qed

lemma symbols_uppercase_step:
  assumes "symbols_uppercase d"
  shows "symbols_uppercase (snd (handle e r d))"
proof (cases rule: handle_effect [of e r d])
  case same
  then show ?thesis using assms by simp
next
  case (registered u p)
  then show ?thesis using assms by (simp add: symbols_uppercase_def)
next
  case (stamped u u')
  then show ?thesis using assms by (simp add: symbols_uppercase_def)
next
  case (added row)
  then show ?thesis using assms by (simp add: symbols_uppercase_def)
next
  case (updated item row)
  from assms updated(1) have "p_symbol item = toUpperCase (p_symbol item)"
    by (auto simp: symbols_uppercase_def list_all_iff)
  then show ?thesis using assms updated(2,5)
    by (auto simp: symbols_uppercase_def list_all_iff)
next
  case (removed P)
  then show ?thesis using assms by (auto simp: symbols_uppercase_def list_all_iff)
qed

lemmas up = toUpperCase_def toUpperCase_char_def lower_letters_def upper_letters_def

lemma serve_keys:
  "primary_keys d \<and> unique_holdings d \<Longrightarrow>
   primary_keys (serve reqs d) \<and> unique_holdings (serve reqs d)"
proof (induction reqs arbitrary: d)
  case Nil
  then show ?case by simp
next
  case (Cons x reqs)
  obtain e r where x: "x = (e, r)" by (cases x)
  from Cons.prems have "primary_keys (snd (handle e r d)) \<and> unique_holdings (snd (handle e r d))"
    by (simp add: primary_keys_step unique_holdings_step)
  then show ?case using Cons.IH x by simp
qed

lemma empty_db_keys: "primary_keys empty_db \<and> unique_holdings empty_db"
  by (simp add: primary_keys_def unique_holdings_def empty_db_def)

lemma or_num_valid:
  "validate_purchasePrice pp = [] \<Longrightarrow>
   or_num pp old = old \<or> validate_purchasePrice (or_num pp old) = []"
  by (auto simp: or_num_def split: option.splits)

lemma add_existing:
  assumes "truthy (pb_symbol req)" and "pb_quantity req = Some q" and "db_fault e = None"
    and "find (holding (jp_id u) (toUpperCase (str_of (pb_symbol req)))) (portfolios d) = Some item"
    and "validate_quantity q = []" and "validate_purchasePrice (pb_purchasePrice req) = []"
  obtains row where "p_id row = p_id item" "p_userId row = p_userId item"
    "p_symbol row = p_symbol item" "p_quantity row = q"
    "post_portfolio e req u d =
       (respond 200
          [(''success'', JBool True), (''portfolioItem'', portfolio_toJSON row),
           (''message'', JStr ''Stock updated in portfolio'')],
        d\<lparr>portfolios := map (\<lambda>r. if p_id r = p_id item then row else r) (portfolios d)\<rparr>)"
proof -
  let ?s = "toUpperCase (str_of (pb_symbol req))"
  from assms(4) have key: "p_symbol item = ?s" by (auto dest: find_holding)
  have foc: "Portfolio_findOrCreate e 0 (jp_id u) ?s q (pb_purchasePrice req)
      (or_date (pb_purchaseDate req) (Some (now e))) (pb_notes req) d = Inr ((item, False), d)"
    using assms(3,4) by (simp add: Portfolio_findOrCreate_def db_ok_no_fault)
  let ?pp = "or_num (pb_purchasePrice req) (p_purchasePrice item)"
  let ?row = "(beforeValidate (item\<lparr>p_quantity := q, p_purchasePrice := ?pp,
        p_purchaseDate := or_date (pb_purchaseDate req) (p_purchaseDate item),
        p_notes := or_str (pb_notes req) (p_notes item)\<rparr>))\<lparr>p_updatedAt := now e\<rparr>"
  have upd: "Portfolio_update e 1 item q ?pp
      (or_date (pb_purchaseDate req) (p_purchaseDate item))
      (or_str (pb_notes req) (p_notes item)) d
    = Inr (?row, d\<lparr>portfolios := map (\<lambda>r. if p_id r = p_id item then ?row else r) (portfolios d)\<rparr>)"
    using assms(3,5) or_num_valid [OF assms(6), of "p_purchasePrice item"]
    by (auto simp: Portfolio_update_def Let_def db_ok_no_fault)
  have "post_portfolio e req u d =
             (respond 200
                [(''success'', JBool True), (''portfolioItem'', portfolio_toJSON ?row),
                 (''message'', JStr ''Stock updated in portfolio'')],
              d\<lparr>portfolios := map (\<lambda>r. if p_id r = p_id item then ?row else r) (portfolios d)\<rparr>)"
    using assms(1,2) foc upd by (simp add: post_portfolio_def)
  moreover have "p_id ?row = p_id item" "p_userId ?row = p_userId item"
    "p_symbol ?row = p_symbol item" "p_quantity ?row = q"
    using key by (simp_all add: beforeValidate_fields toUpperCase_idem)
  ultimately show ?thesis by (intro that [of ?row])
qed

lemma add_new:
  assumes "truthy (pb_symbol req)" and "pb_quantity req = Some q" and "db_ok e 0"
    and "find (holding (jp_id u) (toUpperCase (str_of (pb_symbol req)))) (portfolios d) = None"
    and "list_ex (\<lambda>x. u_id x = jp_id u) (users d)"
    and "validate_symbol (toUpperCase (str_of (pb_symbol req))) = []"
    and "validate_quantity q = []" and "validate_purchasePrice (pb_purchasePrice req) = []"
  obtains row where "p_id row = next_portfolio_id d" "p_userId row = jp_id u"
    "p_symbol row = toUpperCase (str_of (pb_symbol req))" "p_quantity row = q"
    "post_portfolio e req u d =
       (respond 201
          [(''success'', JBool True), (''portfolioItem'', portfolio_toJSON row),
           (''message'', JStr ''Stock added to portfolio'')],
        d\<lparr>portfolios := portfolios d @ [row],
          next_portfolio_id := Suc (next_portfolio_id d)\<rparr>)"
proof -
  let ?s = "toUpperCase (str_of (pb_symbol req))"
  let ?row = "beforeValidate
                  \<lparr>p_id = next_portfolio_id d, p_userId = jp_id u, p_symbol = ?s,
                   p_quantity = q, p_purchasePrice = pb_purchasePrice req,
                   p_purchaseDate = or_date (pb_purchaseDate req) (Some (now e)),
                   p_notes = pb_notes req,
                   p_createdAt = now e, p_updatedAt = now e\<rparr>"
  have sym: "p_symbol ?row = ?s" by (simp add: beforeValidate_fields toUpperCase_idem)
  from assms(4) have no: "\<not> list_ex (holding (jp_id u) ?s) (portfolios d)"
    by (rule find_holding_None)
  have foc: "Portfolio_findOrCreate e 0 (jp_id u) ?s q (pb_purchasePrice req)
      (or_date (pb_purchaseDate req) (Some (now e))) (pb_notes req) d
     = Inr ((?row, True), d\<lparr>portfolios := portfolios d @ [?row],
                next_portfolio_id := Suc (next_portfolio_id d)\<rparr>)"
    using assms(3-8) no sym
    by (simp add: Portfolio_findOrCreate_def Let_def beforeValidate_fields)
  have "post_portfolio e req u d =
             (respond 201
                [(''success'', JBool True), (''portfolioItem'', portfolio_toJSON ?row),
                 (''message'', JStr ''Stock added to portfolio'')],
              d\<lparr>portfolios := portfolios d @ [?row],
                next_portfolio_id := Suc (next_portfolio_id d)\<rparr>)"
    using assms(1,2) foc by (simp add: post_portfolio_def)
  moreover have "p_id ?row = next_portfolio_id d" "p_userId ?row = jp_id u" "p_quantity ?row = q"
    by (simp_all add: beforeValidate_fields)
  ultimately show ?thesis using sym by (intro that [of ?row])
qed

lemma list_ex_find:
  "list_ex P xs \<Longrightarrow> \<exists>x. find P xs = Some x"
  by (cases "find P xs") (auto simp: find_None_iff list_ex_iff)

lemma isInt_numeral: "isInt (numeral n)" "isInt 0"
  by (simp_all add: isInt_def)

lemma demo_env_fields:
  "db_fault demo_env = None" "now demo_env = 5000" "JWT_SECRET demo_env = Some ''s3cret''"
  "ALPHA_VANTAGE_API_KEY demo_env = None"
  by (simp_all add: demo_env_def)

lemma demo_db_fields:
  "users demo_db = [asha]" "portfolios demo_db = [asha_tcs]"
  "next_user_id demo_db = 2" "next_portfolio_id demo_db = 2"
  by (simp_all add: demo_db_def)

lemma demo_keys: "primary_keys demo_db \<and> unique_holdings demo_db"
  by (simp add: primary_keys_def unique_holdings_def demo_db_fields asha_tcs_def)

lemma validate_quantity_numeral: "validate_quantity (numeral n) = []"
  by (simp add: validate_quantity_def check_def min_value_def isInt_numeral)

lemma check_Cons: "check ok msg \<noteq> [] \<longleftrightarrow> \<not> ok"
  by (simp add: check_def)

lemma validate_quantity_rejects:
  "q < 0 \<or> \<not> isInt q \<Longrightarrow> validate_quantity q \<noteq> []"
  by (auto simp: validate_quantity_def check_def min_value_def)

lemma validate_purchasePrice_rejects:
  "v < 0 \<Longrightarrow> validate_purchasePrice (Some v) \<noteq> []"
  by (simp add: validate_purchasePrice_def check_def min_value_def)

lemma validate_symbol_rejects:
  "20 < length s \<Longrightarrow> validate_symbol (toUpperCase s) \<noteq> []"
  by (simp add: validate_symbol_def check_def len_def length_toUpperCase)

lemma post_portfolio_rejects:
  assumes inv: "rows_in_bounds d" and ok: "db_ok e 0"
    and s: "truthy (pb_symbol req)" and q: "pb_quantity req = Some q"
    and bad: "q < 0 \<or> \<not> isInt q \<or> (\<exists>v. pb_purchasePrice req = Some v \<and> v < 0) \<or>
              20 < length (str_of (pb_symbol req))"
  obtains messages where "messages \<noteq> []"
    "post_portfolio e req u d = (validation_response messages, d)"
proof (cases "find (holding (jp_id u) (toUpperCase (str_of (pb_symbol req)))) (portfolios d)")
  case None
  let ?s = "toUpperCase (str_of (pb_symbol req))"
  let ?msgs = "validate_symbol ?s @ validate_quantity q @
      validate_purchasePrice (pb_purchasePrice req)"
  from bad have ne: "?msgs \<noteq> []"
    using validate_quantity_rejects [of q] validate_purchasePrice_rejects
      validate_symbol_rejects [of "str_of (pb_symbol req)"]
    by auto
  have "Portfolio_findOrCreate e 0 (jp_id u) ?s q (pb_purchasePrice req)
      (or_date (pb_purchaseDate req) (Some (now e))) (pb_notes req) d
      = Inl (SequelizeValidationError ?msgs)"
    using ok None ne
    by (simp add: Portfolio_findOrCreate_def Let_def beforeValidate_fields toUpperCase_idem)
  then have "post_portfolio e req u d = (validation_response ?msgs, d)"
    using s q by (simp add: post_portfolio_def)
  with ne show ?thesis by (rule that)
next
  case (Some item)
  let ?s = "toUpperCase (str_of (pb_symbol req))"
  from Some have mem: "item \<in> set (portfolios d)" and key: "p_symbol item = ?s"
    by (auto dest: find_holding)
  from inv mem have item: "portfolio_in_bounds item"
    by (auto simp: rows_in_bounds_def list_all_iff)
  let ?pp = "or_num (pb_purchasePrice req) (p_purchasePrice item)"
  let ?msgs = "(if q \<noteq> p_quantity item then validate_quantity q else []) @
      (if ?pp \<noteq> p_purchasePrice item then validate_purchasePrice ?pp else [])"
  from item key have "length (str_of (pb_symbol req)) \<le> 20"
    by (simp add: portfolio_in_bounds_def length_toUpperCase)
  with bad consider (qty) "q < 0 \<or> \<not> isInt q"
    | (price) v where "pb_purchasePrice req = Some v" "v < 0"
    by auto
  then have ne: "?msgs \<noteq> []"
  proof cases
    case qty
    with item have "q \<noteq> p_quantity item" by (auto simp: portfolio_in_bounds_def)
    with qty show ?thesis using validate_quantity_rejects [of q] by simp
  next
    case (price v)
    then have pp: "?pp = Some v" by (simp add: or_num_def)
    from item price(2) have "Some v \<noteq> p_purchasePrice item"
      by (auto simp: portfolio_in_bounds_def split: option.splits)
    with pp price(2) show ?thesis using validate_purchasePrice_rejects [of v] by simp
  qed
  have foc: "Portfolio_findOrCreate e 0 (jp_id u) ?s q (pb_purchasePrice req)
      (or_date (pb_purchaseDate req) (Some (now e))) (pb_notes req) d = Inr ((item, False), d)"
    using ok Some by (simp add: Portfolio_findOrCreate_def)
  have "Portfolio_update e 1 item q ?pp
      (or_date (pb_purchaseDate req) (p_purchaseDate item))
      (or_str (pb_notes req) (p_notes item)) d = Inl (SequelizeValidationError ?msgs)"
    using ne by (simp add: Portfolio_update_def Let_def)
  with foc have "post_portfolio e req u d = (validation_response ?msgs, d)"
    using s q by (simp add: post_portfolio_def)
  with ne show ?thesis by (rule that)
qed

lemma signup_rejects:
  assumes "truthy (sb_name req)" and "truthy (sb_email req)" and "truthy (sb_password req)"
    and bad: "length (str_of (sb_name req)) < 2 \<or> 100 < length (str_of (sb_name req)) \<or>
              length (str_of (sb_password req)) < 8"
  obtains messages where "messages \<noteq> []"
    "signup e req d = (validation_response messages, d)"
proof -
  let ?msgs = "validate_user e (str_of (sb_name req)) (str_of (sb_email req))
      (str_of (sb_password req))"
  from bad have ne: "?msgs \<noteq> []"
    by (auto simp: validate_user_def check_def len_def)
  then have "User_create e 0 (str_of (sb_name req)) (str_of (sb_email req))
      (str_of (sb_password req)) d = Inl (SequelizeValidationError ?msgs)"
    by (simp add: User_create_def Let_def)
  then have "signup e req d = (validation_response ?msgs, d)"
    using assms(1-3) by (simp add: signup_def validation_response_def)
  with ne show ?thesis by (rule that)
qed

lemma serve_in_bounds:
  "list_all (\<lambda>x. \<forall>p. 8 \<le> length (bcrypt_hash (fst x) p 12)) reqs \<Longrightarrow> rows_in_bounds d \<Longrightarrow>
   rows_in_bounds (serve reqs d)"
proof (induction reqs arbitrary: d)
  case Nil
  then show ?case by simp
next
  case (Cons x reqs)
  obtain e r where x: "x = (e, r)" by (cases x)
  from Cons.prems x have "rows_in_bounds (snd (handle e r d))"
    by (simp add: rows_in_bounds_step)
  then show ?case using Cons x by simp
qed

lemma empty_db_in_bounds: "rows_in_bounds empty_db"
  by (simp add: rows_in_bounds_def empty_db_def)

lemma validation_response_status:
  "status (validation_response messages) = 400"
  "field ''error'' (body (validation_response messages)) = Some (JStr ''Validation error'')"
  by (simp_all add: validation_response_def respond_def field_def)

lemma serve_uppercase:
  "symbols_uppercase d \<Longrightarrow> symbols_uppercase (serve reqs d)"
proof (induction reqs arbitrary: d)
  case Nil
  then show ?case by simp
next
  case (Cons x reqs)
  obtain e r where x: "x = (e, r)" by (cases x)
  from Cons.prems have "symbols_uppercase (snd (handle e r d))"
    by (rule symbols_uppercase_step)
  then show ?case using Cons.IH x by simp
qed

lemma empty_db_uppercase: "symbols_uppercase empty_db"
  by (simp add: symbols_uppercase_def empty_db_def)

lemma post_portfolio_same:
  assumes "pb_quantity r1 = pb_quantity r2" and "pb_purchasePrice r1 = pb_purchasePrice r2"
    and "pb_purchaseDate r1 = pb_purchaseDate r2" and "pb_notes r1 = pb_notes r2"
    and "truthy (pb_symbol r1) = truthy (pb_symbol r2)"
    and "toUpperCase (str_of (pb_symbol r1)) = toUpperCase (str_of (pb_symbol r2))"
  shows "post_portfolio e r1 u d = post_portfolio e r2 u d"
  unfolding post_portfolio_def assms ..

lemma demo_hash_length: "\<forall>p. 8 \<le> length (bcrypt_hash demo_env p 12)"
  by (simp add: demo_env_def)

lemma demo_in_bounds: "rows_in_bounds demo_db"
  by (simp add: rows_in_bounds_def demo_db_fields portfolio_in_bounds_def user_in_bounds_def
      asha_def asha_tcs_def isInt_numeral)

lemma demo_uppercase: "symbols_uppercase demo_db"
  by (simp add: symbols_uppercase_def demo_db_fields asha_tcs_def up)

lemma same_public_fields:
  assumes "same_public a b"
  shows "u_id a = u_id b" "u_name a = u_name b" "u_email a = u_email b" "u_role a = u_role b"
    "u_lastLogin a = u_lastLogin b" "u_createdAt a = u_createdAt b" "u_updatedAt a = u_updatedAt b"
  using assms by (simp_all add: same_public_def)

lemma user_toJSON_public:
  "user_toJSON u =
     JObj [(''id'', JNum (of_nat (u_id u))), (''name'', JStr (u_name u)),
           (''email'', JStr (u_email u)), (''role'', role_json (u_role u)),
           (''lastLogin'', opt_json JDate (u_lastLogin u)),
           (''createdAt'', JDate (u_createdAt u)), (''updatedAt'', JDate (u_updatedAt u))]"
  by (simp add: user_toJSON_def user_get_def delete_key_def)

lemma same_public_toJSON: "same_public a b \<Longrightarrow> user_toJSON a = user_toJSON b"
  by (simp add: user_toJSON_public same_public_fields)

lemma same_public_payload: "same_public a b \<Longrightarrow> payload_of a = payload_of b"
  by (simp add: payload_of_def same_public_fields)

lemma find_same_public:
  assumes "list_all2 same_public xs ys" and "\<And>a b. same_public a b \<Longrightarrow> P a = P b"
  shows "rel_option same_public (find P xs) (find P ys)"
  using assms(1)
proof (induction rule: list_all2_induct)
  case Nil
  then show ?case by simp
next
  case (Cons a xs b ys)
  with assms(2) [of a b] show ?case by simp
qed

lemma profile_public:
  assumes "same_public_db d1 d2"
  shows "fst (profile e u d1) = fst (profile e u d2)"
proof -
  from assms have "rel_option same_public (find (\<lambda>x. u_id x = jp_id u) (users d1))
      (find (\<lambda>x. u_id x = jp_id u) (users d2))"
    by (intro find_same_public) (simp_all add: same_public_db_def same_public_fields)
  then show ?thesis
    by (cases rule: option.rel_cases)
       (simp_all add: profile_def User_findByPk_def same_public_toJSON)
qed

lemma same_public_stamp:
  "same_public a b \<Longrightarrow>
   same_public (a\<lparr>u_lastLogin := t, u_updatedAt := n\<rparr>) (b\<lparr>u_lastLogin := t, u_updatedAt := n\<rparr>)"
  by (simp add: same_public_def)

lemma login_outcomes:
  "fst (login e req d) = respond 400 (error_body ''Email and password are required'')
   \<or> fst (login e req d) = respond 500 (error_body ''Server error'')
   \<or> fst (login e req d) = respond 401 (error_body ''Invalid credentials'')
   \<or> (\<exists>a. find (\<lambda>u. u_email u = str_of (lb_email req)) (users d) = Some a \<and>
        fst (login e req d) = respond 200
         [(''token'', JStr (jwt_sign e
              (payload_of (a\<lparr>u_lastLogin := Some (now e), u_updatedAt := now e\<rparr>))
              (secret e) ''7d'')),
          (''user'', user_toJSON (a\<lparr>u_lastLogin := Some (now e), u_updatedAt := now e\<rparr>))])"
proof (cases "\<not> truthy (lb_email req) \<or> \<not> truthy (lb_password req)")
  case True
  then show ?thesis by (simp add: login_def)
next
  case present: False
  show ?thesis
  proof (cases "db_ok e 0")
    case False
    with present show ?thesis by (simp add: login_def User_findOne_email_def)
  next
    case ok0: True
    show ?thesis
    proof (cases "find (\<lambda>u. u_email u = str_of (lb_email req)) (users d)")
      case None
      with present ok0 show ?thesis by (simp add: login_def User_findOne_email_def)
    next
      case (Some a)
      show ?thesis
      proof (cases "validPassword e a (str_of (lb_password req)) \<and> db_ok e 1")
        case False
        with present ok0 Some show ?thesis
          by (auto simp: login_def User_findOne_email_def User_save_def)
      next
        case True
        with present ok0 Some show ?thesis
          by (simp add: login_def User_findOne_email_def User_save_def Let_def)
      qed
    qed
  qed
qed

lemma login_shape:
  obtains (missing) "fst (login e req d) = respond 400 (error_body ''Email and password are required'')"
  | (failed) "fst (login e req d) = respond 500 (error_body ''Server error'')"
  | (refused) "fst (login e req d) = respond 401 (error_body ''Invalid credentials'')"
  | (accepted) a where "find (\<lambda>u. u_email u = str_of (lb_email req)) (users d) = Some a"
      "fst (login e req d) = respond 200
         [(''token'', JStr (jwt_sign e
              (payload_of (a\<lparr>u_lastLogin := Some (now e), u_updatedAt := now e\<rparr>))
              (secret e) ''7d'')),
          (''user'', user_toJSON (a\<lparr>u_lastLogin := Some (now e), u_updatedAt := now e\<rparr>))]"
  using login_outcomes [of e req d] by (elim disjE exE conjE)

lemma login_public:
  assumes rel: "same_public_db d1 d2"
    and st: "status (fst (login e req d1)) = status (fst (login e req d2))"
  shows "fst (login e req d1) = fst (login e req d2)"
proof -
  let ?P = "\<lambda>u. u_email u = str_of (lb_email req)"
  from rel have corr: "rel_option same_public (find ?P (users d1)) (find ?P (users d2))"
    by (intro find_same_public) (simp_all add: same_public_db_def same_public_fields)
  show ?thesis
  proof (cases rule: login_shape [of e req d1])
    case missing
    with st show ?thesis
      by (cases rule: login_shape [of e req d2]) (simp_all add: respond_def)
  next
    case failed
    with st show ?thesis
      by (cases rule: login_shape [of e req d2]) (simp_all add: respond_def)
  next
    case refused
    with st show ?thesis
      by (cases rule: login_shape [of e req d2]) (simp_all add: respond_def)
  next
    case (accepted a)
    note acc1 = accepted
    from st show ?thesis
    proof (cases rule: login_shape [of e req d2])
      case (accepted b)
      with acc1(1) corr have "same_public a b" by simp
      then have "same_public (a\<lparr>u_lastLogin := Some (now e), u_updatedAt := now e\<rparr>)
          (b\<lparr>u_lastLogin := Some (now e), u_updatedAt := now e\<rparr>)"
        by (rule same_public_stamp)
      then show ?thesis using acc1(2) accepted(2)
        by (simp add: same_public_toJSON same_public_payload)
    qed (use acc1 in \<open>simp_all add: respond_def\<close>)
  qed
qed

lemma signup_accepted:
  assumes "status (fst (signup e req d)) = 201"
  shows "\<exists>pw. fst (signup e req d) = respond 201
      [(''token'', JStr (jwt_sign e
           \<lparr>jp_id = next_user_id d, jp_email = str_of (sb_email req), jp_role = RoleUser\<rparr>
           (secret e) ''7d'')),
       (''user'', user_toJSON
           \<lparr>u_id = next_user_id d, u_name = str_of (sb_name req),
            u_email = str_of (sb_email req), u_password = pw, u_role = RoleUser,
            u_lastLogin = None, u_passwordResetToken = None, u_passwordResetExpires = None,
            u_createdAt = now e, u_updatedAt = now e\<rparr>)]"
  using assms
  by (auto simp: signup_def User_create_def Let_def respond_def payload_of_def
      split: if_splits sum.splits db_error.splits)

lemma signup_public:
  assumes rel: "same_public_db d1 d2"
    and same: "sb_name r1 = sb_name r2" "sb_email r1 = sb_email r2"
    and ok: "status (fst (signup e r1 d1)) = 201" "status (fst (signup e r2 d2)) = 201"
  shows "fst (signup e r1 d1) = fst (signup e r2 d2)"
proof -
  from rel have "next_user_id d1 = next_user_id d2" by (simp add: same_public_db_def)
  with signup_accepted [OF ok(1)] signup_accepted [OF ok(2)] same show ?thesis
    by (auto simp: user_toJSON_public)
qed

lemma demo_env_calls:
  "bcrypt_compare demo_env p h = (h = ''$2a$12$/'' @ p)"
  "bcrypt_hash demo_env p n = ''$2a$12$/'' @ p"
  "jwt_sign demo_env pl k ttl = jp_email pl @ ''|'' @ k @ ''|'' @ ttl"
  "isEmail demo_env s = (CHR ''@'' \<in> set s)"
  by (simp_all add: demo_env_def)

lemma demo_same_public:
  "same_public asha asha_rehashed" "same_public asha asha_reset"
  "same_public_db demo_db demo_db_rehashed" "same_public_db demo_db demo_db_reset"
  by (simp_all add: same_public_def same_public_db_def asha_rehashed_def asha_reset_def
      demo_db_rehashed_def demo_db_reset_def demo_db_fields)

lemma login_asha_demo:
  "status (fst (login demo_env login_asha demo_db)) = 200"
  "status (fst (login demo_env login_asha demo_db_reset)) = 200"
  "fst (login demo_env login_asha demo_db_rehashed)
     = respond 401 (error_body ''Invalid credentials'')"
  by (simp_all add: login_def User_findOne_email_def User_save_def validPassword_def
      db_ok_def demo_env_fields demo_env_calls demo_db_fields demo_db_rehashed_def
      demo_db_reset_def login_asha_def truthy_def str_of_def asha_def asha_rehashed_def
      asha_reset_def Let_def respond_def)

lemma signup_ravi_demo:
  "status (fst (signup demo_env signup_ravi demo_db)) = 201"
  "status (fst (signup demo_env signup_ravi_other demo_db_rehashed)) = 201"
  by (simp_all add: signup_def User_create_def validate_user_def check_def notEmpty_def
      whitespace_def len_def db_ok_def demo_env_fields demo_env_calls demo_db_fields
      demo_db_rehashed_def signup_ravi_def signup_ravi_other_def truthy_def str_of_def
      asha_def asha_rehashed_def Let_def respond_def)

section \<open>Facts about the news service\<close>

lemma fetch_data_quiet:
  "fetch_data (quiet_keywords env) QGlobal = fetch_data env QGlobal"
  "fetch_data (quiet_keywords env) QIndia = fetch_data env QIndia"
  "fetch_data (quiet_keywords env) (QKeyword k)
     = (case fetch_data env (QKeyword k) of Thrown \<Rightarrow> Skipped | r \<Rightarrow> r)"
  by (simp_all add: fetch_data_def quiet_keywords_def
      split: fetch_outcome.splits json_outcome.splits option.splits)

lemma keyword_loop_quiet:
  "keyword_loop (quiet_keywords env) ks s = keyword_loop env ks s"
proof (induction ks arbitrary: s)
  case Nil
  then show ?case by (cases s) simp
next
  case (Cons k ks)
  obtain allArticles calls where s: "s = (allArticles, calls)" by (cases s)
  show ?case
    by (cases "fetch_data env (QKeyword k)") (simp_all add: s fetch_data_quiet Cons.IH)
qed

lemma strategy3_quiet: "strategy3 (quiet_keywords env) s = strategy3 env s"
  by (simp add: strategy3_def keyword_loop_quiet)

lemma strategy2_quiet: "strategy2 (quiet_keywords env) s = strategy2 env s"
  unfolding strategy2_def fetch_data_quiet strategy3_quiet ..

lemma collect_quiet: "collect_articles (quiet_keywords env) = collect_articles env"
  unfolding collect_articles_def fetch_data_quiet strategy2_quiet ..

lemma quiet_fields:
  "clock (quiet_keywords env) = clock env"
  "VITE_MARKETAUX_API_KEY (quiet_keywords env) = VITE_MARKETAUX_API_KEY env"
  "storage_writable (quiet_keywords env) = storage_writable env"
  by (simp_all add: quiet_keywords_def)

lemma select_news_quiet: "select_news (quiet_keywords env) all = select_news env all"
  by (simp add: select_news_def quiet_fields)

lemma store_cache_quiet: "store_cache (quiet_keywords env) c st = store_cache env c st"
  by (simp add: store_cache_def quiet_fields)

lemma fetch_fresh_quiet: "fetch_fresh (quiet_keywords env) st = fetch_fresh env st"
  unfolding fetch_fresh_def getApiKey_def collect_quiet select_news_quiet quiet_fields
    store_cache_quiet ..

lemma fetchNews_quiet: "fetchNews (quiet_keywords env) st = fetchNews env st"
  unfolding fetchNews_def fetch_fresh_quiet quiet_fields ..

lemma select_news_Nil: "select_news env [] = []"
  by (simp add: select_news_def sort_items_def)

lemma keyword_loop_prefix: "prefix (snd s) (snd (keyword_loop env ks s))"
proof (induction ks arbitrary: s)
  case Nil
  then show ?case by (cases s) simp
next
  case (Cons k ks)
  obtain allArticles calls where s: "s = (allArticles, calls)" by (cases s)
  have "prefix calls (calls @ [QKeyword k])" by simp
  moreover have "\<And>a. prefix (calls @ [QKeyword k]) (snd (keyword_loop env ks (a, calls @ [QKeyword k])))"
    using Cons.IH by (metis snd_conv)
  ultimately have "\<And>a. prefix calls (snd (keyword_loop env ks (a, calls @ [QKeyword k])))"
    using prefix_order.trans by blast
  then show ?case
    by (cases "fetch_data env (QKeyword k)") (simp_all add: s)
qed

lemma strategy3_prefix: "prefix (snd s) (snd (strategy3 env s))"
  using keyword_loop_prefix [of s env keywords3]
  by (auto simp: strategy3_def split: prod.splits)

lemma strategy2_prefix: "prefix (snd s) (snd (strategy2 env s))"
proof -
  have "\<And>a. prefix (snd s) (snd (strategy3 env (a, snd s @ [QIndia])))"
    using strategy3_prefix [of "(_, snd s @ [QIndia])" env]
    by (metis prefix_order.trans prefixI snd_conv)
  then show ?thesis
    using strategy3_prefix [of s env]
    by (cases "fetch_data env QIndia") (auto simp: strategy2_def)
qed

lemma collect_calls: "prefix [QGlobal] (snd (collect_articles env))"
  using strategy2_prefix [of "(_, [QGlobal])" env]
  by (cases "fetch_data env QGlobal") (auto simp: collect_articles_def)

lemma collect_calls_ne: "snd (collect_articles env) \<noteq> []"
  using collect_calls [of env] by (auto simp: prefix_def)

lemma keyword_loop_empty:
  assumes "\<forall>q. no_articles (fetch_data env q)"
  shows "fst (keyword_loop env ks ([], calls)) = []"
proof (induction ks arbitrary: calls)
  case Nil
  then show ?case by simp
next
  case (Cons k ks)
  from assms have "no_articles (fetch_data env (QKeyword k))" by blast
  then show ?case
    by (cases "fetch_data env (QKeyword k)")
       (simp_all add: Cons.IH no_articles_def new_articles_def)
qed

lemma strategy3_empty:
  assumes "\<forall>q. no_articles (fetch_data env q)"
  shows "fst (strategy3 env ([], calls)) = Some []"
  using keyword_loop_empty [OF assms, of keywords3 calls]
  by (auto simp: strategy3_def split: prod.splits)

lemma strategy2_empty:
  assumes "\<forall>q. no_articles (fetch_data env q)"
  shows "fst (strategy2 env ([], calls)) = None \<or> fst (strategy2 env ([], calls)) = Some []"
proof -
  from assms have "no_articles (fetch_data env QIndia)" by blast
  then show ?thesis
    using strategy3_empty [OF assms]
    by (cases "fetch_data env QIndia")
       (simp_all add: strategy2_def no_articles_def new_articles_def)
qed

lemma collect_empty:
  assumes "\<forall>q. no_articles (fetch_data env q)"
  shows "fst (collect_articles env) = None \<or> fst (collect_articles env) = Some []"
proof -
  from assms have "no_articles (fetch_data env QGlobal)" by blast
  then show ?thesis
    using strategy2_empty [OF assms, of "[QGlobal]"]
    by (cases "fetch_data env QGlobal") (simp_all add: collect_articles_def no_articles_def)
qed

lemma collect_india_thrown:
  assumes "length (got (fetch_data env QGlobal)) < 10" and "fetch_data env QIndia = Thrown"
  shows "fst (collect_articles env) = None"
  using assms
  by (cases "fetch_data env QGlobal") (simp_all add: collect_articles_def strategy2_def got_def)

lemma fetch_fresh_fallback:
  assumes "getApiKey env = None \<or> fst (collect_articles env) = None \<or>
           (\<exists>all. fst (collect_articles env) = Some all \<and> select_news env all = [])"
  shows "fst (fetch_fresh env st) = getFallbackNews (clock env AtFallback) \<and>
         snd (snd (fetch_fresh env st)) = st"
proof (cases "getApiKey env")
  case None
  then show ?thesis by (simp add: fetch_fresh_def)
next
  case (Some key)
  obtain found calls where c: "collect_articles env = (found, calls)"
    by (cases "collect_articles env")
  show ?thesis
  proof (cases found)
    case None
    with Some c show ?thesis by (simp add: fetch_fresh_def)
  next
    case found: (Some all)
    with assms Some c have "select_news env all = []" by simp
    with Some c found show ?thesis by (simp add: fetch_fresh_def)
  qed
qed

lemma fetchNews_stale:
  "\<not> cache_fresh (clock env AtCacheCheck) (newsCache st) \<Longrightarrow> fetchNews env st = fetch_fresh env st"
  by (simp add: fetchNews_def cache_fresh_def split: option.splits)

lemma fetchNews_hit:
  "newsCache st = Some c \<Longrightarrow> clock env AtCacheCheck - c_timestamp c < CACHE_DURATION \<Longrightarrow>
   fetchNews env st = (c_data c, [], st)"
  by (simp add: fetchNews_def)

lemma fetch_fresh_calls:
  "truthy (VITE_MARKETAUX_API_KEY env) \<Longrightarrow>
   fst (snd (fetch_fresh env st)) = snd (collect_articles env)"
  by (cases "VITE_MARKETAUX_API_KEY env")
     (auto simp: fetch_fresh_def getApiKey_def truthy_def Let_def split: prod.splits option.splits)

lemma fetch_fresh_no_key:
  "\<not> truthy (VITE_MARKETAUX_API_KEY env) \<Longrightarrow>
   fetch_fresh env st = (getFallbackNews (clock env AtFallback), [], st)"
  by (simp add: fetch_fresh_def getApiKey_def)

lemma fetch_fresh_state:
  "snd (snd (fetch_fresh env st)) = st \<or>
   (\<exists>c. snd (snd (fetch_fresh env st)) = store_cache env c st \<and>
        c_data c = fst (fetch_fresh env st) \<and> c_timestamp c = clock env AtCacheStore)"
  by (auto simp: fetch_fresh_def Let_def split: option.splits prod.splits)

lemma length_getFallbackNews: "length (getFallbackNews t) = 15"
  by (simp add: getFallbackNews_def)

lemma news_env_down_fields:
  "VITE_MARKETAUX_API_KEY news_env_down = Some ''key''" "provider news_env_down q = FetchThrows"
  "clock news_env_down r = 1000000000"
  by (simp_all add: news_env_down_def)

lemma news_env_keywords_down_fields:
  "VITE_MARKETAUX_API_KEY news_env_keywords_down = Some ''key''"
  "provider news_env_keywords_down QGlobal = FetchOk (JsonData (Some [tcs_article]))"
  "provider news_env_keywords_down QIndia = FetchNotOk"
  "provider news_env_keywords_down (QKeyword k) = FetchThrows"
  "clock news_env_keywords_down r = 1000000000"
  "storage_writable news_env_keywords_down = True"
  by (simp_all add: news_env_keywords_down_def)

lemma keywords_down_collect:
  "collect_articles news_env_keywords_down
     = (Some [tcs_article],
        [QGlobal, QIndia, QKeyword ''stock'', QKeyword ''market'', QKeyword ''investment'',
         QKeyword ''financial'', QKeyword ''economy''])"
  by (simp add: collect_articles_def strategy2_def strategy3_def keywords3_def fetch_data_def
      news_env_keywords_down_fields)

lemma tcs_item_relevant: "market_relevant n tcs_item"
  by (simp add: market_relevant_def Let_def tcs_item_def to_item_def relevantStocks_of_def
      tcs_article_def)

lemma keywords_down_select: "select_news news_env_keywords_down [tcs_article] = [tcs_item]"
proof -
  have recent: "ge_time (a_published_at tcs_article) (1000000000 - 3 * 24 * 60 * 60 * 1000)"
    by (simp add: ge_time_def tcs_article_def)
  show ?thesis
    using recent tcs_item_relevant
    by (simp add: select_news_def Let_def news_env_keywords_down_fields sort_items_def
        tcs_item_def [symmetric])
qed

lemma fetchNews_calls:
  assumes "truthy (VITE_MARKETAUX_API_KEY env)"
  shows "fst (snd (fetchNews env st)) = [] \<longleftrightarrow> cache_fresh (clock env AtCacheCheck) (newsCache st)"
proof (cases "cache_fresh (clock env AtCacheCheck) (newsCache st)")
  case True
  then show ?thesis
    by (auto simp: cache_fresh_def fetchNews_def split: option.splits)
next
  case False
  then have "fst (snd (fetchNews env st)) = snd (collect_articles env)"
    using assms by (simp add: fetchNews_stale fetch_fresh_calls)
  with False show ?thesis by (simp add: collect_calls_ne)
qed

lemma store_cache_fields:
  "newsCache (store_cache env c st) = Some c"
  "localStorage_newsCache st \<noteq> None \<Longrightarrow> localStorage_newsCache (store_cache env c st) \<noteq> None"
  by (simp_all add: store_cache_def)

lemma fetchNews_keeps:
  "(newsCache st \<noteq> None \<longrightarrow> newsCache (snd (snd (fetchNews env st))) \<noteq> None) \<and>
   (localStorage_newsCache st \<noteq> None \<longrightarrow>
      localStorage_newsCache (snd (snd (fetchNews env st))) \<noteq> None)"
proof (cases "cache_fresh (clock env AtCacheCheck) (newsCache st)")
  case True
  then have "snd (snd (fetchNews env st)) = st"
    by (auto simp: cache_fresh_def fetchNews_def split: option.splits)
  then show ?thesis by simp
next
  case False
  then have "fetchNews env st = fetch_fresh env st" by (rule fetchNews_stale)
  then show ?thesis
    using fetch_fresh_state [of env st] by (auto simp: store_cache_def)
qed

lemma getCachedNews_memory:
  "newsCache st = Some c \<Longrightarrow> clock env AtCacheCheck - c_timestamp c < CACHE_DURATION \<Longrightarrow>
   getCachedNews env st = (c_data c, st)"
  by (simp add: getCachedNews_def cache_fresh_def)

lemma getCachedNews_storage:
  "\<not> cache_fresh (clock env AtCacheCheck) (newsCache st) \<Longrightarrow>
   localStorage_newsCache st = Some (Stored c) \<Longrightarrow>
   clock env AtStorageCheck - c_timestamp c < CACHE_DURATION \<Longrightarrow>
   getCachedNews env st = (c_data c, st\<lparr>newsCache := Some c\<rparr>)"
  by (simp add: getCachedNews_def)

lemma getCachedNews_none:
  "\<not> cache_fresh (clock env AtCacheCheck) (newsCache st) \<Longrightarrow>
   \<not> (\<exists>c. localStorage_newsCache st = Some (Stored c) \<and>
          clock env AtStorageCheck - c_timestamp c < CACHE_DURATION) \<Longrightarrow>
   getCachedNews env st = ([], st)"
  by (auto simp: getCachedNews_def split: option.splits stored.splits)

lemma getCachedNews_keeps:
  "(newsCache st \<noteq> None \<longrightarrow> newsCache (snd (getCachedNews env st)) \<noteq> None) \<and>
   localStorage_newsCache (snd (getCachedNews env st)) = localStorage_newsCache st"
  by (auto simp: getCachedNews_def split: option.splits stored.splits)

section \<open>Authentication\<close>

text \<open>
  C1. A login request that carries a non-empty email and a non-empty password, served
  while the store answers: when a user with that email is found and the password matches
  the stored hash, the response is 200 with a token signed over the user's id, email and
  role with the server secret and the lifetime \<^verbatim>\<open>7d\<close>, together with the serialised
  user; when no user has that email, or the password does not match, the response is 401
  with the body \<^verbatim>\<open>Invalid credentials\<close>, the store is unchanged and the body has no
  token.
\<close>

theorem login_credentials:
  assumes "truthy (lb_email req)" and "truthy (lb_password req)" and "db_fault e = None"
  shows "(\<forall>u. find (\<lambda>u. u_email u = str_of (lb_email req)) (users d) = Some u \<and>
              bcrypt_compare e (str_of (lb_password req)) (u_password u) \<longrightarrow>
            fst (login e req d) = respond 200
                [(''token'', JStr (jwt_sign e
                     \<lparr>jp_id = u_id u, jp_email = u_email u, jp_role = u_role u\<rparr>
                     (secret e) ''7d'')),
                 (''user'', user_toJSON (u\<lparr>u_lastLogin := Some (now e), u_updatedAt := now e\<rparr>))])
       \<and> ((find (\<lambda>u. u_email u = str_of (lb_email req)) (users d) = None \<or>
            (\<exists>u. find (\<lambda>u. u_email u = str_of (lb_email req)) (users d) = Some u \<and>
              \<not> bcrypt_compare e (str_of (lb_password req)) (u_password u))) \<longrightarrow>
            login e req d = (respond 401 (error_body ''Invalid credentials''), d) \<and>
            field ''token'' (body (fst (login e req d))) = None)"
  using assms
  by (auto simp: login_def User_findOne_email_def User_save_def validPassword_def db_ok_no_fault
        payload_of_def Let_def respond_def error_body_def field_def)

theorem login_credentials_witness:
  "fst (login demo_env \<lparr>lb_email = Some ''asha@example.in'', lb_password = Some ''correct horse''\<rparr> demo_db)
     = respond 200
         [(''token'', JStr ''asha@example.in|s3cret|7d''),
          (''user'', user_toJSON (asha\<lparr>u_lastLogin := Some 5000, u_updatedAt := 5000\<rparr>))]
   \<and> login demo_env \<lparr>lb_email = Some ''asha@example.in'', lb_password = Some ''guess''\<rparr> demo_db
     = (respond 401 (error_body ''Invalid credentials''), demo_db)"
  using login_credentials [of "\<lparr>lb_email = Some ''asha@example.in'', lb_password = Some ''correct horse''\<rparr>" demo_env demo_db]
    login_credentials [of "\<lparr>lb_email = Some ''asha@example.in'', lb_password = Some ''guess''\<rparr>" demo_env demo_db]
  by (simp add: demo truthy_def str_of_def secret_def)

text \<open>
  C2. A route behind the bearer middleware: without a token (no header, or a header
  whose second space-separated part is missing or empty) the response is 401 whatever
  the handler is; when verification throws \<open>TokenExpiredError\<close> the response is 401
  \<^verbatim>\<open>Token expired\<close>; when it throws anything else the response is 403
  \<^verbatim>\<open>Invalid token\<close>; when it returns a payload the response is the handler's. The
  middleware calls \<^verbatim>\<open>next()\<close> exactly when a token is present and verification
  succeeds.
\<close>

theorem authenticateToken_cases:
  "(\<not> truthy (extract_token h) \<longrightarrow>
      protected e handler h d = (respond 401 (error_body ''Authentication required''), d))
   \<and> (truthy (extract_token h) \<and>
        jwt_verify e (str_of (extract_token h)) (secret e) = TokenExpiredError \<longrightarrow>
      protected e handler h d = (respond 401 (error_body ''Token expired''), d))
   \<and> (truthy (extract_token h) \<and>
        jwt_verify e (str_of (extract_token h)) (secret e) \<in> {JsonWebTokenError, NotBeforeError} \<longrightarrow>
      protected e handler h d = (respond 403 (error_body ''Invalid token''), d))
   \<and> (\<forall>user. truthy (extract_token h) \<and>
        jwt_verify e (str_of (extract_token h)) (secret e) = Verified user \<longrightarrow>
      protected e handler h d = handler user d)
   \<and> ((\<exists>user. authenticateToken e h = Next user) \<longleftrightarrow>
        truthy (extract_token h) \<and>
        (\<exists>user. jwt_verify e (str_of (extract_token h)) (secret e) = Verified user))"
  by (auto simp: protected_def authenticateToken_def Let_def split: verify_result.splits)

theorem authenticateToken_cases_witness:
  "protected demo_env (profile demo_env) None demo_db
     = (respond 401 (error_body ''Authentication required''), demo_db)
   \<and> protected demo_env (profile demo_env) (Some ''Bearer old'') demo_db
     = (respond 401 (error_body ''Token expired''), demo_db)
   \<and> protected demo_env (profile demo_env) (Some ''Bearer forged'') demo_db
     = (respond 403 (error_body ''Invalid token''), demo_db)
   \<and> protected demo_env (profile demo_env) (Some ''Bearer good'') demo_db
     = profile demo_env demo_payload demo_db"
  using authenticateToken_cases [of None demo_env "profile demo_env" demo_db]
    authenticateToken_cases [of "Some ''Bearer old''" demo_env "profile demo_env" demo_db]
    authenticateToken_cases [of "Some ''Bearer forged''" demo_env "profile demo_env" demo_db]
    authenticateToken_cases [of "Some ''Bearer good''" demo_env "profile demo_env" demo_db]
  by (simp add: demo truthy_def str_of_def secret_def extract_token_def nth_opt_def)

section \<open>Missing fields and missing resources\<close>

text \<open>
  C3. The signup handler answers 400 when name, email or password is absent or empty;
  the handler of the portfolio-add route answers 400 when the symbol is absent or empty
  or the quantity is absent; and the delete handler, reached by an authenticated
  request for a symbol of which the user holds no row (so that \<open>Portfolio_destroy\<close>
  removes zero rows), answers 404 \<^verbatim>\<open>Stock not found in portfolio\<close> and leaves the
  whole store as it was. The signup route is its handler, and the two portfolio routes
  are their handlers for every request whose token the middleware verifies.
\<close>

theorem missing_fields:
  "(\<not> truthy (sb_name sreq) \<or> \<not> truthy (sb_email sreq) \<or> \<not> truthy (sb_password sreq) \<longrightarrow>
      signup e sreq d = (respond 400 (error_body ''Missing required fields''), d))
   \<and> (\<not> truthy (pb_symbol preq) \<or> pb_quantity preq = None \<longrightarrow>
      post_portfolio e preq req_user d
        = (respond 400 (error_body ''Symbol and quantity are required''), d))
   \<and> (symbol \<noteq> [] \<and> db_ok e 0 \<and>
        \<not> list_ex (holding (jp_id req_user) (toUpperCase symbol)) (portfolios d) \<longrightarrow>
      Portfolio_destroy e 0 (jp_id req_user) (toUpperCase symbol) d = Inr (0, d) \<and>
      delete_portfolio e symbol req_user d
        = (respond 404 (error_body ''Stock not found in portfolio''), d))
   \<and> (\<forall>d'. symbol \<noteq> [] \<and>
        Portfolio_destroy e 0 (jp_id req_user) (toUpperCase symbol) d = Inr (0, d') \<longrightarrow>
      d' = d \<and>
      delete_portfolio e symbol req_user d
        = (respond 404 (error_body ''Stock not found in portfolio''), d))
   \<and> handle e (PostSignup sreq) d = signup e sreq d
   \<and> (authenticateToken e auth = Next req_user \<longrightarrow>
      handle e (PostPortfolio auth preq) d = post_portfolio e preq req_user d \<and>
      handle e (DeletePortfolio auth symbol) d = delete_portfolio e symbol req_user d)"
proof (intro conjI impI allI)
  show "handle e (PostSignup sreq) d = signup e sreq d" by simp
next
  assume "authenticateToken e auth = Next req_user"
  then show "handle e (PostPortfolio auth preq) d = post_portfolio e preq req_user d"
    "handle e (DeletePortfolio auth symbol) d = delete_portfolio e symbol req_user d"
    by (simp_all add: protected_def)
next
  assume "\<not> truthy (sb_name sreq) \<or> \<not> truthy (sb_email sreq) \<or> \<not> truthy (sb_password sreq)"
  then show "signup e sreq d = (respond 400 (error_body ''Missing required fields''), d)"
    by (simp add: signup_def)
next
  assume "\<not> truthy (pb_symbol preq) \<or> pb_quantity preq = None"
  then show "post_portfolio e preq req_user d
        = (respond 400 (error_body ''Symbol and quantity are required''), d)"
    by (auto simp: post_portfolio_def split: option.splits)
next
  assume a: "symbol \<noteq> [] \<and> db_ok e 0 \<and>
        \<not> list_ex (holding (jp_id req_user) (toUpperCase symbol)) (portfolios d)"
  then show "Portfolio_destroy e 0 (jp_id req_user) (toUpperCase symbol) d = Inr (0, d)"
    by (simp add: destroy_absent)
  with a show "delete_portfolio e symbol req_user d
        = (respond 404 (error_body ''Stock not found in portfolio''), d)"
    by (simp add: delete_portfolio_def)
next
  fix d'
  assume a: "symbol \<noteq> [] \<and>
        Portfolio_destroy e 0 (jp_id req_user) (toUpperCase symbol) d = Inr (0, d')"
  then show "d' = d" by (auto dest: destroy_zero)
  with a show "delete_portfolio e symbol req_user d
        = (respond 404 (error_body ''Stock not found in portfolio''), d)"
    by (simp add: delete_portfolio_def)
qed

theorem missing_fields_witness:
  "signup demo_env signup_no_email demo_db
     = (respond 400 (error_body ''Missing required fields''), demo_db)
   \<and> post_portfolio demo_env add_no_quantity demo_payload demo_db
     = (respond 400 (error_body ''Symbol and quantity are required''), demo_db)
   \<and> authenticateToken demo_env (Some ''Bearer good'') = Next demo_payload
   \<and> handle demo_env (PostPortfolio (Some ''Bearer good'') add_no_quantity) demo_db
     = (respond 400 (error_body ''Symbol and quantity are required''), demo_db)
   \<and> Portfolio_destroy demo_env 0 (jp_id demo_payload) (toUpperCase ''infy'') demo_db
     = Inr (0, demo_db)
   \<and> handle demo_env (DeletePortfolio (Some ''Bearer good'') ''infy'') demo_db
     = (respond 404 (error_body ''Stock not found in portfolio''), demo_db)"
proof -
  have s: "\<not> truthy (sb_name signup_no_email) \<or> \<not> truthy (sb_email signup_no_email) \<or>
      \<not> truthy (sb_password signup_no_email)"
    by (simp add: signup_no_email_def truthy_def)
  have p: "\<not> truthy (pb_symbol add_no_quantity) \<or> pb_quantity add_no_quantity = None"
    by (simp add: add_no_quantity_def)
  have a: "authenticateToken demo_env (Some ''Bearer good'') = Next demo_payload"
    by (simp add: authenticateToken_def extract_token_def nth_opt_def truthy_def str_of_def
        demo_env_def)
  have absent: "''infy'' \<noteq> [] \<and> db_ok demo_env 0 \<and>
      \<not> list_ex (holding (jp_id demo_payload) (toUpperCase ''infy'')) (portfolios demo_db)"
    by (simp add: db_ok_def demo_env_fields demo_db_fields holding_def asha_tcs_def up)
  note t = missing_fields [where auth = "Some ''Bearer good''" and sreq = signup_no_email
      and preq = add_no_quantity and e = demo_env and d = demo_db and req_user = demo_payload
      and symbol = "''infy''"]
  from t s have r1: "signup demo_env signup_no_email demo_db
     = (respond 400 (error_body ''Missing required fields''), demo_db)"
    by blast
  from t p have r2: "post_portfolio demo_env add_no_quantity demo_payload demo_db
     = (respond 400 (error_body ''Symbol and quantity are required''), demo_db)"
    by blast
  from t a have r3: "handle demo_env (PostPortfolio (Some ''Bearer good'') add_no_quantity) demo_db
       = post_portfolio demo_env add_no_quantity demo_payload demo_db"
    and r4: "handle demo_env (DeletePortfolio (Some ''Bearer good'') ''infy'') demo_db
       = delete_portfolio demo_env ''infy'' demo_payload demo_db"
    by blast+
  from t absent have r5: "Portfolio_destroy demo_env 0 (jp_id demo_payload) (toUpperCase ''infy'') demo_db
       = Inr (0, demo_db)"
    and r6: "delete_portfolio demo_env ''infy'' demo_payload demo_db
       = (respond 404 (error_body ''Stock not found in portfolio''), demo_db)"
    by blast+
  show ?thesis using r1 r2 a r3 r4 r5 r6 by simp
qed

section \<open>Invariants of the portfolio table\<close>

text \<open>
  C5. The pair (userId, symbol) identifies a holding, and every request preserves this:
  when the primary keys are sound and no two rows share the pair, the same holds after
  any request, so it holds in every store reached from the empty one. A portfolio-add for
  a symbol the user already holds never changes the number of rows; with values that
  pass validation and a store that answers it is answered 200 and rewrites that one row
  in place. For a symbol the user does not hold yet it is answered 201 and appends
  exactly one row for the pair.
\<close>

theorem holdings_unique:
  "(primary_keys d \<and> unique_holdings d \<longrightarrow>
      primary_keys (snd (handle e r d)) \<and> unique_holdings (snd (handle e r d)))
   \<and> unique_holdings (serve reqs empty_db)
   \<and> (list_ex (holding (jp_id u) (toUpperCase (str_of (pb_symbol req)))) (portfolios d) \<longrightarrow>
      length (portfolios (snd (post_portfolio e req u d))) = length (portfolios d))
   \<and> (truthy (pb_symbol req) \<and> pb_quantity req = Some q \<and> db_fault e = None \<and>
       validate_quantity q = [] \<and> validate_purchasePrice (pb_purchasePrice req) = [] \<and>
       list_ex (holding (jp_id u) (toUpperCase (str_of (pb_symbol req)))) (portfolios d) \<longrightarrow>
      status (fst (post_portfolio e req u d)) = 200 \<and>
      length (portfolios (snd (post_portfolio e req u d))) = length (portfolios d) \<and>
      (\<exists>item row.
          find (holding (jp_id u) (toUpperCase (str_of (pb_symbol req)))) (portfolios d)
            = Some item \<and>
          p_id row = p_id item \<and> p_userId row = p_userId item \<and>
          p_symbol row = p_symbol item \<and> p_quantity row = q \<and>
          portfolios (snd (post_portfolio e req u d))
            = map (\<lambda>r. if p_id r = p_id item then row else r) (portfolios d)))
   \<and> (truthy (pb_symbol req) \<and> pb_quantity req = Some q \<and> db_fault e = None \<and>
       validate_symbol (toUpperCase (str_of (pb_symbol req))) = [] \<and>
       validate_quantity q = [] \<and> validate_purchasePrice (pb_purchasePrice req) = [] \<and>
       list_ex (\<lambda>x. u_id x = jp_id u) (users d) \<and>
       \<not> list_ex (holding (jp_id u) (toUpperCase (str_of (pb_symbol req)))) (portfolios d) \<longrightarrow>
      status (fst (post_portfolio e req u d)) = 201 \<and>
      (\<exists>row. p_userId row = jp_id u \<and>
          p_symbol row = toUpperCase (str_of (pb_symbol req)) \<and> p_quantity row = q \<and>
          portfolios (snd (post_portfolio e req u d)) = portfolios d @ [row]))"
proof (intro conjI impI)
  assume "primary_keys d \<and> unique_holdings d"
  then show "primary_keys (snd (handle e r d))" "unique_holdings (snd (handle e r d))"
    by (simp_all add: primary_keys_step unique_holdings_step)
next
  show "unique_holdings (serve reqs empty_db)"
    using serve_keys [OF empty_db_keys] by simp
next
  assume "list_ex (holding (jp_id u) (toUpperCase (str_of (pb_symbol req)))) (portfolios d)"
  then show "length (portfolios (snd (post_portfolio e req u d))) = length (portfolios d)"
    by (rule add_held_keeps_rows)
next
  assume a: "truthy (pb_symbol req) \<and> pb_quantity req = Some q \<and> db_fault e = None \<and>
       validate_quantity q = [] \<and> validate_purchasePrice (pb_purchasePrice req) = [] \<and>
       list_ex (holding (jp_id u) (toUpperCase (str_of (pb_symbol req)))) (portfolios d)"
  then obtain item where f:
    "find (holding (jp_id u) (toUpperCase (str_of (pb_symbol req)))) (portfolios d) = Some item"
    by (auto dest: list_ex_find)
  from a have h: "truthy (pb_symbol req)" "pb_quantity req = Some q" "db_fault e = None"
    "validate_quantity q = []" "validate_purchasePrice (pb_purchasePrice req) = []"
    by simp_all
  obtain row where row:
    "p_id row = p_id item" "p_userId row = p_userId item" "p_symbol row = p_symbol item"
    "p_quantity row = q"
    "post_portfolio e req u d =
       (respond 200
          [(''success'', JBool True), (''portfolioItem'', portfolio_toJSON row),
           (''message'', JStr ''Stock updated in portfolio'')],
        d\<lparr>portfolios := map (\<lambda>r. if p_id r = p_id item then row else r) (portfolios d)\<rparr>)"
    by (rule add_existing [OF h(1) h(2) h(3) f h(4) h(5)])
  from row(5) show "status (fst (post_portfolio e req u d)) = 200"
    by (simp add: respond_def)
  from row(5) show "length (portfolios (snd (post_portfolio e req u d))) = length (portfolios d)"
    by simp
  from f row show "\<exists>item row.
          find (holding (jp_id u) (toUpperCase (str_of (pb_symbol req)))) (portfolios d)
            = Some item \<and>
          p_id row = p_id item \<and> p_userId row = p_userId item \<and>
          p_symbol row = p_symbol item \<and> p_quantity row = q \<and>
          portfolios (snd (post_portfolio e req u d))
            = map (\<lambda>r. if p_id r = p_id item then row else r) (portfolios d)"
    by (intro exI [of _ item] exI [of _ row]) simp
next
  assume a: "truthy (pb_symbol req) \<and> pb_quantity req = Some q \<and> db_fault e = None \<and>
       validate_symbol (toUpperCase (str_of (pb_symbol req))) = [] \<and>
       validate_quantity q = [] \<and> validate_purchasePrice (pb_purchasePrice req) = [] \<and>
       list_ex (\<lambda>x. u_id x = jp_id u) (users d) \<and>
       \<not> list_ex (holding (jp_id u) (toUpperCase (str_of (pb_symbol req)))) (portfolios d)"
  then have f:
    "find (holding (jp_id u) (toUpperCase (str_of (pb_symbol req)))) (portfolios d) = None"
    by (auto simp: find_None_iff list_ex_iff)
  from a have ok: "db_ok e 0" by (simp add: db_ok_no_fault)
  from a have h: "truthy (pb_symbol req)" "pb_quantity req = Some q"
    "list_ex (\<lambda>x. u_id x = jp_id u) (users d)"
    "validate_symbol (toUpperCase (str_of (pb_symbol req))) = []"
    "validate_quantity q = []" "validate_purchasePrice (pb_purchasePrice req) = []"
    by simp_all
  obtain row where row:
    "p_userId row = jp_id u" "p_symbol row = toUpperCase (str_of (pb_symbol req))"
    "p_quantity row = q"
    "post_portfolio e req u d =
       (respond 201
          [(''success'', JBool True), (''portfolioItem'', portfolio_toJSON row),
           (''message'', JStr ''Stock added to portfolio'')],
        d\<lparr>portfolios := portfolios d @ [row],
          next_portfolio_id := Suc (next_portfolio_id d)\<rparr>)"
    by (rule add_new [OF h(1) h(2) ok f h(3) h(4) h(5) h(6)])
  from row(4) show "status (fst (post_portfolio e req u d)) = 201"
    by (simp add: respond_def)
  from row show "\<exists>row. p_userId row = jp_id u \<and>
          p_symbol row = toUpperCase (str_of (pb_symbol req)) \<and> p_quantity row = q \<and>
          portfolios (snd (post_portfolio e req u d)) = portfolios d @ [row]"
    by (intro exI [of _ row]) simp
qed

theorem holdings_unique_witness:
  "primary_keys demo_db \<and> unique_holdings demo_db
   \<and> unique_holdings (snd (handle demo_env (PostPortfolio (Some ''Bearer good'') add_tcs) demo_db))
   \<and> list_ex (holding (jp_id demo_payload) (toUpperCase (str_of (pb_symbol add_tcs))))
        (portfolios demo_db)
   \<and> status (fst (post_portfolio demo_env add_tcs demo_payload demo_db)) = 200
   \<and> length (portfolios (snd (post_portfolio demo_env add_tcs demo_payload demo_db)))
        = length (portfolios demo_db)
   \<and> \<not> list_ex (holding (jp_id demo_payload) (toUpperCase (str_of (pb_symbol add_infy))))
        (portfolios demo_db)
   \<and> status (fst (post_portfolio demo_env add_infy demo_payload demo_db)) = 201"
proof -
  have tcs: "truthy (pb_symbol add_tcs) \<and> pb_quantity add_tcs = Some 12 \<and>
      db_fault demo_env = None \<and> validate_quantity 12 = [] \<and>
      validate_purchasePrice (pb_purchasePrice add_tcs) = [] \<and>
      list_ex (holding (jp_id demo_payload) (toUpperCase (str_of (pb_symbol add_tcs))))
        (portfolios demo_db)"
    by (simp add: add_tcs_def truthy_def str_of_def demo_env_fields demo_db_fields
        validate_quantity_numeral validate_purchasePrice_def up holding_def
        demo_payload_def asha_tcs_def)
  have infy: "truthy (pb_symbol add_infy) \<and> pb_quantity add_infy = Some 3 \<and>
      db_fault demo_env = None \<and>
      validate_symbol (toUpperCase (str_of (pb_symbol add_infy))) = [] \<and>
      validate_quantity 3 = [] \<and> validate_purchasePrice (pb_purchasePrice add_infy) = [] \<and>
      list_ex (\<lambda>x. u_id x = jp_id demo_payload) (users demo_db) \<and>
      \<not> list_ex (holding (jp_id demo_payload) (toUpperCase (str_of (pb_symbol add_infy))))
        (portfolios demo_db)"
    by (simp add: add_infy_def truthy_def str_of_def demo_env_fields demo_db_fields
        validate_quantity_numeral validate_purchasePrice_def validate_symbol_def
        check_def notEmpty_def whitespace_def len_def isUppercase_def min_value_def
        up holding_def demo_payload_def asha_tcs_def asha_def)
  note a = holdings_unique [where d = demo_db and e = demo_env and u = demo_payload
      and r = "PostPortfolio (Some ''Bearer good'') add_tcs" and req = add_tcs and q = 12]
  note b = holdings_unique [where d = demo_db and e = demo_env and u = demo_payload
      and req = add_infy and q = 3]
  from a demo_keys have "unique_holdings
      (snd (handle demo_env (PostPortfolio (Some ''Bearer good'') add_tcs) demo_db))"
    by blast
  moreover from a tcs have "status (fst (post_portfolio demo_env add_tcs demo_payload demo_db)) = 200
     \<and> length (portfolios (snd (post_portfolio demo_env add_tcs demo_payload demo_db)))
        = length (portfolios demo_db)"
    by blast
  moreover from b infy have "status (fst (post_portfolio demo_env add_infy demo_payload demo_db)) = 201"
    by blast
  ultimately show ?thesis using demo_keys tcs infy by blast
qed

text \<open>
  C6. Declarative validation keeps the stored rows within bounds. A portfolio-add that
  reaches the store while every stored row is within bounds, and whose quantity is
  negative or not an integer, whose purchase price is negative, or whose symbol has more
  than 20 characters, is answered 400 with the body \<^verbatim>\<open>Validation error\<close> and changes
  nothing; an empty symbol is answered 400 before the model is reached. A signup whose
  name has fewer than 2 or more than 100 characters, or whose password has fewer than 8,
  is answered 400 in the same way. Hence, with password hashes of at least 8 characters
  (bcrypt's have 60), every request maps a store whose rows are within bounds to such a
  store, and every store reached from the empty one is within bounds: quantity a
  non-negative integer, purchase price absent or non-negative, symbol of 1 to 20
  characters, name of 2 to 100 characters, stored password of at least 8.
\<close>

theorem validation_bounds:
  "(rows_in_bounds d \<and> db_ok e 0 \<and> truthy (pb_symbol req) \<and> pb_quantity req = Some q \<and>
      (q < 0 \<or> \<not> isInt q \<or> (\<exists>v. pb_purchasePrice req = Some v \<and> v < 0) \<or>
       20 < length (str_of (pb_symbol req))) \<longrightarrow>
      status (fst (post_portfolio e req u d)) = 400 \<and>
      field ''error'' (body (fst (post_portfolio e req u d))) = Some (JStr ''Validation error'') \<and>
      snd (post_portfolio e req u d) = d)
   \<and> (length (str_of (pb_symbol req)) < 1 \<longrightarrow>
      status (fst (post_portfolio e req u d)) = 400 \<and> snd (post_portfolio e req u d) = d)
   \<and> (truthy (sb_name sreq) \<and> truthy (sb_email sreq) \<and> truthy (sb_password sreq) \<and>
      (length (str_of (sb_name sreq)) < 2 \<or> 100 < length (str_of (sb_name sreq)) \<or>
       length (str_of (sb_password sreq)) < 8) \<longrightarrow>
      status (fst (signup e sreq d)) = 400 \<and>
      field ''error'' (body (fst (signup e sreq d))) = Some (JStr ''Validation error'') \<and>
      snd (signup e sreq d) = d)
   \<and> ((\<forall>p. 8 \<le> length (bcrypt_hash e p 12)) \<and> rows_in_bounds d \<longrightarrow>
      rows_in_bounds (snd (handle e r d)))
   \<and> (list_all (\<lambda>x. \<forall>p. 8 \<le> length (bcrypt_hash (fst x) p 12)) reqs \<longrightarrow>
      rows_in_bounds (serve reqs empty_db))"
proof (intro conjI impI)
  assume a: "rows_in_bounds d \<and> db_ok e 0 \<and> truthy (pb_symbol req) \<and> pb_quantity req = Some q \<and>
      (q < 0 \<or> \<not> isInt q \<or> (\<exists>v. pb_purchasePrice req = Some v \<and> v < 0) \<or>
       20 < length (str_of (pb_symbol req)))"
  then have h: "rows_in_bounds d" "db_ok e 0" "truthy (pb_symbol req)" "pb_quantity req = Some q"
    "q < 0 \<or> \<not> isInt q \<or> (\<exists>v. pb_purchasePrice req = Some v \<and> v < 0) \<or>
       20 < length (str_of (pb_symbol req))"
    by simp_all
  obtain messages where m: "post_portfolio e req u d = (validation_response messages, d)"
    by (rule post_portfolio_rejects [OF h])
  from m show "status (fst (post_portfolio e req u d)) = 400"
    "field ''error'' (body (fst (post_portfolio e req u d))) = Some (JStr ''Validation error'')"
    "snd (post_portfolio e req u d) = d"
    by (simp_all add: validation_response_status)
next
  assume "length (str_of (pb_symbol req)) < 1"
  then have "\<not> truthy (pb_symbol req)"
    by (auto simp: truthy_def str_of_def split: option.splits)
  then have "post_portfolio e req u d
      = (respond 400 (error_body ''Symbol and quantity are required''), d)"
    by (simp add: post_portfolio_def split: option.splits)
  then show "status (fst (post_portfolio e req u d)) = 400" "snd (post_portfolio e req u d) = d"
    by (simp_all add: respond_def)
next
  assume a: "truthy (sb_name sreq) \<and> truthy (sb_email sreq) \<and> truthy (sb_password sreq) \<and>
      (length (str_of (sb_name sreq)) < 2 \<or> 100 < length (str_of (sb_name sreq)) \<or>
       length (str_of (sb_password sreq)) < 8)"
  then have h: "truthy (sb_name sreq)" "truthy (sb_email sreq)" "truthy (sb_password sreq)"
    "length (str_of (sb_name sreq)) < 2 \<or> 100 < length (str_of (sb_name sreq)) \<or>
       length (str_of (sb_password sreq)) < 8"
    by simp_all
  obtain messages where m: "signup e sreq d = (validation_response messages, d)"
    by (rule signup_rejects [OF h])
  from m show "status (fst (signup e sreq d)) = 400"
    "field ''error'' (body (fst (signup e sreq d))) = Some (JStr ''Validation error'')"
    "snd (signup e sreq d) = d"
    by (simp_all add: validation_response_status)
next
  assume "(\<forall>p. 8 \<le> length (bcrypt_hash e p 12)) \<and> rows_in_bounds d"
  then show "rows_in_bounds (snd (handle e r d))"
    by (simp add: rows_in_bounds_step)
next
  assume "list_all (\<lambda>x. \<forall>p. 8 \<le> length (bcrypt_hash (fst x) p 12)) reqs"
  then show "rows_in_bounds (serve reqs empty_db)"
    by (simp add: serve_in_bounds empty_db_in_bounds)
qed

theorem validation_bounds_witness:
  "rows_in_bounds demo_db
   \<and> status (fst (post_portfolio demo_env add_negative demo_payload demo_db)) = 400
   \<and> snd (post_portfolio demo_env add_negative demo_payload demo_db) = demo_db
   \<and> status (fst (signup demo_env signup_short demo_db)) = 400
   \<and> snd (signup demo_env signup_short demo_db) = demo_db
   \<and> rows_in_bounds (snd (handle demo_env (PostSignup signup_ravi) demo_db))
   \<and> rows_in_bounds (serve [(demo_env, PostSignup signup_ravi)] empty_db)
   \<and> status (fst (post_portfolio demo_env add_empty_symbol demo_payload demo_db)) = 400"
proof -
  have empty: "length (str_of (pb_symbol add_empty_symbol)) < 1"
    by (simp add: add_empty_symbol_def str_of_def)
  note t2 = validation_bounds [where d = demo_db and e = demo_env and u = demo_payload
      and req = add_empty_symbol]
  from t2 empty have r5:
    "status (fst (post_portfolio demo_env add_empty_symbol demo_payload demo_db)) = 400"
    by blast
  have neg: "rows_in_bounds demo_db \<and> db_ok demo_env 0 \<and> truthy (pb_symbol add_negative) \<and>
      pb_quantity add_negative = Some (- 1) \<and>
      ((- 1 :: rat) < 0 \<or> \<not> isInt (- 1) \<or>
       (\<exists>v. pb_purchasePrice add_negative = Some v \<and> v < 0) \<or>
       20 < length (str_of (pb_symbol add_negative)))"
    by (simp add: demo_in_bounds db_ok_def demo_env_fields add_negative_def truthy_def)
  have short: "truthy (sb_name signup_short) \<and> truthy (sb_email signup_short) \<and>
      truthy (sb_password signup_short) \<and>
      (length (str_of (sb_name signup_short)) < 2 \<or>
       100 < length (str_of (sb_name signup_short)) \<or>
       length (str_of (sb_password signup_short)) < 8)"
    by (simp add: signup_short_def truthy_def str_of_def)
  have step: "(\<forall>p. 8 \<le> length (bcrypt_hash demo_env p 12)) \<and> rows_in_bounds demo_db"
    by (simp add: demo_hash_length demo_in_bounds)
  have run: "list_all (\<lambda>x. \<forall>p. 8 \<le> length (bcrypt_hash (fst x) p 12))
      [(demo_env, PostSignup signup_ravi)]"
    by (simp add: demo_hash_length)
  note t = validation_bounds [where d = demo_db and e = demo_env and u = demo_payload
      and req = add_negative and q = "- 1" and sreq = signup_short
      and r = "PostSignup signup_ravi" and reqs = "[(demo_env, PostSignup signup_ravi)]"]
  from t neg have "status (fst (post_portfolio demo_env add_negative demo_payload demo_db)) = 400
     \<and> snd (post_portfolio demo_env add_negative demo_payload demo_db) = demo_db"
    by blast
  moreover from t short have "status (fst (signup demo_env signup_short demo_db)) = 400
     \<and> snd (signup demo_env signup_short demo_db) = demo_db"
    by blast
  moreover from t step have "rows_in_bounds (snd (handle demo_env (PostSignup signup_ravi) demo_db))"
    by blast
  moreover from t run have "rows_in_bounds (serve [(demo_env, PostSignup signup_ravi)] empty_db)"
    by blast
  ultimately show ?thesis using demo_in_bounds r5 by blast
qed

text \<open>
  C10. Portfolio symbols are normalised to upper case at every boundary. The
  \<^verbatim>\<open>beforeValidate\<close> hook stores the upper-case form; every request keeps all stored
  symbols equal to their own upper-case form, so this holds in every store reached from
  the empty one; and the add and delete handlers give the same response and the same
  store for two symbols with the same upper-case form, such as \<^verbatim>\<open>tcs\<close> and \<^verbatim>\<open>TCS\<close>.
\<close>

theorem symbols_normalised:
  "p_symbol (beforeValidate row) = toUpperCase (p_symbol row)
   \<and> (symbols_uppercase d \<longrightarrow> symbols_uppercase (snd (handle e r d)))
   \<and> symbols_uppercase (serve reqs empty_db)
   \<and> (toUpperCase s1 = toUpperCase s2 \<longrightarrow>
        delete_portfolio e s1 u d = delete_portfolio e s2 u d \<and>
        post_portfolio e (req\<lparr>pb_symbol := Some s1\<rparr>) u d
          = post_portfolio e (req\<lparr>pb_symbol := Some s2\<rparr>) u d)"
proof (intro conjI impI)
  show "p_symbol (beforeValidate row) = toUpperCase (p_symbol row)"
    by (rule beforeValidate_fields)
next
  assume "symbols_uppercase d"
  then show "symbols_uppercase (snd (handle e r d))" by (rule symbols_uppercase_step)
next
  show "symbols_uppercase (serve reqs empty_db)"
    by (rule serve_uppercase [OF empty_db_uppercase])
next
  assume eq: "toUpperCase s1 = toUpperCase s2"
  then have nil: "s1 = [] \<longleftrightarrow> s2 = []"
    by (metis toUpperCase_Nil)
  show "delete_portfolio e s1 u d = delete_portfolio e s2 u d"
    using eq nil by (simp add: delete_portfolio_def)
  show "post_portfolio e (req\<lparr>pb_symbol := Some s1\<rparr>) u d
          = post_portfolio e (req\<lparr>pb_symbol := Some s2\<rparr>) u d"
    using eq nil by (intro post_portfolio_same) (simp_all add: truthy_def str_of_def)
qed

theorem symbols_normalised_witness:
  "toUpperCase ''tcs'' = toUpperCase ''TCS''
   \<and> delete_portfolio demo_env ''tcs'' demo_payload demo_db
       = delete_portfolio demo_env ''TCS'' demo_payload demo_db
   \<and> post_portfolio demo_env (add_tcs\<lparr>pb_symbol := Some ''tcs''\<rparr>) demo_payload demo_db
       = post_portfolio demo_env (add_tcs\<lparr>pb_symbol := Some ''TCS''\<rparr>) demo_payload demo_db
   \<and> symbols_uppercase demo_db
   \<and> symbols_uppercase (snd (handle demo_env (PostPortfolio (Some ''Bearer good'') add_infy) demo_db))"
proof -
  have eq: "toUpperCase ''tcs'' = toUpperCase ''TCS''" by (simp add: up)
  note t = symbols_normalised [where d = demo_db and e = demo_env and u = demo_payload
      and ?s1.0 = "''tcs''" and ?s2.0 = "''TCS''" and req = add_tcs
      and r = "PostPortfolio (Some ''Bearer good'') add_infy"]
  from t eq have "delete_portfolio demo_env ''tcs'' demo_payload demo_db
       = delete_portfolio demo_env ''TCS'' demo_payload demo_db
   \<and> post_portfolio demo_env (add_tcs\<lparr>pb_symbol := Some ''tcs''\<rparr>) demo_payload demo_db
       = post_portfolio demo_env (add_tcs\<lparr>pb_symbol := Some ''TCS''\<rparr>) demo_payload demo_db"
    by blast
  moreover from t demo_uppercase have "symbols_uppercase
      (snd (handle demo_env (PostPortfolio (Some ''Bearer good'') add_infy) demo_db))"
    by blast
  ultimately show ?thesis using eq demo_uppercase by blast
qed

section \<open>Credential secrets and the responses\<close>

text \<open>
  C9. \<open>user_toJSON\<close> removes \<^verbatim>\<open>password\<close>, \<^verbatim>\<open>passwordResetToken\<close> and
  \<^verbatim>\<open>passwordResetExpires\<close>, so no serialised user has these fields and two user records
  that differ only in them serialise identically. For two stores whose user records
  differ only in these fields, the profile responses are identical, the login responses
  are identical whenever they carry the same status, and the signup responses (for
  requests with the same name and email) are identical whenever both are accepted.
  Whether a login is accepted is decided by comparing the submitted password with the
  stored hash, so the status of a login does depend on the hash.
\<close>

theorem secrets_not_serialised:
  "field ''password'' (user_toJSON a) = None
   \<and> field ''passwordResetToken'' (user_toJSON a) = None
   \<and> field ''passwordResetExpires'' (user_toJSON a) = None
   \<and> (same_public a b \<longrightarrow> user_toJSON a = user_toJSON b)
   \<and> (same_public_db d1 d2 \<longrightarrow> fst (profile e u d1) = fst (profile e u d2))
   \<and> (same_public_db d1 d2 \<and>
       status (fst (login e req d1)) = status (fst (login e req d2)) \<longrightarrow>
      fst (login e req d1) = fst (login e req d2))
   \<and> (same_public_db d1 d2 \<and> sb_name r1 = sb_name r2 \<and> sb_email r1 = sb_email r2 \<and>
       status (fst (signup e r1 d1)) = 201 \<and> status (fst (signup e r2 d2)) = 201 \<longrightarrow>
      fst (signup e r1 d1) = fst (signup e r2 d2))"
proof (intro conjI impI)
  show "field ''password'' (user_toJSON a) = None"
    "field ''passwordResetToken'' (user_toJSON a) = None"
    "field ''passwordResetExpires'' (user_toJSON a) = None"
    by (simp_all add: user_toJSON_public field_def)
next
  assume "same_public a b"
  then show "user_toJSON a = user_toJSON b" by (rule same_public_toJSON)
next
  assume "same_public_db d1 d2"
  then show "fst (profile e u d1) = fst (profile e u d2)" by (rule profile_public)
next
  assume "same_public_db d1 d2 \<and>
       status (fst (login e req d1)) = status (fst (login e req d2))"
  then show "fst (login e req d1) = fst (login e req d2)" by (simp add: login_public)
next
  assume "same_public_db d1 d2 \<and> sb_name r1 = sb_name r2 \<and> sb_email r1 = sb_email r2 \<and>
       status (fst (signup e r1 d1)) = 201 \<and> status (fst (signup e r2 d2)) = 201"
  then show "fst (signup e r1 d1) = fst (signup e r2 d2)" by (simp add: signup_public)
qed

theorem secrets_not_serialised_witness:
  "same_public asha asha_rehashed \<and> same_public_db demo_db demo_db_rehashed
   \<and> same_public_db demo_db demo_db_reset
   \<and> user_toJSON asha = user_toJSON asha_rehashed
   \<and> fst (profile demo_env demo_payload demo_db)
       = fst (profile demo_env demo_payload demo_db_rehashed)
   \<and> status (fst (login demo_env login_asha demo_db)) = 200
   \<and> fst (login demo_env login_asha demo_db) = fst (login demo_env login_asha demo_db_reset)
   \<and> status (fst (signup demo_env signup_ravi demo_db)) = 201
   \<and> fst (signup demo_env signup_ravi demo_db)
       = fst (signup demo_env signup_ravi_other demo_db_rehashed)"
proof -
  note t = secrets_not_serialised [where a = asha and b = asha_rehashed and ?d1.0 = demo_db
      and ?d2.0 = demo_db_rehashed and e = demo_env and u = demo_payload
      and ?r1.0 = signup_ravi and ?r2.0 = signup_ravi_other]
  note t' = secrets_not_serialised [where ?d1.0 = demo_db and ?d2.0 = demo_db_reset
      and e = demo_env and req = login_asha]
  have names: "sb_name signup_ravi = sb_name signup_ravi_other"
    "sb_email signup_ravi = sb_email signup_ravi_other"
    by (simp_all add: signup_ravi_other_def)
  from t demo_same_public(1) have "user_toJSON asha = user_toJSON asha_rehashed" by blast
  moreover from t demo_same_public(3) have "fst (profile demo_env demo_payload demo_db)
       = fst (profile demo_env demo_payload demo_db_rehashed)" by blast
  moreover from t' demo_same_public(4) login_asha_demo(1,2)
  have "fst (login demo_env login_asha demo_db) = fst (login demo_env login_asha demo_db_reset)"
    by simp
  moreover from t demo_same_public(3) names signup_ravi_demo
  have "fst (signup demo_env signup_ravi demo_db)
       = fst (signup demo_env signup_ravi_other demo_db_rehashed)" by blast
  ultimately show ?thesis using demo_same_public login_asha_demo(1) signup_ravi_demo(1) by blast
qed

text \<open>
  The login body is not independent of the stored hash: with the credential of the one
  user replaced by the hash of another password, and nothing else changed, the same
  login request is answered 200 with a token in one store and 401 with an error in the
  other.
\<close>

theorem login_depends_on_stored_hash:
  "same_public asha asha_rehashed \<and> same_public_db demo_db demo_db_rehashed
   \<and> status (fst (login demo_env login_asha demo_db)) = 200
   \<and> status (fst (login demo_env login_asha demo_db_rehashed)) = 401
   \<and> body (fst (login demo_env login_asha demo_db))
       \<noteq> body (fst (login demo_env login_asha demo_db_rehashed))"
proof -
  have "field ''error'' (body (fst (login demo_env login_asha demo_db))) = None"
    by (simp add: login_def User_findOne_email_def User_save_def validPassword_def
      db_ok_def demo_env_fields demo_env_calls demo_db_fields
      login_asha_def truthy_def str_of_def asha_def Let_def respond_def field_def)
  moreover have "field ''error'' (body (fst (login demo_env login_asha demo_db_rehashed)))
      = Some (JStr ''Invalid credentials'')"
    by (simp add: login_asha_demo(3) respond_def error_body_def field_def)
  ultimately have "body (fst (login demo_env login_asha demo_db))
       \<noteq> body (fst (login demo_env login_asha demo_db_rehashed))"
    by auto
  then show ?thesis
    using demo_same_public(1,3) login_asha_demo(1,3) by (simp add: respond_def)
qed

section \<open>Fallback data and the news cache\<close>

text \<open>
  C4. A failing third-party call is answered with placeholder data.
  \<open>fetchStockDataForBackend\<close> always returns what \<open>getFallbackStockData\<close> gives for the
  symbol, with or without an API key, and the portfolio listing built on it is answered
  200 whenever the store answers. \<open>fetchNews\<close>, when it does not answer from the cache,
  returns the \<open>getFallbackNews\<close> list and leaves the cache as it was whenever the API key
  is missing, the global request throws, the India request is made and throws, no
  request brings an article, or the selection from the collected articles is empty. A
  keyword-search request that throws is caught inside the loop: \<open>fetchNews\<close> behaves
  exactly as if that request had come back not \<^verbatim>\<open>ok\<close>. \<open>fetchNews\<close> itself never throws:
  every exception of its body ends in one of these cases.
\<close>

theorem failures_fall_back:
  "fetchStockDataForBackend e i symbol = getFallbackStockData (random e) i symbol
   \<and> (db_ok e 0 \<longrightarrow>
        status (fst (get_portfolio e u d)) = 200 \<and> snd (get_portfolio e u d) = d)
   \<and> (\<not> cache_fresh (clock env AtCacheCheck) (newsCache st) \<and>
       (getApiKey env = None \<or> fetch_data env QGlobal = Thrown \<or>
        (length (got (fetch_data env QGlobal)) < 10 \<and> fetch_data env QIndia = Thrown) \<or>
        (\<forall>q. no_articles (fetch_data env q)) \<or>
        (\<exists>all. fst (collect_articles env) = Some all \<and> select_news env all = [])) \<longrightarrow>
        fst (fetchNews env st) = getFallbackNews (clock env AtFallback) \<and>
        snd (snd (fetchNews env st)) = st)
   \<and> fetchNews (quiet_keywords env) st = fetchNews env st"
proof (intro conjI impI)
  show "fetchStockDataForBackend e i symbol = getFallbackStockData (random e) i symbol"
    by (simp add: fetchStockDataForBackend_def)
next
  assume "db_ok e 0"
  then show "status (fst (get_portfolio e u d)) = 200" "snd (get_portfolio e u d) = d"
    by (simp_all add: get_portfolio_def Portfolio_findAll_def respond_def)
next
  assume a: "\<not> cache_fresh (clock env AtCacheCheck) (newsCache st) \<and>
       (getApiKey env = None \<or> fetch_data env QGlobal = Thrown \<or>
        (length (got (fetch_data env QGlobal)) < 10 \<and> fetch_data env QIndia = Thrown) \<or>
        (\<forall>q. no_articles (fetch_data env q)) \<or>
        (\<exists>all. fst (collect_articles env) = Some all \<and> select_news env all = []))"
  then have stale: "fetchNews env st = fetch_fresh env st" by (simp add: fetchNews_stale)
  from a have h: "getApiKey env = None \<or> fst (collect_articles env) = None \<or>
           (\<exists>all. fst (collect_articles env) = Some all \<and> select_news env all = [])"
  proof (elim conjE disjE)
    assume "fetch_data env QGlobal = Thrown"
    then show ?thesis by (simp add: collect_articles_def)
  next
    assume "length (got (fetch_data env QGlobal)) < 10" "fetch_data env QIndia = Thrown"
    then show ?thesis by (simp add: collect_india_thrown)
  next
    assume "\<forall>q. no_articles (fetch_data env q)"
    from collect_empty [OF this] show ?thesis by (auto simp: select_news_Nil)
  qed simp_all
  have r: "fst (fetch_fresh env st) = getFallbackNews (clock env AtFallback) \<and>
         snd (snd (fetch_fresh env st)) = st"
    by (rule fetch_fresh_fallback [OF h])
  show "fst (fetchNews env st) = getFallbackNews (clock env AtFallback)"
    using r stale by simp
  show "snd (snd (fetchNews env st)) = st"
    using r stale by simp
next
  show "fetchNews (quiet_keywords env) st = fetchNews env st" by (rule fetchNews_quiet)
qed

theorem failures_fall_back_witness:
  "\<not> cache_fresh (clock news_env_down AtCacheCheck) (newsCache no_cache)
   \<and> fetch_data news_env_down QGlobal = Thrown
   \<and> fst (fetchNews news_env_down no_cache) = getFallbackNews (clock news_env_down AtFallback)
   \<and> snd (snd (fetchNews news_env_down no_cache)) = no_cache
   \<and> status (fst (get_portfolio demo_env demo_payload demo_db)) = 200
   \<and> fetchStockDataForBackend demo_env 0 ''tcs'' = getFallbackStockData (random demo_env) 0 ''tcs''
   \<and> getApiKey news_env_no_key = None
   \<and> fst (fetchNews news_env_no_key no_cache) = getFallbackNews (clock news_env_no_key AtFallback)
   \<and> fetch_data news_env_silent QGlobal = Skipped
   \<and> fst (fetchNews news_env_silent no_cache) = getFallbackNews (clock news_env_silent AtFallback)"
proof -
  have no_key: "\<not> cache_fresh (clock news_env_no_key AtCacheCheck) (newsCache no_cache) \<and>
      getApiKey news_env_no_key = None"
    by (simp add: cache_fresh_def no_cache_def getApiKey_def truthy_def news_env_no_key_def)
  have silent_data: "\<And>q. fetch_data news_env_silent q = Skipped"
    by (simp add: fetch_data_def news_env_silent_def)
  have silent: "\<not> cache_fresh (clock news_env_silent AtCacheCheck) (newsCache no_cache) \<and>
      (\<forall>q. no_articles (fetch_data news_env_silent q))"
    by (simp add: cache_fresh_def no_cache_def silent_data no_articles_def)
  note t2 = failures_fall_back [where env = news_env_no_key and st = no_cache]
  note t3 = failures_fall_back [where env = news_env_silent and st = no_cache]
  from t2 no_key have r2: "fst (fetchNews news_env_no_key no_cache)
      = getFallbackNews (clock news_env_no_key AtFallback)"
    by blast
  from t3 silent have r3: "fst (fetchNews news_env_silent no_cache)
      = getFallbackNews (clock news_env_silent AtFallback)"
    by blast
  have stale: "\<not> cache_fresh (clock news_env_down AtCacheCheck) (newsCache no_cache)"
    by (simp add: cache_fresh_def no_cache_def)
  have thrown: "fetch_data news_env_down QGlobal = Thrown"
    by (simp add: fetch_data_def news_env_down_fields)
  have ok: "db_ok demo_env 0" by (simp add: db_ok_def demo_env_fields)
  note t = failures_fall_back [where e = demo_env and i = 0 and symbol = "''tcs''"
      and u = demo_payload and d = demo_db and env = news_env_down and st = no_cache]
  from t stale thrown have "fst (fetchNews news_env_down no_cache)
      = getFallbackNews (clock news_env_down AtFallback)
    \<and> snd (snd (fetchNews news_env_down no_cache)) = no_cache"
    by blast
  moreover from t ok have "status (fst (get_portfolio demo_env demo_payload demo_db)) = 200"
    by blast
  moreover from t have "fetchStockDataForBackend demo_env 0 ''tcs''
      = getFallbackStockData (random demo_env) 0 ''tcs''"
    by blast
  ultimately show ?thesis using stale thrown no_key r2 silent_data [of QGlobal] r3 by blast
qed

text \<open>
  A provider request that throws does not always lead to the fallback list: when the
  global request brings one relevant article and every keyword-search request throws,
  \<open>fetchNews\<close> returns that article.
\<close>

theorem keyword_request_throws_without_fallback:
  "\<not> cache_fresh (clock news_env_keywords_down AtCacheCheck) (newsCache no_cache)
   \<and> provider news_env_keywords_down (QKeyword ''stock'') = FetchThrows
   \<and> QKeyword ''stock'' \<in> set (fst (snd (fetchNews news_env_keywords_down no_cache)))
   \<and> fst (fetchNews news_env_keywords_down no_cache) = [tcs_item]
   \<and> fst (fetchNews news_env_keywords_down no_cache)
       \<noteq> getFallbackNews (clock news_env_keywords_down AtFallback)"
proof -
  have run: "fetchNews news_env_keywords_down no_cache
      = ([tcs_item],
         [QGlobal, QIndia, QKeyword ''stock'', QKeyword ''market'', QKeyword ''investment'',
          QKeyword ''financial'', QKeyword ''economy''],
         store_cache news_env_keywords_down
           \<lparr>c_data = [tcs_item], c_timestamp = 1000000000\<rparr> no_cache)"
    by (simp add: fetchNews_def fetch_fresh_def getApiKey_def truthy_def no_cache_def
        news_env_keywords_down_fields keywords_down_collect keywords_down_select Let_def)
  have "length (fst (fetchNews news_env_keywords_down no_cache))
      \<noteq> length (getFallbackNews (clock news_env_keywords_down AtFallback))"
    by (simp add: run length_getFallbackNews)
  then have differ: "fst (fetchNews news_env_keywords_down no_cache)
       \<noteq> getFallbackNews (clock news_env_keywords_down AtFallback)"
    by auto
  have stale: "\<not> cache_fresh (clock news_env_keywords_down AtCacheCheck) (newsCache no_cache)"
    by (simp add: cache_fresh_def no_cache_def)
  have called: "QKeyword ''stock'' \<in> set (fst (snd (fetchNews news_env_keywords_down no_cache)))"
    by (simp add: run)
  have result: "fst (fetchNews news_env_keywords_down no_cache) = [tcs_item]"
    by (simp add: run)
  show ?thesis
    using stale called result differ news_env_keywords_down_fields(4) [of "''stock''"]
    by blast
qed

text \<open>
  C8. The news cache is a time-to-live check with a 20-minute \<open>CACHE_DURATION\<close>. When the
  module's cache entry exists and its age at the check is strictly less than
  \<open>CACHE_DURATION\<close>, \<open>fetchNews\<close> returns the cached list, makes no provider request and
  changes nothing, and \<open>getCachedNews\<close> returns the same list. With an API key
  configured, \<open>fetchNews\<close> makes no provider request exactly in that case; without a key
  and without a fresh entry it returns the fallback list. \<open>getCachedNews\<close> otherwise
  returns the list of the \<^verbatim>\<open>localStorage\<close> entry when that entry is younger than
  \<open>CACHE_DURATION\<close>, adopting it as the module's cache, and the empty list when neither
  entry is fresh. Neither function ever removes an entry: an expired entry stays until a
  newly fetched list replaces it.
\<close>

theorem news_cache_time_to_live:
  "CACHE_DURATION = 20 * 60 * 1000
   \<and> (\<forall>c. newsCache st = Some c \<and> clock env AtCacheCheck - c_timestamp c < CACHE_DURATION \<longrightarrow>
        fetchNews env st = (c_data c, [], st) \<and> getCachedNews env st = (c_data c, st))
   \<and> (truthy (VITE_MARKETAUX_API_KEY env) \<longrightarrow>
        (fst (snd (fetchNews env st)) = [] \<longleftrightarrow>
         cache_fresh (clock env AtCacheCheck) (newsCache st)))
   \<and> (\<not> truthy (VITE_MARKETAUX_API_KEY env) \<and>
       \<not> cache_fresh (clock env AtCacheCheck) (newsCache st) \<longrightarrow>
        fetchNews env st = (getFallbackNews (clock env AtFallback), [], st))
   \<and> (\<forall>c. \<not> cache_fresh (clock env AtCacheCheck) (newsCache st) \<and>
        localStorage_newsCache st = Some (Stored c) \<and>
        clock env AtStorageCheck - c_timestamp c < CACHE_DURATION \<longrightarrow>
        getCachedNews env st = (c_data c, st\<lparr>newsCache := Some c\<rparr>))
   \<and> (\<not> cache_fresh (clock env AtCacheCheck) (newsCache st) \<and>
       \<not> (\<exists>c. localStorage_newsCache st = Some (Stored c) \<and>
              clock env AtStorageCheck - c_timestamp c < CACHE_DURATION) \<longrightarrow>
        getCachedNews env st = ([], st))
   \<and> (newsCache st \<noteq> None \<longrightarrow>
        newsCache (snd (snd (fetchNews env st))) \<noteq> None \<and>
        newsCache (snd (getCachedNews env st)) \<noteq> None)
   \<and> (localStorage_newsCache st \<noteq> None \<longrightarrow>
        localStorage_newsCache (snd (snd (fetchNews env st))) \<noteq> None \<and>
        localStorage_newsCache (snd (getCachedNews env st)) \<noteq> None)"
proof (intro conjI impI allI)
  show "CACHE_DURATION = 20 * 60 * 1000" by (simp add: CACHE_DURATION_def)
next
  fix c
  assume a: "newsCache st = Some c \<and> clock env AtCacheCheck - c_timestamp c < CACHE_DURATION"
  then show "fetchNews env st = (c_data c, [], st)" by (simp add: fetchNews_hit)
  from a show "getCachedNews env st = (c_data c, st)" by (simp add: getCachedNews_memory)
next
  assume "truthy (VITE_MARKETAUX_API_KEY env)"
  then show "fst (snd (fetchNews env st)) = [] \<longleftrightarrow>
      cache_fresh (clock env AtCacheCheck) (newsCache st)"
    by (rule fetchNews_calls)
next
  assume "\<not> truthy (VITE_MARKETAUX_API_KEY env) \<and>
       \<not> cache_fresh (clock env AtCacheCheck) (newsCache st)"
  then show "fetchNews env st = (getFallbackNews (clock env AtFallback), [], st)"
    by (simp add: fetchNews_stale fetch_fresh_no_key)
next
  fix c
  assume "\<not> cache_fresh (clock env AtCacheCheck) (newsCache st) \<and>
        localStorage_newsCache st = Some (Stored c) \<and>
        clock env AtStorageCheck - c_timestamp c < CACHE_DURATION"
  then show "getCachedNews env st = (c_data c, st\<lparr>newsCache := Some c\<rparr>)"
    by (simp add: getCachedNews_storage)
next
  assume "\<not> cache_fresh (clock env AtCacheCheck) (newsCache st) \<and>
       \<not> (\<exists>c. localStorage_newsCache st = Some (Stored c) \<and>
              clock env AtStorageCheck - c_timestamp c < CACHE_DURATION)"
  then show "getCachedNews env st = ([], st)"
    by (simp add: getCachedNews_none)
next
  assume "newsCache st \<noteq> None"
  then show "newsCache (snd (snd (fetchNews env st))) \<noteq> None"
    "newsCache (snd (getCachedNews env st)) \<noteq> None"
    using fetchNews_keeps [of st env] getCachedNews_keeps [of st env] by simp_all
next
  assume "localStorage_newsCache st \<noteq> None"
  then show "localStorage_newsCache (snd (snd (fetchNews env st))) \<noteq> None"
    "localStorage_newsCache (snd (getCachedNews env st)) \<noteq> None"
    using fetchNews_keeps [of st env] getCachedNews_keeps [of st env] by simp_all
qed

theorem news_cache_time_to_live_witness:
  "newsCache recent_cache = Some \<lparr>c_data = [tcs_item], c_timestamp = 999500000\<rparr>
   \<and> clock news_env_down AtCacheCheck - 999500000 < CACHE_DURATION
   \<and> fetchNews news_env_down recent_cache = ([tcs_item], [], recent_cache)
   \<and> getCachedNews news_env_down recent_cache = ([tcs_item], recent_cache)
   \<and> \<not> cache_fresh (clock news_env_down AtCacheCheck) (newsCache stale_cache)
   \<and> fst (snd (fetchNews news_env_down stale_cache)) \<noteq> []
   \<and> getCachedNews news_env_down stale_cache
       = ([tcs_item],
          stale_cache\<lparr>newsCache := Some \<lparr>c_data = [tcs_item], c_timestamp = 999500000\<rparr>\<rparr>)
   \<and> newsCache (snd (snd (fetchNews news_env_down stale_cache))) \<noteq> None
   \<and> fetchNews news_env_no_key no_cache
       = (getFallbackNews (clock news_env_no_key AtFallback), [], no_cache)
   \<and> getCachedNews news_env_no_key no_cache = ([], no_cache)
   \<and> localStorage_newsCache (snd (snd (fetchNews news_env_down stale_cache))) \<noteq> None"
proof -
  let ?c = "\<lparr>c_data = [tcs_item], c_timestamp = 999500000\<rparr>"
  have none: "\<not> truthy (VITE_MARKETAUX_API_KEY news_env_no_key) \<and>
      \<not> cache_fresh (clock news_env_no_key AtCacheCheck) (newsCache no_cache)"
    by (simp add: truthy_def cache_fresh_def no_cache_def news_env_no_key_def)
  have none_stored: "\<not> cache_fresh (clock news_env_no_key AtCacheCheck) (newsCache no_cache) \<and>
      \<not> (\<exists>c. localStorage_newsCache no_cache = Some (Stored c) \<and>
             clock news_env_no_key AtStorageCheck - c_timestamp c < CACHE_DURATION)"
    by (simp add: cache_fresh_def no_cache_def)
  have in_storage: "localStorage_newsCache stale_cache \<noteq> None"
    by (simp add: stale_cache_def)
  note n = news_cache_time_to_live [where st = no_cache and env = news_env_no_key]
  from n none have r5: "fetchNews news_env_no_key no_cache
       = (getFallbackNews (clock news_env_no_key AtFallback), [], no_cache)"
    by blast
  from n none_stored have r6: "getCachedNews news_env_no_key no_cache = ([], no_cache)"
    by blast
  have hit: "newsCache recent_cache = Some ?c \<and>
      clock news_env_down AtCacheCheck - c_timestamp ?c < CACHE_DURATION"
    by (simp add: recent_cache_def news_env_down_fields CACHE_DURATION_def)
  have key: "truthy (VITE_MARKETAUX_API_KEY news_env_down)"
    by (simp add: truthy_def news_env_down_fields)
  have stale: "\<not> cache_fresh (clock news_env_down AtCacheCheck) (newsCache stale_cache)"
    by (simp add: cache_fresh_def stale_cache_def news_env_down_fields CACHE_DURATION_def)
  have stored: "localStorage_newsCache stale_cache = Some (Stored ?c) \<and>
      clock news_env_down AtStorageCheck - c_timestamp ?c < CACHE_DURATION"
    by (simp add: stale_cache_def news_env_down_fields CACHE_DURATION_def)
  have kept: "newsCache stale_cache \<noteq> None" by (simp add: stale_cache_def)
  note a = news_cache_time_to_live [where st = recent_cache and env = news_env_down]
  note b = news_cache_time_to_live [where st = stale_cache and env = news_env_down]
  from a hit have "fetchNews news_env_down recent_cache = (c_data ?c, [], recent_cache)
      \<and> getCachedNews news_env_down recent_cache = (c_data ?c, recent_cache)"
    by blast
  then have r1: "fetchNews news_env_down recent_cache = ([tcs_item], [], recent_cache)
      \<and> getCachedNews news_env_down recent_cache = ([tcs_item], recent_cache)"
    by simp
  from b key stale have r2: "fst (snd (fetchNews news_env_down stale_cache)) \<noteq> []"
    by blast
  from b stale stored have "getCachedNews news_env_down stale_cache
       = (c_data ?c, stale_cache\<lparr>newsCache := Some ?c\<rparr>)"
    by blast
  then have r3: "getCachedNews news_env_down stale_cache
       = ([tcs_item], stale_cache\<lparr>newsCache := Some ?c\<rparr>)"
    by simp
  from b kept have r4: "newsCache (snd (snd (fetchNews news_env_down stale_cache))) \<noteq> None"
    by blast
  from hit have h1: "newsCache recent_cache = Some ?c"
    and h2: "clock news_env_down AtCacheCheck - 999500000 < CACHE_DURATION"
    by simp_all
  from b in_storage
  have r7: "localStorage_newsCache (snd (snd (fetchNews news_env_down stale_cache))) \<noteq> None"
    by blast
  show ?thesis using h1 h2 r1 stale r2 r3 r4 r5 r6 r7 by blast
qed

end
